theory Spec2Isabelle
  imports Main "HOL-Library.Sublist" "HOL-Library.AList"
begin

section \<open>Python values and strings\<close>

text \<open>
  A lead is a JSON object. Its field values are modelled by \<open>pyval\<close>: JSON null, booleans,
  integers and strings. Arrays, objects and non-integral numbers are left out.
  A Python \<open>str\<close> is modelled by a HOL \<open>string\<close>, read as a sequence of code points below 256
  (Latin-1); the character classes below are Python's classes on these code points.
  The two exceptions the audited functions can raise on such values are kept as values.
\<close>

datatype py_error = TypeError | AttributeError

datatype pyval = PNone | PBool bool | PInt int | PStr string

type_synonym lead = "string \<rightharpoonup> pyval"

definition cp :: "char \<Rightarrow> nat" where
  "cp c = of_char c"

text \<open>\<open>str.isspace\<close>, and \<open>\s\<close> in a \<open>str\<close> pattern.\<close>
definition is_space :: "char \<Rightarrow> bool" where
  "is_space c = ((9 \<le> cp c \<and> cp c \<le> 13) \<or> (28 \<le> cp c \<and> cp c \<le> 32) \<or> cp c = 133 \<or> cp c = 160)"

text \<open>\<open>\d\<close> in a \<open>str\<close> pattern (decimal digits), and \<open>[0-9]\<close>.\<close>
definition is_decimal :: "char \<Rightarrow> bool" where
  "is_decimal c = (48 \<le> cp c \<and> cp c \<le> 57)"

text \<open>\<open>str.isdigit\<close>: the decimal digits and the superscripts 1, 2, 3.\<close>
definition is_digit :: "char \<Rightarrow> bool" where
  "is_digit c = (is_decimal c \<or> cp c = 178 \<or> cp c = 179 \<or> cp c = 185)"

text \<open>\<open>[A-Z]\<close>, \<open>[a-z]\<close> and \<open>[a-zA-Z]\<close>.\<close>
definition is_ascii_upper :: "char \<Rightarrow> bool" where
  "is_ascii_upper c = (65 \<le> cp c \<and> cp c \<le> 90)"

definition is_ascii_lower :: "char \<Rightarrow> bool" where
  "is_ascii_lower c = (97 \<le> cp c \<and> cp c \<le> 122)"

definition is_ascii_letter :: "char \<Rightarrow> bool" where
  "is_ascii_letter c = (is_ascii_upper c \<or> is_ascii_lower c)"

text \<open>\<open>str.isalpha\<close>.\<close>
definition is_alpha :: "char \<Rightarrow> bool" where
  "is_alpha c = (is_ascii_letter c \<or> cp c = 170 \<or> cp c = 181 \<or> cp c = 186
     \<or> (192 \<le> cp c \<and> cp c \<le> 214) \<or> (216 \<le> cp c \<and> cp c \<le> 246) \<or> 248 \<le> cp c)"

text \<open>\<open>\w\<close> in a \<open>str\<close> pattern: alphanumeric characters (letters, digits, and the
  numeric characters one quarter, one half, three quarters) and the underscore.\<close>
definition is_word :: "char \<Rightarrow> bool" where
  "is_word c = (is_alpha c \<or> is_digit c \<or> (188 \<le> cp c \<and> cp c \<le> 190) \<or> cp c = 95)"

text \<open>\<open>str.lower\<close>, character by character on Latin-1.\<close>
definition lower_char :: "char \<Rightarrow> char" where
  "lower_char c =
     (if is_ascii_upper c \<or> (192 \<le> cp c \<and> cp c \<le> 214) \<or> (216 \<le> cp c \<and> cp c \<le> 222)
      then char_of (cp c + 32) else c)"

definition lower :: "string \<Rightarrow> string" where
  "lower s = map lower_char s"

definition lstrip :: "string \<Rightarrow> string" where
  "lstrip s = dropWhile is_space s"

definition rstrip :: "string \<Rightarrow> string" where
  "rstrip s = rev (dropWhile is_space (rev s))"

definition strip :: "string \<Rightarrow> string" where
  "strip s = rstrip (lstrip s)"

text \<open>\<open>s.rstrip(c)\<close> for a one-character argument.\<close>
definition rstrip_chr :: "char \<Rightarrow> string \<Rightarrow> string" where
  "rstrip_chr c s = rev (dropWhile (\<lambda>x. x = c) (rev s))"

definition startswith :: "string \<Rightarrow> string \<Rightarrow> bool" where
  "startswith s p = prefix p s"

definition endswith :: "string \<Rightarrow> string \<Rightarrow> bool" where
  "endswith s p = suffix p s"

text \<open>\<open>p in s\<close> for strings.\<close>
fun contains :: "string \<Rightarrow> string \<Rightarrow> bool" where
  "contains p [] = (p = [])"
| "contains p (c # cs) = (prefix p (c # cs) \<or> contains p cs)"

text \<open>The maximal runs of characters satisfying \<open>P\<close>, left to right.\<close>
fun runs_aux :: "(char \<Rightarrow> bool) \<Rightarrow> string \<Rightarrow> string \<Rightarrow> string list" where
  "runs_aux P acc [] = (if acc = [] then [] else [rev acc])"
| "runs_aux P acc (c # cs) =
     (if P c then runs_aux P (c # acc) cs
      else if acc = [] then runs_aux P [] cs
      else rev acc # runs_aux P [] cs)"

definition runs :: "(char \<Rightarrow> bool) \<Rightarrow> string \<Rightarrow> string list" where
  "runs P s = runs_aux P [] s"

text \<open>What a maximal run is, said without the loop: a non-empty stretch of \<open>s\<close> whose characters
  all satisfy \<open>P\<close>, with no such character directly before or directly after it.\<close>
definition maximal_run :: "(char \<Rightarrow> bool) \<Rightarrow> string \<Rightarrow> string \<Rightarrow> bool" where
  "maximal_run P w s =
     (w \<noteq> [] \<and> (\<forall>c \<in> set w. P c)
      \<and> (\<exists>pre post. s = pre @ w @ post
            \<and> (pre = [] \<or> \<not> P (last pre)) \<and> (post = [] \<or> \<not> P (hd post))))"

text \<open>\<open>s.split()\<close>: the maximal runs of non-whitespace characters.\<close>
definition split_ws :: "string \<Rightarrow> string list" where
  "split_ws s = runs (\<lambda>c. \<not> is_space c) s"

text \<open>\<open>re.findall(r'\b\w+\b', s)\<close>: a match starts at a word boundary, takes word characters
  greedily and must end at a word boundary, so the matches are the maximal runs of word
  characters.\<close>
definition findall_words :: "string \<Rightarrow> string list" where
  "findall_words s = runs is_word s"

text \<open>\<open>s.split(sep)\<close> for a one-character separator; the result is never empty.\<close>
fun split_on :: "char \<Rightarrow> string \<Rightarrow> string list" where
  "split_on sep [] = [[]]"
| "split_on sep (c # cs) =
     (if c = sep then [] # split_on sep cs
      else (case split_on sep cs of [] \<Rightarrow> [[c]] | p # ps \<Rightarrow> (c # p) # ps))"

text \<open>\<open>s.split(sep)[0]\<close>.\<close>
definition split_head :: "char \<Rightarrow> string \<Rightarrow> string" where
  "split_head sep s = (case split_on sep s of [] \<Rightarrow> [] | p # ps \<Rightarrow> p)"

text \<open>\<open>s.split(sep)[1]\<close>, read only where \<open>sep in s\<close>.\<close>
definition split_second :: "char \<Rightarrow> string \<Rightarrow> string" where
  "split_second sep s = (case split_on sep s of p # q # qs \<Rightarrow> q | _ \<Rightarrow> [])"

text \<open>\<open>sep.join(xs)\<close>.\<close>
fun join :: "string \<Rightarrow> string list \<Rightarrow> string" where
  "join sep [] = []"
| "join sep [x] = x"
| "join sep (x # y # ys) = x @ sep @ join sep (y # ys)"

text \<open>\<open>s.replace(p, '')\<close> for a non-empty \<open>p\<close>: every occurrence found scanning left to
  right is dropped; \<open>k\<close> counts the characters of the current occurrence still to skip.\<close>
fun remove_all_aux :: "string \<Rightarrow> nat \<Rightarrow> string \<Rightarrow> string" where
  "remove_all_aux p k [] = []"
| "remove_all_aux p k (c # cs) =
     (if 0 < k then remove_all_aux p (k - 1) cs
      else if prefix p (c # cs) then remove_all_aux p (length p - 1) cs
      else c # remove_all_aux p 0 cs)"

definition remove_all :: "string \<Rightarrow> string \<Rightarrow> string" where
  "remove_all p s = remove_all_aux p 0 s"

text \<open>\<open>re.sub(r'/+', '/', s)\<close>: every run of slashes becomes one slash.\<close>
fun squeeze_slashes :: "string \<Rightarrow> string" where
  "squeeze_slashes [] = []"
| "squeeze_slashes [c] = [c]"
| "squeeze_slashes (c # d # cs) =
     (if c = CHR ''/'' \<and> d = CHR ''/'' then squeeze_slashes (d # cs)
      else c # squeeze_slashes (d # cs))"

text \<open>\<open>re.sub('^' + p, '', s)\<close> for a literal \<open>p\<close>.\<close>
definition drop_prefix :: "string \<Rightarrow> string \<Rightarrow> string" where
  "drop_prefix p s = (if prefix p s then drop (length p) s else s)"

text \<open>Decimal rendering of integers, as \<open>str(n)\<close> and f-strings do.\<close>
definition digit_char :: "nat \<Rightarrow> char" where
  "digit_char d = char_of (48 + d)"

fun dec_digits :: "nat \<Rightarrow> nat \<Rightarrow> string" where
  "dec_digits 0 n = []"
| "dec_digits (Suc fuel) n =
     (if n < 10 then [digit_char n] else dec_digits fuel (n div 10) @ [digit_char (n mod 10)])"

definition str_of_nat :: "nat \<Rightarrow> string" where
  "str_of_nat n = dec_digits (Suc n) n"

definition str_of_int :: "int \<Rightarrow> string" where
  "str_of_int i = (if i < 0 then CHR ''-'' # str_of_nat (nat (- i)) else str_of_nat (nat i))"

text \<open>Truth value (\<open>not v\<close> is its negation) and \<open>str(v)\<close>.\<close>
fun truthy :: "pyval \<Rightarrow> bool" where
  "truthy PNone = False"
| "truthy (PBool b) = b"
| "truthy (PInt i) = (i \<noteq> 0)"
| "truthy (PStr s) = (s \<noteq> [])"

fun py_str :: "pyval \<Rightarrow> string" where
  "py_str PNone = ''None''"
| "py_str (PBool b) = (if b then ''True'' else ''False'')"
| "py_str (PInt i) = str_of_int i"
| "py_str (PStr s) = s"

text \<open>\<open>lead.get(k, d)\<close> and \<open>lead.get(k)\<close>.\<close>
definition get_or :: "lead \<Rightarrow> string \<Rightarrow> pyval \<Rightarrow> pyval" where
  "get_or ld k d = (case ld k of None \<Rightarrow> d | Some v \<Rightarrow> v)"

definition get_none :: "lead \<Rightarrow> string \<Rightarrow> pyval" where
  "get_none ld k = get_or ld k PNone"

text \<open>\<open>v in xs\<close> for a list of strings: only a string can be equal to an element.\<close>
fun in_strs :: "pyval \<Rightarrow> string list \<Rightarrow> bool" where
  "in_strs (PStr s) xs = (s \<in> set xs)"
| "in_strs v xs = False"

section \<open>Regular expressions\<close>

text \<open>
  A pattern is a function from a matching state (the character just before the current
  position, when there is one, and the rest of the subject) to the states after each way of
  matching, in the order in which Python's backtracking matcher tries them (greedy first).
  A pattern matches at a state when this list is not empty; the first element is the match
  that \<open>re\<close> reports.
\<close>

type_synonym rstate = "char option \<times> string"
type_synonym rx = "rstate \<Rightarrow> rstate list"

text \<open>One character of a class.\<close>
definition rx_cls :: "(char \<Rightarrow> bool) \<Rightarrow> rx" where
  "rx_cls P st = (case snd st of [] \<Rightarrow> [] | c # cs \<Rightarrow> if P c then [(Some c, cs)] else [])"

text \<open>A literal string.\<close>
fun rx_lit :: "string \<Rightarrow> rx" where
  "rx_lit [] st = [st]"
| "rx_lit (x # xs) st =
     (case snd st of [] \<Rightarrow> [] | c # cs \<Rightarrow> if c = x then rx_lit xs (Some c, cs) else [])"

definition rx_seq :: "rx \<Rightarrow> rx \<Rightarrow> rx" where
  "rx_seq a b st = concat (map b (a st))"

definition rx_alt :: "rx \<Rightarrow> rx \<Rightarrow> rx" where
  "rx_alt a b st = a st @ b st"

text \<open>\<open>(?:a|b|...)\<close> over a list of alternatives.\<close>
definition rx_alts :: "rx list \<Rightarrow> rx" where
  "rx_alts rs st = concat (map (\<lambda>r. r st) rs)"

text \<open>\<open>a?\<close>, greedy.\<close>
definition rx_opt :: "rx \<Rightarrow> rx" where
  "rx_opt a st = a st @ [st]"

text \<open>\<open>[class]*\<close>, greedy: the longest run first, then each shorter one.\<close>
fun rx_star_aux :: "(char \<Rightarrow> bool) \<Rightarrow> char option \<Rightarrow> string \<Rightarrow> rstate list" where
  "rx_star_aux P p [] = [(p, [])]"
| "rx_star_aux P p (c # cs) =
     (if P c then rx_star_aux P (Some c) cs @ [(p, c # cs)] else [(p, c # cs)])"

definition rx_star :: "(char \<Rightarrow> bool) \<Rightarrow> rx" where
  "rx_star P st = rx_star_aux P (fst st) (snd st)"

text \<open>\<open>r{n}\<close>.\<close>
fun rx_times :: "nat \<Rightarrow> rx \<Rightarrow> rx" where
  "rx_times 0 r = (\<lambda>st. [st])"
| "rx_times (Suc n) r = rx_seq r (rx_times n r)"

text \<open>\<open>[class]{n,}\<close>; \<open>[class]+\<close> is the case \<open>n = 1\<close>.\<close>
definition rx_atleast :: "nat \<Rightarrow> (char \<Rightarrow> bool) \<Rightarrow> rx" where
  "rx_atleast n P = rx_seq (rx_times n (rx_cls P)) (rx_star P)"

definition rx_plus :: "(char \<Rightarrow> bool) \<Rightarrow> rx" where
  "rx_plus P = rx_atleast 1 P"

text \<open>\<open>\b\<close>: exactly one of the two neighbouring characters is a word character.\<close>
definition rx_wordb :: rx where
  "rx_wordb st =
     (if (case fst st of None \<Rightarrow> False | Some c \<Rightarrow> is_word c)
         \<noteq> (case snd st of [] \<Rightarrow> False | c # cs \<Rightarrow> is_word c)
      then [st] else [])"

text \<open>\<open>$\<close> without \<open>re.MULTILINE\<close>: the end of the subject, or just before a newline that
  ends it.\<close>
definition rx_eol :: rx where
  "rx_eol st = (if snd st = [] \<or> snd st = [CHR 0x0A] then [st] else [])"

text \<open>\<open>re.match\<close>, also used for a searched pattern that starts with \<open>^\<close>.\<close>
definition re_match :: "rx \<Rightarrow> string \<Rightarrow> bool" where
  "re_match r s = (r (None, s) \<noteq> [])"

fun search_from :: "rx \<Rightarrow> char option \<Rightarrow> string \<Rightarrow> bool" where
  "search_from r p [] = (r (p, []) \<noteq> [])"
| "search_from r p (c # cs) = (r (p, c # cs) \<noteq> [] \<or> search_from r (Some c) cs)"

text \<open>\<open>re.search\<close> as a truth value.\<close>
definition re_search :: "rx \<Rightarrow> string \<Rightarrow> bool" where
  "re_search r s = search_from r None s"

text \<open>The leftmost match: the subject from where the match starts, and what is left after it.\<close>
fun first_match_from :: "rx \<Rightarrow> char option \<Rightarrow> string \<Rightarrow> (string \<times> string) option" where
  "first_match_from r p [] = (case r (p, []) of [] \<Rightarrow> None | st # sts \<Rightarrow> Some ([], snd st))"
| "first_match_from r p (c # cs) =
     (case r (p, c # cs) of [] \<Rightarrow> first_match_from r (Some c) cs
      | st # sts \<Rightarrow> Some (c # cs, snd st))"

text \<open>\<open>len(re.search(r, s).group())\<close>, when there is a match.\<close>
definition search_len :: "rx \<Rightarrow> string \<Rightarrow> nat option" where
  "search_len r s =
     (case first_match_from r None s of None \<Rightarrow> None
      | Some (a, b) \<Rightarrow> Some (length a - length b))"

text \<open>\<open>(.)\1{k,}\<close> with \<open>n = k + 1\<close>: some character other than a newline occurs \<open>n\<close> times in
  a row.\<close>
fun has_repeat :: "nat \<Rightarrow> string \<Rightarrow> bool" where
  "has_repeat n [] = False"
| "has_repeat n (c # cs) = ((c \<noteq> CHR 0x0A \<and> prefix (replicate n c) (c # cs)) \<or> has_repeat n cs)"

text \<open>The character classes of the patterns.\<close>
definition email_local_cls :: "char \<Rightarrow> bool" where
  "email_local_cls c = (is_ascii_letter c \<or> is_decimal c \<or> c \<in> set ''._%+-'')"

definition email_domain_cls :: "char \<Rightarrow> bool" where
  "email_domain_cls c = (is_ascii_letter c \<or> is_decimal c \<or> c \<in> set ''.-'')"

definition email_local_ucls :: "char \<Rightarrow> bool" where
  "email_local_ucls c = (is_word c \<or> c \<in> set ''._%+-'')"

definition email_domain_ucls :: "char \<Rightarrow> bool" where
  "email_domain_ucls c = (is_word c \<or> c \<in> set ''.-'')"

definition is_hex :: "char \<Rightarrow> bool" where
  "is_hex c = ((97 \<le> cp c \<and> cp c \<le> 102) \<or> (65 \<le> cp c \<and> cp c \<le> 70) \<or> is_decimal c)"

text \<open>\<open>[a-zA-Z0-9._%+-]+@[a-zA-Z0-9.-]+\.[a-zA-Z]{2,}\<close>\<close>
definition rx_email :: rx where
  "rx_email = rx_seq (rx_plus email_local_cls) (rx_seq (rx_lit ''@'')
     (rx_seq (rx_plus email_domain_cls) (rx_seq (rx_lit ''.'') (rx_atleast 2 is_ascii_letter))))"

text \<open>\<open>https?://\<close>\<close>
definition rx_scheme :: rx where
  "rx_scheme = rx_seq (rx_lit ''http'') (rx_seq (rx_opt (rx_lit ''s'')) (rx_lit ''://''))"

section \<open>Rule tables\<close>

text \<open>
  The constants of the module, in the order of the source. A \<open>dict\<close> is a list of pairs in
  insertion order; a \<open>set\<close> that is only tested for membership is a list.
\<close>

record icp =
  name :: string
  sub_industries :: "string list"
  roles :: "string list"
  regions :: "string list option"

definition ROLE_TYPOS :: "(string \<times> string list) list" where
  "ROLE_TYPOS =
     [
      (''manager'',
       [''manger'', ''maneger'', ''managr'', ''mangaer'', ''manaager'', ''managar'',
        ''manageer'', ''maanger'', ''mamager'', ''mnager'', ''mangager'', ''mananger'',
        ''managaer'', ''managre'', ''maager'', ''managerr'', ''mananager'', ''manater'',
        ''maneger'']),
      (''management'',
       [''managment'', ''managemnt'', ''manegement'', ''managament'', ''mangement'',
        ''managenment'', ''managerment'', ''managemnet'', ''managemetn'']),
      (''director'',
       [''directer'', ''directur'', ''direcor'', ''directot'', ''drector'', ''direktor'',
        ''diector'', ''directior'', ''directr'', ''direcctor'', ''dirctor'', ''directore'',
        ''derector'', ''directoer'', ''direcotr'', ''directoor'']),
      (''engineer'',
       [''enginer'', ''enginear'', ''enigneer'', ''engineeer'', ''enginner'', ''enginere'',
        ''engeneer'', ''engnieer'', ''engieer'', ''engieneer'', ''engineerr'', ''enginee'',
        ''enegineer'', ''engineir'', ''engenear'', ''engineear'', ''engienear'',
        ''engineerng'']),
      (''engineering'',
       [''enginnering'', ''enginering'', ''engeneering'', ''enginneering'', ''engineerig'',
        ''engineerng'', ''engieneering'', ''engineerring'']),
      (''developer'',
       [''develper'', ''developper'', ''devloper'', ''develoer'', ''develeoper'',
        ''devoloper'', ''developor'', ''develope'', ''develoepr'', ''developr'',
        ''devleoper'', ''develpoer'', ''develloper'', ''developeer'']),
      (''development'',
       [''developement'', ''devlopment'', ''develoment'', ''developmnet'',
        ''develepoment'', ''developmentt'', ''developmnt'', ''develepment'', ''developmet'']),
      (''analyst'',
       [''analist'', ''analys'', ''analysit'', ''anlyst'', ''analyist'', ''annalyst'',
        ''analayst'', ''analst'', ''analyyst'', ''analyet'', ''analyts'', ''anaylst'']),
      (''consultant'',
       [''consulant'', ''consultent'', ''consutant'', ''consaltant'', ''consultat'',
        ''consultnat'', ''consulent'', ''consultannt'', ''consultanat'', ''consulatnt'']),
      (''specialist'',
       [''specalist'', ''specilist'', ''specialst'', ''spcialist'', ''specailist'',
        ''specialits'', ''speicalist'', ''specialsit'', ''speciliast'']),
      (''coordinator'',
       [''cordinator'', ''coodinator'', ''coordiantor'', ''coordinater'', ''cooridnator'',
        ''coordnator'', ''corrdinator'', ''coordiator'', ''coordintor'', ''cordinater'']),
      (''executive'',
       [''excutive'', ''exective'', ''executiv'', ''executve'', ''exucutive'',
        ''exectuive'', ''executivee'', ''exectutive'', ''executibe'', ''execuitve'',
        ''executuve'']),
      (''assistant'',
       [''assitant'', ''asistant'', ''assistnat'', ''assisant'', ''assitent'',
        ''asisstant'', ''assistent'', ''assistatn'', ''assisatnt'', ''assisstant'']),
      (''president'',
       [''presidant'', ''presedent'', ''presiden'', ''presidnet'', ''presindent'',
        ''presient'', ''presidnt'', ''presidenet'']),
      (''senior'',
       [''senoir'', ''seinor'', ''snior'', ''senioe'', ''seior'', ''senor'', ''senioor'']),
      (''junior'',
       [''junoir'', ''junioe'', ''jnior'', ''junor'', ''juior'']),
      (''architect'',
       [''architec'', ''arcitect'', ''architecht'', ''architech'', ''artchitect'',
        ''architct'', ''archtiect'', ''architectt'', ''archirect'']),
      (''accountant'',
       [''accountent'', ''acountant'', ''accountan'', ''acocuntant'', ''accoutant'',
        ''accountnat'', ''accounant'', ''accountat'', ''accontant'']),
      (''administrator'',
       [''administator'', ''adminstrator'', ''adminisrator'', ''adminsitrator'',
        ''adminstator'', ''administrater'', ''adminitrator'', ''administraor'']),
      (''representative'',
       [''representive'', ''represenative'', ''representaive'', ''represetative'',
        ''representatie'', ''representativee'', ''representatve'', ''represntative'']),
      (''supervisor'',
       [''superviser'', ''supervior'', ''supervsior'', ''suprevisor'', ''supervisior'',
        ''supervisr'', ''superivsor'', ''superviosr'', ''supervisoor'']),
      (''marketing'',
       [''markting'', ''marketng'', ''makreting'', ''markeeting'', ''marketign'',
        ''marekting'', ''martketing'', ''marketinng'', ''marketin'']),
      (''operations'',
       [''opertions'', ''operatons'', ''oprations'', ''operatiosn'', ''opeartions'',
        ''operatins'', ''operaions'', ''opertaions'']),
      (''finance'',
       [''finace'', ''finanace'', ''financ'', ''fianance'', ''finacne'', ''fiannce'']),
      (''financial'',
       [''finacial'', ''financal'', ''finanical'', ''financila'', ''finanaical'']),
      (''associate'',
       [''assocaite'', ''asociate'', ''assoicate'', ''assocate'', ''associte'',
        ''associat'', ''asscoiate'', ''associae'']),
      (''founder'',
       [''foundr'', ''foundre'', ''founer'', ''foudner'', ''foundeer'', ''founde'']),
      (''officer'',
       [''oficer'', ''offcer'', ''officr'', ''offcier'', ''offier'', ''officeer'']),
      (''partner'',
       [''partener'', ''parter'', ''partnr'', ''partenr'', ''partne'', ''partneer'']),
      (''technician'',
       [''techician'', ''techncian'', ''technicain'', ''technican'', ''technicina'']),
      (''technical'',
       [''techincal'', ''tehcnical'', ''tecnical'', ''techical'', ''technicla'']),
      (''technology'',
       [''technolgy'', ''techonology'', ''technoloy'', ''techology'', ''technologyy'']),
      (''recruiter'',
       [''recuiter'', ''recruter'', ''recruitor'', ''recrutier'', ''recruitr'']),
      (''attorney'',
       [''attoney'', ''attorny'', ''atorney'', ''attornet'', ''attornney'', ''attoreny'']),
      (''designer'',
       [''desinger'', ''desginer'', ''designr'', ''deisgner'', ''designeer'', ''desiner'']),
      (''strategist'',
       [''strategis'', ''startegist'', ''stratagist'', ''stategist'', ''strategsit'']),
      (''business'',
       [''busines'', ''buisness'', ''bussiness'', ''busniess'', ''buisines'', ''bussines'',
        ''businss'', ''busienss'', ''busniness'', ''bsuiness'']),
      (''customer'',
       [''custmer'', ''cutomer'', ''custormer'', ''cusotmer'', ''customr'', ''custommer'']),
      (''product'',
       [''prodcut'', ''porduct'', ''prduct'', ''proudct'', ''produc'', ''producct'']),
      (''project'',
       [''porject'', ''proejct'', ''projec'', ''prject'', ''proect'', ''projct'']),
      (''software'',
       [''sofware'', ''sotware'', ''softwre'', ''softare'', ''sofwtare'', ''softwear'']),
      (''professional'',
       [''proffesional'', ''profesional'', ''proffessional'', ''professinal'',
        ''professionl'', ''professonal'', ''profssional'', ''professsional'']),
      (''corporate'',
       [''corproate'', ''coporate'', ''corporat'', ''corpoarte'', ''coroprate'']),
      (''support'',
       [''suport'', ''supprot'', ''supprt'', ''suppoort'', ''suppport'']),
      (''service'',
       [''servcie'', ''serivce'', ''sevice'', ''servic'', ''servcice'']),
      (''security'',
       [''secuirty'', ''securtiy'', ''secutiry'', ''securty'', ''secuiryt'']),
      (''resource'',
       [''resoruce'', ''resourc'', ''resrouce'', ''reource'']),
      (''principal'',
       [''princpal'', ''prinicpal'', ''pricipal'', ''principla'', ''prnicipal'']),
      (''commercial'',
       [''commerical'', ''comercial'', ''commericial'', ''commercail'']),
      (''regional'',
       [''reginal'', ''regioanl'', ''regioal'', ''regionl'', ''reagional'']),
      (''national'',
       [''natioal'', ''nationl'', ''natoinal'', ''nationla'', ''naitonal'']),
      (''international'',
       [''internatioanl'', ''internatinal'', ''interantional'', ''internationl'']),
      (''general'',
       [''genral'', ''generl'', ''genaral'', ''generla'', ''genearl'']),
      (''compliance'',
       [''complience'', ''compliace'', ''compliane'', ''complicance'']),
      (''procurement'',
       [''procurment'', ''procuremnt'', ''procuremennt'', ''procurrement'']),
      (''acquisition'',
       [''aquisition'', ''acquistion'', ''acquisiton'', ''acqusition'']),
      (''logistics'',
       [''logisitics'', ''logisitcs'', ''logstics'', ''logistcs'']),
      (''manufacturing'',
       [''manufacuring'', ''manufaturing'', ''manufacturng'', ''manufactruing'']),
      (''pharmaceutical'',
       [''pharmeceutical'', ''pharamceutical'', ''pharmaceuitcal'']),
      (''healthcare'',
       [''heathcare'', ''helathcare'', ''healtcare'', ''healthcre'']),
      (''education'',
       [''educaton'', ''educaiton'', ''educaion'', ''eductaion'']),
      (''government'',
       [''goverment'', ''governmnet'', ''govenrment'', ''govermnent'']),
      (''investment'',
       [''investmnet'', ''investement'', ''investemnt'', ''invesment'']),
      (''insurance'',
       [''insurace'', ''insurnace'', ''insurence'', ''insurancce'']),
      (''leadership'',
       [''leaderhsip'', ''leadershi'', ''leadershp'', ''leadeership'']),
      (''entrepreneur'',
       [''entrepeneur'', ''entreprener'', ''entreprenuer'', ''entreprneur'',
        ''enterprenuer'', ''entreperneur'', ''entreprenur'']),
      (''certified'',
       [''certifed'', ''certiifed'', ''cetified'', ''cretified'', ''certifeid''])
     ]"

definition ROLE_PLACEHOLDERS :: "string list" where
  "ROLE_PLACEHOLDERS =
     [''asdfgh'', ''qwerty'', ''zxcvbn'', ''asdf'', ''qwer'', ''zxcv'', ''aaaaaa'',
      ''bbbbbb'', ''test'', ''testing'', ''xxx'', ''yyy'', ''zzz'', ''null'',
      ''undefined'', ''none'', ''n/a'', ''na'', ''tbd'', ''tba'', ''placeholder'',
      ''temp'', ''todo'', ''fixme'', ''abc'', ''xyz'']"

definition ROLE_SCAM_PATTERNS :: "string list" where
  "ROLE_SCAM_PATTERNS =
     [''work from home'', ''work at home'', ''make money'', ''earn money'',
      ''passive income'', ''get rich'', ''easy money'', ''be your own boss'', ''mlm'',
      ''multi level marketing'', ''network marketing'', ''crypto trader'',
      ''forex trader'', ''bitcoin trader'', ''day trader'', ''investment opportunity'',
      ''financial freedom'', ''side hustle'', ''join my team'', ''dm me'', ''click link'',
      ''link in bio'', ''work online'', ''online business'', ''home based'']"

definition ROLE_URL_TLDS :: "string list" where
  "ROLE_URL_TLDS =
     [''com'', ''org'', ''io'', ''ai'', ''co'', ''dev'', ''app'', ''xyz'', ''me'', ''ly'',
      ''gg'', ''edu'', ''gov'', ''info'', ''biz'', ''tech'', ''cloud'', ''online'',
      ''site'', ''store'', ''us'', ''uk'', ''ca'', ''de'', ''fr'', ''in'', ''au'', ''nl'',
      ''es'', ''it'', ''br'', ''jp'', ''kr'', ''cn'', ''ru'', ''tv'', ''fm'', ''games'',
      ''life'', ''work'', ''realty'', ''agency'', ''digital'', ''media'', ''world'',
      ''global'', ''solutions'', ''services'', ''consulting'', ''network'', ''systems'',
      ''ventures'', ''capital'', ''finance'', ''money'', ''company'', ''group'', ''team'',
      ''studio'', ''design'', ''marketing'', ''software'', ''tools'', ''health'',
      ''healthcare'', ''legal'', ''law'', ''news'', ''blog'', ''space'', ''zone'',
      ''link'', ''click'', ''today'', ''one'', ''pro'', ''expert'', ''careers'', ''jobs'']"

definition ROLE_JOB_KEYWORDS :: "string list" where
  "ROLE_JOB_KEYWORDS =
     [''manager'', ''director'', ''engineer'', ''developer'', ''analyst'', ''consultant'',
      ''specialist'', ''coordinator'', ''assistant'', ''executive'', ''officer'', ''lead'',
      ''head'', ''chief'', ''president'', ''vp'', ''vice'', ''senior'', ''junior'',
      ''associate'', ''partner'', ''founder'', ''owner'', ''ceo'', ''cto'', ''cfo'',
      ''coo'', ''cmo'', ''cio'', ''sales'', ''marketing'', ''operations'', ''admin'',
      ''supervisor'', ''representative'', ''architect'', ''designer'', ''writer'',
      ''editor'', ''producer'', ''teacher'', ''professor'', ''coach'', ''trainer'',
      ''nurse'', ''doctor'', ''attorney'', ''lawyer'', ''accountant'', ''advisor'',
      ''adviser'', ''strategist'', ''planner'', ''recruiter'', ''broker'']"

definition BLOCKED_EMAIL_PREFIXES :: "string list" where
  "BLOCKED_EMAIL_PREFIXES =
     [''info@'', ''hello@'', ''owner@'', ''ceo@'', ''founder@'', ''contact@'',
      ''support@'', ''team@'', ''admin@'', ''office@'', ''mail@'', ''connect@'', ''help@'',
      ''hi@'', ''welcome@'', ''inquiries@'', ''general@'', ''feedback@'', ''ask@'',
      ''outreach@'', ''communications@'', ''crew@'', ''staff@'', ''community@'',
      ''reachus@'', ''talk@'', ''service@'']"

definition FREE_EMAIL_DOMAINS :: "string list" where
  "FREE_EMAIL_DOMAINS =
     [''gmail.com'', ''googlemail.com'', ''yahoo.com'', ''yahoo.co.uk'', ''yahoo.fr'',
      ''outlook.com'', ''hotmail.com'', ''live.com'', ''msn.com'', ''aol.com'',
      ''mail.com'', ''protonmail.com'', ''proton.me'', ''icloud.com'', ''me.com'',
      ''mac.com'', ''zoho.com'', ''yandex.com'', ''gmx.com'', ''mail.ru'']"

definition VALID_EMPLOYEE_COUNTS :: "string list" where
  "VALID_EMPLOYEE_COUNTS =
     [''0-1'', ''2-10'', ''11-50'', ''51-200'', ''201-500'', ''501-1,000'',
      ''1,001-5,000'', ''5,001-10,000'', ''10,001+'']"

definition REQUIRED_FIELDS :: "string list" where
  "REQUIRED_FIELDS =
     [''business'', ''full_name'', ''first'', ''last'', ''email'', ''role'', ''website'',
      ''industry'', ''sub_industry'', ''country'', ''city'', ''linkedin'',
      ''company_linkedin'', ''source_url'', ''description'', ''employee_count'']"

definition VALID_SOURCE_TYPES :: "string list" where
  "VALID_SOURCE_TYPES =
     [''public_registry'', ''company_site'', ''first_party_form'', ''licensed_resale'',
      ''proprietary_database'']"

definition RESTRICTED_SOURCES :: "string list" where
  "RESTRICTED_SOURCES =
     [''zoominfo.com'', ''apollo.io'', ''people-data-labs.com'', ''peopledatalabs.com'',
      ''rocketreach.co'', ''hunter.io'', ''snov.io'', ''lusha.com'', ''clearbit.com'',
      ''leadiq.com'', ''seamless.ai'', ''cognism.com'', ''uplead.com'', ''lead411.com'']"

definition ATTESTATION_FIELDS :: "string list" where
  "ATTESTATION_FIELDS =
     [''wallet_ss58'', ''terms_version_hash'', ''lawful_collection'',
      ''no_restricted_sources'', ''license_granted'']"

definition ROLE_GEOGRAPHIC_ENDINGS :: "string list" where
  "ROLE_GEOGRAPHIC_ENDINGS =
     [''-vietnam'', ''-cambodia'', ''-apac'', ''-emea'', ''-latam'', ''-amer'', ''-asia'',
      ''-europe'', ''-africa'', ''-india'', ''-china'', ''-japan'', ''- vietnam'',
      ''- cambodia'', ''- apac'', ''- emea'', ''- latam'']"

definition ROLE_CSUITE_TITLES :: "string list" where
  "ROLE_CSUITE_TITLES =
     [''ceo'', ''cfo'', ''cto'', ''coo'', ''cmo'', ''cio'', ''cso'', ''cro'', ''cco'',
      ''cpo'']"

definition LOCATION_GARBAGE_PATTERNS :: "string list" where
  "LOCATION_GARBAGE_PATTERNS =
     [''software'', ''technology'', ''solutions'', ''services'', ''consulting'',
      ''marketing'', ''sales'', ''engineering'', ''development'', ''management'',
      ''http://'', ''https://'', ''www.'', ''.com'', ''.org'', ''.io'', ''department'',
      ''division'', ''team'', ''group'', ''unit'', ''street'', ''avenue'', ''boulevard'',
      ''road'', ''suite'', ''floor'', ''n/a'', ''none'', ''null'', ''undefined'', ''test'',
      ''asdf'']"

definition LOCATION_MAX_LENGTH :: nat where
  "LOCATION_MAX_LENGTH = 50"

definition US_COUNTRY_ALIASES :: "string list" where
  "US_COUNTRY_ALIASES =
     [''united states'', ''usa'', ''us'', ''america'', ''u.s.'', ''u.s.a.'']"

definition MAJOR_HUBS_BY_COUNTRY :: "(string \<times> string list) list" where
  "MAJOR_HUBS_BY_COUNTRY =
     [
      (''united states'',
       [''new york city'', ''manhattan'', ''brooklyn'', ''san francisco'', ''los angeles'',
        ''san diego'', ''san jose'', ''seattle'', ''portland'', ''austin'', ''dallas'',
        ''houston'', ''chicago'', ''boston'', ''denver'', ''miami'', ''washington'',
        ''atlanta'', ''phoenix'']),
      (''canada'',
       [''toronto'', ''vancouver'', (''montr'' @ [CHR 0xE9] @ ''al''), ''montreal'']),
      (''united kingdom'',
       [''london'', ''manchester'', ''edinburgh'', ''cambridge'', ''oxford'']),
      (''germany'',
       [''berlin'', (''m'' @ [CHR 0xFC] @ ''nchen''), ''munich'', ''frankfurt am main'',
        ''frankfurt'', ''hamburg'']),
      (''france'',
       [''paris'']),
      (''netherlands'',
       [''amsterdam'', ''rotterdam'']),
      (''switzerland'',
       [(''z'' @ [CHR 0xFC] @ ''rich''), ''zurich'', (''gen'' @ [CHR 0xE8] @ ''ve''),
        ''geneva'']),
      (''ireland'',
       [''dublin'']),
      (''sweden'',
       [''stockholm'']),
      (''spain'',
       [''barcelona'', ''madrid'']),
      (''hong kong'',
       [''hong kong'']),
      (''singapore'',
       [''singapore'']),
      (''japan'',
       [''tokyo'', ''osaka'']),
      (''south korea'',
       [''seoul'']),
      (''china'',
       [''shanghai'', ''beijing'', ''shenzhen'']),
      (''india'',
       [''bengaluru'', ''bangalore'', ''mumbai'', ''new delhi'', ''hyderabad'', ''pune'']),
      (''australia'',
       [''sydney'', ''melbourne'']),
      (''new zealand'',
       [''auckland'']),
      (''israel'',
       [''tel aviv'']),
      (''united arab emirates'',
       [''dubai'', ''abu dhabi'']),
      (''brazil'',
       [(''s'' @ [CHR 0xE3] @ ''o paulo''), ''sao paulo''])
     ]"

definition ICP_DEFINITIONS :: "icp list" where
  "ICP_DEFINITIONS =
     [
      \<lparr>name = ''Fuel/Energy Operations'',
       sub_industries =
         [''fuel'', ''oil and gas'', ''fossil fuels'', ''energy''],
       roles =
         [''coo'', ''chief operating officer'', ''director of operations'',
          ''vp of operations'', ''cto'', ''chief technology officer'',
          ''vp of engineering'', ''cio'', ''chief information officer''],
       regions = None\<rparr>,
      \<lparr>name = ''Agriculture/Farming'',
       sub_industries =
         [''agriculture'', ''farming'', ''agtech'', ''livestock'', ''aquaculture''],
       roles =
         [''coo'', ''chief operating officer'', ''vp of operations'', ''cto'',
          ''chief technology officer'', ''vp of engineering'', ''cio'',
          ''chief information officer''],
       regions = None\<rparr>,
      \<lparr>name = ''Renewable Energy'',
       sub_industries =
         [''solar'', ''wind energy'', ''renewable energy'', ''clean energy'',
          ''biomass energy'', ''energy storage'', ''energy efficiency''],
       roles =
         [''coo'', ''vp of operations'', ''cto'', ''vp of engineering'', ''cio'',
          ''asset manager'', ''site manager'', ''plant manager'', ''facility manager''],
       regions = None\<rparr>,
      \<lparr>name = ''Winery/Horticulture'',
       sub_industries =
         [''winery'', ''wine and spirits'', ''horticulture'', ''farming'', ''agriculture'',
          ''hydroponics''],
       roles =
         [''coo'', ''vp of operations'', ''cto'', ''vp of engineering'', ''cio'',
          ''farm manager'', ''vineyard manager'', ''head grower'', ''production manager''],
       regions = None\<rparr>,
      \<lparr>name = ''E-Commerce/Retail Marketing'',
       sub_industries =
         [''e-commerce'', ''e-commerce platforms'', ''retail'', ''retail technology''],
       roles =
         [''vp ecommerce'', ''vp e-commerce'', ''director of ecommerce'',
          ''head of growth'', ''vp of growth'', ''chief growth officer'', ''cmo'',
          ''chief marketing officer'', ''vp of marketing'', ''founder'', ''co-founder'',
          ''ceo''],
       regions = None\<rparr>,
      \<lparr>name = ''Digital Marketing/Advertising'',
       sub_industries =
         [''digital marketing'', ''email marketing'', ''marketing'',
          ''marketing automation'', ''advertising'', ''advertising platforms'',
          ''affiliate marketing'', ''content marketing''],
       roles =
         [''founder'', ''co-founder'', ''ceo'', ''director of partnerships'',
          ''vp of partnerships'', ''head of strategy'', ''chief strategy officer'',
          ''cmo'', ''managing director'', ''president''],
       regions = None\<rparr>,
      \<lparr>name = ''AI/ML Technical'',
       sub_industries =
         [''artificial intelligence'', ''machine learning'',
          ''natural language processing'', ''predictive analytics''],
       roles =
         [''ceo'', ''founder'', ''co-founder'', ''cto'', ''vp of engineering'',
          ''head of engineering'', ''vp of ai'', ''head of ai'', ''director of ai'',
          ''vp of machine learning'', ''chief ai officer'', ''chief data officer'',
          ''software engineer''],
       regions = None\<rparr>,
      \<lparr>name = ''Real Estate Investment'',
       sub_industries =
         [''real estate'', ''real estate investment'', ''residential'',
          ''commercial real estate'', ''property development'', ''property management''],
       roles =
         [''ceo'', ''owner'', ''co-owner'', ''sole operator'', ''founder'', ''co-founder'',
          ''managing partner'', ''managing director'', ''principal'', ''president'',
          ''partner''],
       regions = None\<rparr>,
      \<lparr>name = ''Wealth Management/Family Office'',
       sub_industries =
         [''asset management'', ''venture capital'', ''hedge funds'',
          ''financial services'', ''impact investing''],
       roles =
         [''ceo'', ''president'', ''managing director'', ''managing partner'',
          ''principal'', ''partner'', ''founder'', ''cio'', ''chief investment officer'',
          ''portfolio manager'', ''wealth manager'', ''coo'', ''cfo'',
          ''family office manager''],
       regions = None\<rparr>,
      \<lparr>name = ''FinTech/Banking Risk & Compliance'',
       sub_industries =
         [''fintech'', ''banking'', ''payments'', ''financial services'', ''credit cards'',
          ''mobile payments'', ''transaction processing''],
       roles =
         [''cro'', ''chief risk officer'', ''vp of risk'', ''head of risk'',
          ''director of risk'', ''cco'', ''chief compliance officer'',
          ''vp of compliance'', ''head of compliance'', ''compliance officer'',
          ''bsa officer'', ''aml officer'', ''kyc manager''],
       regions = None\<rparr>,
      \<lparr>name = ''Clinical Research/Labs'',
       sub_industries =
         [''clinical trials'', ''biotechnology'', ''pharmaceutical'', ''biopharma'',
          ''life science''],
       roles =
         [''data scientist'', ''data manager'', ''clinical data manager'',
          ''biostatistician'', ''ceo'', ''cto'', ''coo'', ''cso'',
          ''chief scientific officer'', ''vp of operations''],
       regions = None\<rparr>,
      \<lparr>name = ''Research/Academic'',
       sub_industries =
         [''higher education'', ''life science'', ''biotechnology'', ''neuroscience'',
          ''genetics''],
       roles =
         [''principal investigator'', ''lead researcher'', ''senior researcher'',
          ''research director'', ''professor'', ''associate professor'',
          ''assistant professor'', ''research scientist'', ''lab director'',
          ''department head''],
       regions = None\<rparr>,
      \<lparr>name = ''Biotech/Pharma'',
       sub_industries =
         [''biotechnology'', ''biopharma'', ''pharmaceutical'', ''genetics'',
          ''life science'', ''bioinformatics''],
       roles =
         [''ceo'', ''founder'', ''cto'', ''cso'', ''chief scientific officer'', ''coo'',
          ''cmo'', ''vp of business development'', ''head of business development'',
          ''vp of partnerships''],
       regions = None\<rparr>,
      \<lparr>name = ''Broadcasting/Media (Africa)'',
       sub_industries =
         [''broadcasting'', ''video'', ''digital media'', ''content'',
          ''content delivery network'', ''telecommunications'', ''digital entertainment''],
       roles =
         [''cto'', ''cfo'', ''head of engineering'', ''vp of engineering'',
          ''head of video'', ''head of streaming'', ''head of ott'', ''director of ott'',
          ''head of product'', ''chief product officer''],
       regions = Some
          [''africa'', ''nigeria'', ''south africa'', ''kenya'', ''ghana'', ''egypt'',
           ''morocco'', ''ethiopia'', ''tanzania'', ''uganda'', ''algeria'', ''sudan'',
           ''angola'', ''cameroon'']\<rparr>,
      \<lparr>name = ''Hospitality/Hotels (US)'',
       sub_industries =
         [''hospitality'', ''hotel'', ''resorts'', ''travel accommodations'',
          ''vacation rental'', ''tourism''],
       roles =
         [''business development'', ''vp of business development'', ''owner'',
          ''co-owner'', ''founder'', ''ceo'', ''president'', ''general manager'', ''gm'',
          ''operations manager'', ''director of operations'', ''hotel manager''],
       regions = Some US_COUNTRY_ALIASES\<rparr>,
      \<lparr>name = ''Small/Local Businesses (US)'',
       sub_industries =
         [''local business'', ''local'', ''retail'', ''restaurants'',
          ''food and beverage'', ''professional services'', ''home services'',
          ''real estate'', ''construction'', ''automotive'', ''health care'', ''fitness'',
          ''beauty'', ''consulting''],
       roles =
         [''owner'', ''co-owner'', ''business owner'', ''sole proprietor'',
          ''sole operator'', ''franchise owner'', ''franchisee'', ''store owner'',
          ''founder'', ''ceo'', ''principal'', ''partner''],
       regions = Some US_COUNTRY_ALIASES\<rparr>
     ]"

definition DISPOSABLE_FALLBACK :: "string list" where
  "DISPOSABLE_FALLBACK =
     [''tempmail.com'', ''temp-mail.org'', ''guerrillamail.com'', ''mailinator.com'',
      ''throwaway.email'', ''10minutemail.com'', ''fakeinbox.com'', ''trashmail.com'',
      ''maildrop.cc'', ''getnada.com'', ''yopmail.com'', ''sharklasers.com'',
      ''dispostable.com'', ''mailnesia.com'', ''tempail.com'', ''tempr.email'']"

section \<open>Field validators\<close>

subsection \<open>Required fields, source provenance, attestation\<close>

definition validate_required_fields :: "lead \<Rightarrow> string list" where
  "validate_required_fields ld =
     concat (map (\<lambda>field_name.
        (case ld field_name of
           None \<Rightarrow> [''missing_field:'' @ field_name]
         | Some v \<Rightarrow> if strip (py_str v) = [] then [''missing_field:'' @ field_name] else []))
       REQUIRED_FIELDS)
     @ (let country = lower (py_str (get_or ld ''country'' (PStr [])))
        in if list_ex (\<lambda>alias. contains alias country) US_COUNTRY_ALIASES
           then (if \<not> truthy (get_none ld ''state'') \<or> strip (py_str (get_none ld ''state'')) = []
                 then [''missing_field:state (required for US leads)''] else [])
           else [])"

text \<open>\<open>^[a-fA-F0-9]{64}$\<close>\<close>
definition rx_sha256_hex :: rx where
  "rx_sha256_hex = rx_seq (rx_times 64 (rx_cls is_hex)) rx_eol"

definition validate_source_provenance :: "lead \<Rightarrow> string list" where
  "validate_source_provenance ld =
     (let source_url = strip (py_str (get_or ld ''source_url'' (PStr [])));
          source_type = strip (py_str (get_or ld ''source_type'' (PStr [])))
      in (if source_url = [] then [''missing_field:source_url'']
          else (case find (\<lambda>restricted. contains restricted (lower source_url)) RESTRICTED_SOURCES of
                  None \<Rightarrow> []
                | Some restricted \<Rightarrow> [''restricted_source:'' @ restricted]))
       @ (if source_type = [] then [''missing_field:source_type'']
          else if source_type \<notin> set VALID_SOURCE_TYPES
          then [''source_type_invalid:'' @ source_type @ '' (valid: ''
                  @ join '', '' VALID_SOURCE_TYPES @ '')'']
          else [])
       @ (if source_type = ''licensed_resale''
          then (let license_hash = strip (py_str (get_or ld ''license_doc_hash'' (PStr [])))
                in if license_hash = []
                   then [''missing_license_doc_hash (required for licensed_resale)'']
                   else if \<not> re_match rx_sha256_hex license_hash
                   then [''license_doc_hash_invalid_format (must be 64 hex chars SHA-256)'']
                   else [])
          else []))"

text \<open>\<open>value is not True\<close> holds of every value but the boolean \<open>True\<close> itself.\<close>
definition validate_attestation :: "lead \<Rightarrow> string list" where
  "validate_attestation ld =
     (if strip (py_str (get_or ld ''wallet_ss58'' (PStr []))) = []
      then [''missing_field:wallet_ss58''] else [])
     @ (if strip (py_str (get_or ld ''terms_version_hash'' (PStr []))) = []
        then [''missing_field:terms_version_hash''] else [])
     @ concat (map (\<lambda>field_name.
          if get_none ld field_name \<noteq> PBool True
          then [''attestation_false_or_missing:'' @ field_name] else [])
        [''lawful_collection'', ''no_restricted_sources'', ''license_granted''])"

subsection \<open>Location\<close>

text \<open>
  The duplicate-word check iterates over \<open>set(words)\<close> and reports the first word that
  qualifies. The order in which a Python set of strings is iterated is fixed by the
  interpreter (the string hashes of the running process), not by the program, so it is a
  parameter \<open>set_iter\<close>: the list of words goes in, the elements of the set come out in
  iteration order.
\<close>

definition location_checks :: "(string list \<Rightarrow> string list) \<Rightarrow> pyval \<Rightarrow> string \<Rightarrow> string list" where
  "location_checks set_iter location_value field_name =
     (if \<not> truthy location_value then []
      else
        (let loc = strip (py_str location_value);
             loc_lower = lower loc;
             words = split_ws loc_lower
         in (if length loc > LOCATION_MAX_LENGTH
             then [field_name @ ''_too_long:'' @ str_of_nat (length loc) @ ''/''
                     @ str_of_nat LOCATION_MAX_LENGTH]
             else [])
          @ (case find (\<lambda>pattern. contains pattern loc_lower) LOCATION_GARBAGE_PATTERNS of
               None \<Rightarrow> []
             | Some pattern \<Rightarrow> [field_name @ ''_garbage_pattern:'' @ pattern])
          @ (if length words \<ge> 2
             then (case find (\<lambda>word. length word > 3 \<and> count_list words word \<ge> 2) (set_iter words) of
                     None \<Rightarrow> []
                   | Some word \<Rightarrow> [field_name @ ''_duplicate_word:'' @ word])
             else [])
          @ (if startswith loc_lower ''the '' \<or> startswith loc_lower ''a ''
                \<or> startswith loc_lower ''an ''
             then [field_name @ ''_starts_with_article''] else [])))"

definition validate_location ::
  "(string list \<Rightarrow> string list) \<Rightarrow> pyval \<Rightarrow> pyval \<Rightarrow> pyval \<Rightarrow> string list" where
  "validate_location set_iter city country region =
     location_checks set_iter city ''city''
     @ location_checks set_iter country ''country''
     @ location_checks set_iter region ''region''"

subsection \<open>Role\<close>

text \<open>
  \<open>validate_role\<close> appends to one list, check after check. Each numbered check of the
  source is a function from the stripped role (or its lower-cased form) to the codes it
  appends; \<open>validate_role\<close> concatenates them in the order of the source.
  The ratio tests \<open>digits / len(role) > 0.5\<close> and \<open>vowels / letters < 0.1\<close> are written
  over the integers (\<open>2 * digits > len\<close>, \<open>10 * vowels < letters\<close>).
\<close>

definition role_check_length :: "string \<Rightarrow> string list" where
  "role_check_length role =
     (if length role < 2 then [''role_too_short''] else [])
     @ (if length role > 80 then [''role_too_long:'' @ str_of_nat (length role) @ ''/80''] else [])"

definition role_check_letters :: "string \<Rightarrow> string list" where
  "role_check_letters role = (if \<not> list_ex is_ascii_letter role then [''role_no_letters''] else [])"

definition role_check_numbers :: "string \<Rightarrow> string list" where
  "role_check_numbers role =
     (if length role > 0 \<and> 2 * length (filter is_digit role) > length role
      then [''role_mostly_numbers''] else [])"

definition role_check_placeholder :: "string \<Rightarrow> string list" where
  "role_check_placeholder role_lower =
     (if role_lower \<in> set ROLE_PLACEHOLDERS then [''role_placeholder''] else [])"

text \<open>\<open>(.)\1{3,}\<close>\<close>
definition role_check_repeated_chars :: "string \<Rightarrow> string list" where
  "role_check_repeated_chars role = (if has_repeat 4 role then [''role_repeated_chars''] else [])"

text \<open>The loop over \<open>set(words)\<close> appends the same code whichever word it meets first.\<close>
definition role_check_repeated_words :: "string \<Rightarrow> string list" where
  "role_check_repeated_words role_lower =
     (let words = split_ws role_lower
      in if list_ex (\<lambda>word. count_list words word \<ge> 3) words
         then [''role_repeated_words''] else [])"

definition role_check_scam :: "string \<Rightarrow> string list" where
  "role_check_scam role_lower =
     (case find (\<lambda>pattern. contains pattern role_lower) ROLE_SCAM_PATTERNS of
        None \<Rightarrow> []
      | Some pattern \<Rightarrow> [''role_scam_pattern:'' @ pattern])"

text \<open>\<open>https?://\<close> or \<open>www\.\<close>\<close>
definition role_check_url :: "string \<Rightarrow> string list" where
  "role_check_url role =
     (if re_search rx_scheme role \<or> re_search (rx_lit ''www.'') role
      then [''role_contains_url''] else [])"

definition role_check_email :: "string \<Rightarrow> string list" where
  "role_check_email role = (if re_search rx_email role then [''role_contains_email''] else [])"

text \<open>\<open>\+?[\d\s\-\(\)]{10,}\<close>\<close>
definition phone_cls :: "char \<Rightarrow> bool" where
  "phone_cls c = (is_decimal c \<or> is_space c \<or> c \<in> set ''-()'')"

definition role_check_phone :: "string \<Rightarrow> string list" where
  "role_check_phone role =
     (if re_search (rx_seq (rx_opt (rx_lit ''+'')) (rx_atleast 10 phone_cls)) role
      then [''role_contains_phone''] else [])"

text \<open>The CJK, Kana, Hangul, Arabic, Thai, Cyrillic and Hebrew ranges of check 11.\<close>
definition non_latin_cls :: "char \<Rightarrow> bool" where
  "non_latin_cls c =
     ((0x4e00 \<le> cp c \<and> cp c \<le> 0x9fff) \<or> (0x3040 \<le> cp c \<and> cp c \<le> 0x309f)
      \<or> (0x30a0 \<le> cp c \<and> cp c \<le> 0x30ff) \<or> (0xac00 \<le> cp c \<and> cp c \<le> 0xd7af)
      \<or> (0x0600 \<le> cp c \<and> cp c \<le> 0x06ff) \<or> (0x0e00 \<le> cp c \<and> cp c \<le> 0x0e7f)
      \<or> (0x0400 \<le> cp c \<and> cp c \<le> 0x04ff) \<or> (0x0590 \<le> cp c \<and> cp c \<le> 0x05ff))"

definition role_check_non_english :: "string \<Rightarrow> string list" where
  "role_check_non_english role = (if list_ex non_latin_cls role then [''role_non_english''] else [])"

definition role_check_tld :: "string \<Rightarrow> string list" where
  "role_check_tld role_lower =
     (if list_ex (\<lambda>tld. contains (''.'' @ tld) role_lower) ROLE_URL_TLDS
      then [''role_contains_website''] else [])"

text \<open>Check 13: for each canonical word, the first of its misspellings that is one of the
  words of the role is reported, and the inner loop stops there.\<close>
definition role_check_typos :: "string \<Rightarrow> string list" where
  "role_check_typos role_lower =
     (let words_in_role = set (findall_words role_lower)
      in concat (map (\<lambda>(correct, typos).
           (case find (\<lambda>typo. typo \<in> words_in_role) typos of
              None \<Rightarrow> []
            | Some typo \<Rightarrow> [''role_typo:'' @ typo @ ''->'' @ correct]))
         ROLE_TYPOS))"

definition role_check_few_letters :: "string \<Rightarrow> string list" where
  "role_check_few_letters role =
     (if length (filter is_alpha role) < 3 then [''role_too_few_letters''] else [])"

definition role_special_chars :: string where
  "role_special_chars = ''!@#$%^&*()_+-=[]{}|;:'' @ [CHR 0x27, CHR 0x22] @ '',.<>?/''
     @ [CHR 0x5C, CHR 0x60] @ ''~''"

definition role_check_special_start :: "string \<Rightarrow> string list" where
  "role_check_special_start role =
     (case role of [] \<Rightarrow> []
      | c # cs \<Rightarrow> if c \<in> set role_special_chars then [''role_starts_special_char''] else [])"

text \<open>\<open>^\d+[xX]\s\<close> or \<open>\$\d+[MmKkBb]?\+?\<close>\<close>
definition role_check_achievement :: "string \<Rightarrow> string list" where
  "role_check_achievement role =
     (if re_match (rx_seq (rx_plus is_decimal) (rx_seq (rx_cls (\<lambda>c. c \<in> set ''xX''))
            (rx_cls is_space))) role
         \<or> re_search (rx_seq (rx_lit ''$'') (rx_seq (rx_plus is_decimal)
              (rx_seq (rx_opt (rx_cls (\<lambda>c. c \<in> set ''MmKkBb''))) (rx_opt (rx_lit ''+''))))) role
      then [''role_achievement_statement''] else [])"

text \<open>\<open>\bof\s*$\<close>\<close>
definition role_check_incomplete :: "string \<Rightarrow> string list" where
  "role_check_incomplete role_lower =
     (if re_search (rx_seq rx_wordb (rx_seq (rx_lit ''of'') (rx_seq (rx_star is_space) rx_eol)))
           role_lower
      then [''role_incomplete_title''] else [])"

text \<open>\<open>\s(?:at|@)\s+[A-Z]\<close> on the role, or \<open>\b(?:inc\.|llc|ltd\.|corp\.)\b\<close> on its
  lower-cased form\<close>
definition role_check_company :: "string \<Rightarrow> string \<Rightarrow> string list" where
  "role_check_company role role_lower =
     (if re_search (rx_seq (rx_cls is_space) (rx_seq (rx_alt (rx_lit ''at'') (rx_lit ''@''))
            (rx_seq (rx_plus is_space) (rx_cls is_ascii_upper)))) role
         \<or> re_search (rx_seq rx_wordb (rx_seq
              (rx_alts [rx_lit ''inc.'', rx_lit ''llc'', rx_lit ''ltd.'', rx_lit ''corp.''])
              rx_wordb)) role_lower
      then [''role_contains_company''] else [])"

text \<open>The emoji ranges of check 19.\<close>
definition emoji_cls :: "char \<Rightarrow> bool" where
  "emoji_cls c =
     ((0x1F600 \<le> cp c \<and> cp c \<le> 0x1F64F) \<or> (0x1F300 \<le> cp c \<and> cp c \<le> 0x1F5FF)
      \<or> (0x1F680 \<le> cp c \<and> cp c \<le> 0x1F6FF) \<or> (0x1F900 \<le> cp c \<and> cp c \<le> 0x1F9FF)
      \<or> (0x1F1E0 \<le> cp c \<and> cp c \<le> 0x1F1FF) \<or> cp c = 0x2705 \<or> cp c = 0x274C
      \<or> cp c = 0x2714)"

definition role_check_emoji :: "string \<Rightarrow> string list" where
  "role_check_emoji role = (if list_ex emoji_cls role then [''role_contains_emoji''] else [])"

text \<open>\<open>\*{2,}hiring\*{2,}\<close>, or one of two phrases\<close>
definition role_check_hiring :: "string \<Rightarrow> string list" where
  "role_check_hiring role_lower =
     (if re_search (rx_seq (rx_atleast 2 (\<lambda>c. c = CHR ''*'')) (rx_seq (rx_lit ''hiring'')
            (rx_atleast 2 (\<lambda>c. c = CHR ''*'')))) role_lower
         \<or> contains ''we're hiring'' role_lower \<or> contains ''now hiring'' role_lower
      then [''role_hiring_marker''] else [])"

text \<open>\<open>^(?:i am|i'm|we are|we're|helping|passionate|dedicated|committed|driven)\s\<close>\<close>
definition role_check_bio :: "string \<Rightarrow> string list" where
  "role_check_bio role_lower =
     (if re_match (rx_seq (rx_alts [rx_lit ''i am'', rx_lit ''i'm'', rx_lit ''we are'',
            rx_lit ''we're'', rx_lit ''helping'', rx_lit ''passionate'', rx_lit ''dedicated'',
            rx_lit ''committed'', rx_lit ''driven'']) (rx_cls is_space)) role_lower
      then [''role_bio_description''] else [])"

definition role_check_keywords :: "string \<Rightarrow> string \<Rightarrow> string list" where
  "role_check_keywords role role_lower =
     (if length role > 60 \<and> \<not> list_ex (\<lambda>kw. contains kw role_lower) ROLE_JOB_KEYWORDS
      then [''role_no_job_keywords''] else [])"

text \<open>\<open>c.lower() in 'aeiou'\<close> holds of the ten ASCII vowels only.\<close>
definition is_vowel :: "char \<Rightarrow> bool" where
  "is_vowel c = (lower_char c \<in> set ''aeiou'')"

definition role_check_gibberish :: "string \<Rightarrow> string list" where
  "role_check_gibberish role =
     (let letters = length (filter is_alpha role)
      in if letters > 5 \<and> 10 * length (filter is_vowel role) < letters
         then [''role_gibberish''] else [])"

definition role_check_geographic :: "string \<Rightarrow> string list" where
  "role_check_geographic role_lower =
     (case find (\<lambda>ending. endswith role_lower ending) ROLE_GEOGRAPHIC_ENDINGS of
        None \<Rightarrow> []
      | Some ending \<Rightarrow> [''role_geographic_ending:'' @ ending])"

text \<open>\<open>\.\s*[A-Z]\<close>\<close>
definition role_check_marketing :: "string \<Rightarrow> string list" where
  "role_check_marketing role =
     (if re_search (rx_seq (rx_lit ''.'') (rx_seq (rx_star is_space) (rx_cls is_ascii_upper))) role
      then [''role_marketing_sentence''] else [])"

text \<open>Check 26: the titles that occur in the lower-cased role as substrings.\<close>
definition role_check_csuite :: "string \<Rightarrow> string list" where
  "role_check_csuite role_lower =
     (let csuite_found = filter (\<lambda>title. contains title role_lower) ROLE_CSUITE_TITLES
      in if length csuite_found > 1
         then [''role_multiple_csuite:'' @ join '','' csuite_found] else [])"

definition has_job_keyword :: "string \<Rightarrow> bool" where
  "has_job_keyword p = list_ex (\<lambda>kw. contains kw p) ROLE_JOB_KEYWORDS"

definition role_check_comma :: "string \<Rightarrow> string list" where
  "role_check_comma role =
     (if CHR '','' \<in> set role
      then (let parts = map (\<lambda>p. lower (strip p)) (split_on CHR '','' role)
            in if length (filter has_job_keyword parts) \<ge> 3 then [''role_comma_stuffing''] else [])
      else [])"

definition role_check_pipe :: "string \<Rightarrow> string list" where
  "role_check_pipe role =
     (if CHR ''|'' \<in> set role
      then (let parts = map (\<lambda>p. lower (strip p)) (split_on CHR ''|'' role)
            in if length parts \<ge> 2 \<and> list_all has_job_keyword (filter (\<lambda>p. p \<noteq> []) parts)
               then [''role_pipe_stuffing''] else [])
      else [])"

definition validate_role :: "pyval \<Rightarrow> string list" where
  "validate_role role0 =
     (if \<not> truthy role0 then [''role_empty'']
      else
        (let role = strip (py_str role0);
             role_lower = lower role
         in role_check_length role
          @ role_check_letters role
          @ role_check_numbers role
          @ role_check_placeholder role_lower
          @ role_check_repeated_chars role
          @ role_check_repeated_words role_lower
          @ role_check_scam role_lower
          @ role_check_url role
          @ role_check_email role
          @ role_check_phone role
          @ role_check_non_english role
          @ role_check_tld role_lower
          @ role_check_typos role_lower
          @ role_check_few_letters role
          @ role_check_special_start role
          @ role_check_achievement role
          @ role_check_incomplete role_lower
          @ role_check_company role role_lower
          @ role_check_emoji role
          @ role_check_hiring role_lower
          @ role_check_bio role_lower
          @ role_check_keywords role role_lower
          @ role_check_gibberish role
          @ role_check_geographic role_lower
          @ role_check_marketing role
          @ role_check_csuite role_lower
          @ role_check_comma role
          @ role_check_pipe role))"

subsection \<open>Description\<close>

text \<open>\<open>\d+\s*followers?\s*(?:on\s*)?linkedin\<close>, \<open>\d+\s*seguidores\<close> and
  \<open>\d+\s*abonnes\<close> (with an acute accent on the \<open>e\<close>, code point 233)\<close>
definition follower_patterns :: "rx list" where
  "follower_patterns =
     [rx_seq (rx_plus is_decimal) (rx_seq (rx_star is_space) (rx_seq (rx_lit ''follower'')
        (rx_seq (rx_opt (rx_lit ''s'')) (rx_seq (rx_star is_space)
          (rx_seq (rx_opt (rx_seq (rx_lit ''on'') (rx_star is_space))) (rx_lit ''linkedin'')))))),
      rx_seq (rx_plus is_decimal) (rx_seq (rx_star is_space) (rx_lit ''seguidores'')),
      rx_seq (rx_plus is_decimal) (rx_seq (rx_star is_space)
        (rx_lit (''abonn'' @ [CHR 0xE9] @ ''s'')))]"

definition nav_patterns :: "string list" where
  "nav_patterns = [''report this company'', ''close menu'', ''skip to main'', ''cookie policy'',
     ''accept cookies'', ''privacy settings'']"

definition desc_placeholders :: "string list" where
  "desc_placeholders = [''lorem ipsum'', ''n/a'', ''placeholder'', ''test description'', ''tbd'',
     ''coming soon'']"

definition cjk_cls :: "char \<Rightarrow> bool" where
  "cjk_cls c = (0x4e00 \<le> cp c \<and> cp c \<le> 0x9fff)"

definition arabic_cls :: "char \<Rightarrow> bool" where
  "arabic_cls c = (0x0600 \<le> cp c \<and> cp c \<le> 0x06ff)"

definition thai_cls :: "char \<Rightarrow> bool" where
  "thai_cls c = (0x0e00 \<le> cp c \<and> cp c \<le> 0x0e7f)"

text \<open>\<open>^https?://\S+$\<close>\<close>
definition rx_just_url :: rx where
  "rx_just_url = rx_seq rx_scheme (rx_seq (rx_plus (\<lambda>c. \<not> is_space c)) rx_eol)"

text \<open>
  The result is the pair (errors, warnings). The ratio tests \<open>vowels / letters < 0.15\<close> and
  \<open>len(match) / len(description) > 0.3\<close> are written over the integers.
\<close>
definition validate_description :: "pyval \<Rightarrow> string list \<times> string list" where
  "validate_description description0 =
     (if \<not> truthy description0 then ([''description_empty''], [])
      else
        (let description = strip (py_str description0);
             desc_lower = lower description;
             letters = length (filter is_alpha description);
             has_latin = list_ex is_ascii_letter description
         in ((if length description > 2000 then [''desc_too_long''] else [])
           @ (if \<not> list_ex is_ascii_letter description then [''desc_no_letters''] else [])
           @ (if letters < 50 then [''desc_too_few_letters:'' @ str_of_nat letters @ ''/50''] else [])
           @ (if endswith (rstrip description) ''...'' then [''desc_truncated''] else [])
           @ (if list_ex (\<lambda>pattern. re_search pattern desc_lower) follower_patterns
              then [''desc_linkedin_followers''] else [])
           @ (if list_ex (\<lambda>pattern. contains pattern desc_lower) nav_patterns
              then [''desc_navigation_text''] else [])
           @ (if list_ex cjk_cls description \<and> has_latin \<and> length description < 200
              then [''desc_garbled_unicode''] else [])
           @ (if list_ex arabic_cls description \<and> has_latin \<and> length description < 200
              then [''desc_arabic_mixed''] else [])
           @ (if list_ex thai_cls description \<and> has_latin \<and> length description < 200
              then [''desc_thai_mixed''] else [])
           @ (if letters > 30 \<and> 20 * length (filter is_vowel description) < 3 * letters
              then [''desc_gibberish''] else [])
           @ (if list_ex (\<lambda>p. contains p desc_lower) desc_placeholders
              then [''desc_placeholder''] else [])
           @ (if has_repeat 5 description then [''desc_repeated_chars''] else [])
           @ (if re_match rx_just_url (strip description) then [''desc_just_url''] else [])
           @ (case search_len rx_email description of
                None \<Rightarrow> []
              | Some n \<Rightarrow> if 10 * n > 3 * length description then [''desc_mostly_email''] else [])
           @ (if startswith description ''|'' then [''desc_formatting_junk''] else []),
            (if length description < 70
             then [''desc_short:'' @ str_of_nat (length description) @ ''/70 (quality warning)'']
             else []))))"

subsection \<open>Email\<close>

text \<open>\<open>^[a-zA-Z0-9._%+-]+@[a-zA-Z0-9.-]+\.[a-zA-Z]{2,}$\<close> and
  \<open>^[\w._%+-]+@[\w.-]+\.[a-zA-Z]{2,}$\<close>\<close>
definition pattern_ascii :: rx where
  "pattern_ascii = rx_seq rx_email rx_eol"

definition pattern_unicode :: rx where
  "pattern_unicode = rx_seq (rx_plus email_local_ucls) (rx_seq (rx_lit ''@'')
     (rx_seq (rx_plus email_domain_ucls) (rx_seq (rx_lit ''.'')
        (rx_seq (rx_atleast 2 is_ascii_letter) rx_eol))))"

text \<open>\<open>str(v or '')\<close>\<close>
definition str_or_empty :: "pyval \<Rightarrow> string" where
  "str_or_empty v = (if truthy v then py_str v else [])"

text \<open>
  \<open>DISPOSABLE_DOMAINS\<close> is the blocklist of the package \<open>disposable_email_domains\<close> when it
  is installed, and the fallback set of the module otherwise; the package's list is the
  parameter \<open>disposable_pkg\<close>.
\<close>
definition DISPOSABLE_DOMAINS :: "string list option \<Rightarrow> string list" where
  "DISPOSABLE_DOMAINS disposable_pkg =
     (case disposable_pkg of None \<Rightarrow> DISPOSABLE_FALLBACK | Some blocklist \<Rightarrow> blocklist)"

definition validate_email :: "string list option \<Rightarrow> pyval \<Rightarrow> pyval \<Rightarrow> pyval \<Rightarrow> string list" where
  "validate_email disposable_pkg email0 first_name last_name =
     (if \<not> truthy email0 then [''email_empty'']
      else
        (let email = strip (py_str email0);
             email_lower = lower email;
             local_part = (if CHR ''@'' \<in> set email then split_head CHR ''@'' email else email);
             domain = (if CHR ''@'' \<in> set email_lower then split_second CHR ''@'' email_lower else []);
             local_lower = lower local_part;
             first_lower = strip (lower (str_or_empty first_name));
             last_lower = strip (lower (str_or_empty last_name));
             name_found = ((length first_lower \<ge> 3 \<and> contains first_lower local_lower)
                 \<or> (length last_lower \<ge> 3 \<and> contains last_lower local_lower))
         in (if \<not> (re_match pattern_ascii email \<or> re_match pattern_unicode email)
             then [''email_invalid_format''] else [])
          @ (if CHR ''+'' \<in> set local_part then [''email_plus_alias''] else [])
          @ (case find (\<lambda>pfx. startswith email_lower pfx) BLOCKED_EMAIL_PREFIXES of
               None \<Rightarrow> []
             | Some pfx \<Rightarrow> [''email_blocked_prefix:'' @ rstrip_chr CHR ''@'' pfx])
          @ (if domain \<in> set FREE_EMAIL_DOMAINS then [''email_free_domain:'' @ domain] else [])
          @ (if domain \<in> set (DISPOSABLE_DOMAINS disposable_pkg)
             then [''email_disposable:'' @ domain] else [])
          @ (if \<not> name_found \<and> length first_lower \<ge> 3 \<and> length last_lower \<ge> 3
             then [''email_no_name_match''] else [])))"

subsection \<open>Network checks\<close>

text \<open>
  The network libraries and the services behind them are outside the program. What they
  answer is a parameter: whether each library can be imported, and the outcome of each call.
\<close>

datatype mx_outcome = MxRecords bool | MxRaises

datatype head_outcome = HeadStatus int | HeadRaises

datatype dbl_outcome = DblAnswer | DblNxdomain | DblRaises

text \<open>
  \<open>mx_resolve d\<close>: \<open>MxRecords b\<close> when \<open>dns.resolver.resolve(d, 'MX')\<close> returns, with \<open>b\<close> the
  truth value of the answer. \<open>whois_age d\<close>: the age in days computed from the creation date
  that \<open>whois.whois(d)\<close> reports, or \<open>None\<close> when the call raises or gives no usable date.
  \<open>http_head w\<close>: the status of \<open>requests.head(w)\<close>. \<open>dbl_resolve q\<close>: the outcome of the
  blocklist query for the name \<open>q\<close>.
\<close>
record net_env =
  dns_installed :: bool
  whois_installed :: bool
  requests_installed :: bool
  mx_resolve :: "string \<Rightarrow> mx_outcome"
  whois_age :: "string \<Rightarrow> int option"
  http_head :: "string \<Rightarrow> head_outcome"
  dbl_resolve :: "string \<Rightarrow> dbl_outcome"

text \<open>\<open>'@' in email\<close> raises \<open>TypeError\<close> on a truthy value that is not a string, and
  \<open>website.lower()\<close> raises \<open>AttributeError\<close> on one; both are outside every \<open>try\<close>.\<close>
definition validate_network_checks :: "net_env \<Rightarrow> pyval \<Rightarrow> pyval \<Rightarrow> py_error + string list" where
  "validate_network_checks nv website email =
     (case (if \<not> truthy email then Inr []
            else (case email of
                    PStr e \<Rightarrow> Inr (if CHR ''@'' \<in> set e then lower (split_second CHR ''@'' e) else [])
                  | _ \<Rightarrow> Inl TypeError)) of
        Inl err \<Rightarrow> Inl err
      | Inr domain \<Rightarrow>
         (case (if \<not> truthy website then Inr ([], [])
                else (case website of
                        PStr w \<Rightarrow> Inr (w, split_head CHR ''?'' (split_head CHR ''/''
                                  (remove_all ''http://'' (remove_all ''https://'' (lower w)))))
                      | _ \<Rightarrow> Inl AttributeError)) of
            Inl err \<Rightarrow> Inl err
          | Inr (w, website_domain) \<Rightarrow>
             (let check_domain = (if website_domain \<noteq> [] then website_domain else domain)
              in Inr (
                 (if dns_installed nv
                  then (if domain \<noteq> []
                        then (case mx_resolve nv domain of
                                MxRecords b \<Rightarrow> if \<not> b then [''mx_record_missing:'' @ domain] else []
                              | MxRaises \<Rightarrow> [''mx_record_check_failed:'' @ domain])
                        else [])
                  else [''network_check_skipped:dns.resolver not installed (pip install dnspython)''])
               @ (if whois_installed nv \<and> check_domain \<noteq> []
                  then (case whois_age nv check_domain of
                          None \<Rightarrow> []
                        | Some age_days \<Rightarrow>
                            if age_days < 7
                            then [''domain_too_new:'' @ check_domain @ '' ('' @ str_of_int age_days
                                    @ '' days, need >= 7)'']
                            else [])
                  else [])
               @ (if requests_installed nv \<and> w \<noteq> []
                  then (case http_head nv w of
                          HeadStatus code \<Rightarrow>
                            if code \<noteq> 200
                            then [''website_not_accessible:'' @ w @ '' (HTTP '' @ str_of_int code @ '')'']
                            else []
                        | HeadRaises \<Rightarrow> [''website_unreachable:'' @ w])
                  else [])
               @ (if dns_installed nv \<and> domain \<noteq> []
                  then (case dbl_resolve nv (domain @ ''.dbl.spamhaus.org'') of
                          DblAnswer \<Rightarrow> [''domain_blacklisted:'' @ domain @ '' (Spamhaus DBL)'']
                        | DblNxdomain \<Rightarrow> []
                        | DblRaises \<Rightarrow> [])
                  else [])))))"

subsection \<open>Employee count\<close>

definition validate_employee_count :: "pyval \<Rightarrow> string list" where
  "validate_employee_count count0 =
     (if \<not> truthy count0 then [''employee_count_empty'']
      else (let count = strip (py_str count0)
            in if count \<notin> set VALID_EMPLOYEE_COUNTS
               then [''employee_count_invalid:'' @ count @ '' (valid: ''
                       @ join '', '' VALID_EMPLOYEE_COUNTS @ '')'']
               else []))"

subsection \<open>Industry and sub-industry\<close>

text \<open>
  The taxonomy is a dictionary from lower-cased sub-industry to the lower-cased industries
  valid for it. The module keeps it in the global \<open>_TAXONOMY_CACHE\<close>, which is the only
  state that one audit leaves to the next: \<open>None\<close> until a load succeeds. Reading and parsing
  the taxonomy file is outside the program; its outcome is the parameter \<open>tax_source\<close>.
\<close>

type_synonym taxonomy = "(string \<times> string list) list"

datatype tax_source = TaxNoFile | TaxRaises | TaxRaw "(string \<times> string list) list"

definition build_taxonomy :: "(string \<times> string list) list \<Rightarrow> taxonomy" where
  "build_taxonomy taxonomy_raw =
     fold (\<lambda>(sub_industry, industries) taxonomy.
        AList.update (lower sub_industry) (map lower industries) taxonomy) taxonomy_raw []"

definition load_industry_taxonomy :: "tax_source \<Rightarrow> taxonomy option \<Rightarrow> taxonomy \<times> taxonomy option" where
  "load_industry_taxonomy src cache =
     (case cache of
        Some taxonomy \<Rightarrow> (taxonomy, cache)
      | None \<Rightarrow>
         (case src of
            TaxRaw taxonomy_raw \<Rightarrow>
              (let taxonomy = build_taxonomy taxonomy_raw in (taxonomy, Some taxonomy))
          | TaxNoFile \<Rightarrow> ([], None)
          | TaxRaises \<Rightarrow> ([], None)))"

definition industry_pair_checks :: "taxonomy \<Rightarrow> pyval \<Rightarrow> pyval \<Rightarrow> string list" where
  "industry_pair_checks taxonomy industry sub_industry =
     (if taxonomy = [] then [''taxonomy_not_loaded'']
      else
        (let sub_lower = (if truthy sub_industry then strip (lower (py_str sub_industry)) else []);
             ind_lower = (if truthy industry then strip (lower (py_str industry)) else [])
         in if sub_lower = [] then [''sub_industry_empty'']
            else (case map_of taxonomy sub_lower of
                    None \<Rightarrow> [''sub_industry_invalid:'' @ py_str sub_industry]
                  | Some valid_industries \<Rightarrow>
                      if ind_lower = [] then [''industry_empty'']
                      else if ind_lower \<notin> set valid_industries
                      then [''industry_mismatch:'' @ py_str industry @ '' not valid for ''
                              @ py_str sub_industry @ '' (valid: ''
                              @ join '', '' valid_industries @ '')'']
                      else [])))"

definition validate_industry_pair ::
  "tax_source \<Rightarrow> taxonomy option \<Rightarrow> pyval \<Rightarrow> pyval \<Rightarrow> string list \<times> taxonomy option" where
  "validate_industry_pair src cache industry sub_industry =
     (case load_industry_taxonomy src cache of
        (taxonomy, cache') \<Rightarrow> (industry_pair_checks taxonomy industry sub_industry, cache'))"

subsection \<open>LinkedIn URLs\<close>

text \<open>
  \<open>re.search(prefix + '([^/]+)', url)\<close> for a literal \<open>prefix\<close>: at the leftmost position
  where the prefix is followed by a character other than a slash, the group is the run of
  such characters.
\<close>
fun search_slug :: "string \<Rightarrow> string \<Rightarrow> string option" where
  "search_slug pre [] = None"
| "search_slug pre (c # cs) =
     (if prefix pre (c # cs) \<and> takeWhile (\<lambda>x. x \<noteq> CHR ''/'') (drop (length pre) (c # cs)) \<noteq> []
      then Some (takeWhile (\<lambda>x. x \<noteq> CHR ''/'') (drop (length pre) (c # cs)))
      else search_slug pre cs)"

text \<open>The first three steps of \<open>normalize_linkedin_url\<close>: \<open>url.strip().lower()\<close>, then
  \<open>re.sub(r'^https?://', '', url)\<close>, then \<open>re.sub(r'^www\.', '', url)\<close>.\<close>
definition url_without_scheme :: "string \<Rightarrow> string" where
  "url_without_scheme url =
     (let url1 = lower (strip url);
          url2 = (case rx_scheme (None, url1) of [] \<Rightarrow> url1 | st # sts \<Rightarrow> snd st)
      in drop_prefix ''www.'' url2)"

definition normalize_linkedin_url :: "pyval \<Rightarrow> string \<Rightarrow> string" where
  "normalize_linkedin_url url0 url_type =
     (if \<not> truthy url0 then []
      else
        (let url3 = url_without_scheme (py_str url0)
         in if \<not> startswith url3 ''linkedin.com'' then []
            else
              (let url4 = split_head CHR ''#'' (split_head CHR ''?'' url3);
                   url5 = rstrip_chr CHR ''/'' (squeeze_slashes url4)
               in if url_type = ''profile''
                  then (case search_slug ''linkedin.com/in/'' url5 of
                          None \<Rightarrow> []
                        | Some slug \<Rightarrow> ''linkedin.com/in/'' @ slug)
                  else if url_type = ''company''
                  then (case search_slug ''linkedin.com/company/'' url5 of
                          None \<Rightarrow> []
                        | Some slug \<Rightarrow> ''linkedin.com/company/'' @ slug)
                  else [])))"

text \<open>
  The host of a URL in the words of the specification: what is left of the URL, after the
  scheme and a leading \<open>www.\<close> are stripped, up to the first slash, question mark or hash
  sign. The program does not compute it.
\<close>
definition url_host :: "string \<Rightarrow> string" where
  "url_host url = takeWhile (\<lambda>c. c \<notin> set ''/?#'') (url_without_scheme url)"

text \<open>The path prefix that \<open>normalize_linkedin_url\<close> searches for and puts in front of the
  slug, for each of the two URL types.\<close>
definition path_prefix :: "string \<Rightarrow> string \<Rightarrow> bool" where
  "path_prefix url_type pre =
     (url_type = ''profile'' \<and> pre = ''linkedin.com/in/''
      \<or> url_type = ''company'' \<and> pre = ''linkedin.com/company/'')"

definition validate_linkedin_urls :: "pyval \<Rightarrow> pyval \<Rightarrow> string list" where
  "validate_linkedin_urls linkedin company_linkedin =
     (if normalize_linkedin_url linkedin ''profile'' = []
      then [''linkedin_invalid_format:'' @ py_str linkedin] else [])
     @ (if normalize_linkedin_url company_linkedin ''company'' = []
        then [''company_linkedin_invalid_format:'' @ py_str company_linkedin] else [])"

section \<open>Duplicate checking\<close>

text \<open>
  \<open>hashlib.sha256(s.encode()).hexdigest()\<close> is a library function; it is the parameter
  \<open>sha\<close> of the functions below. \<open>email.lower()\<close> raises \<open>AttributeError\<close> on a value that
  is not a string.
\<close>

definition compute_email_hash :: "(string \<Rightarrow> string) \<Rightarrow> pyval \<Rightarrow> py_error + string" where
  "compute_email_hash sha email =
     (case email of PStr e \<Rightarrow> Inr (sha (strip (lower e))) | _ \<Rightarrow> Inl AttributeError)"

definition compute_linkedin_combo_hash :: "(string \<Rightarrow> string) \<Rightarrow> pyval \<Rightarrow> pyval \<Rightarrow> string" where
  "compute_linkedin_combo_hash sha linkedin company_linkedin =
     (let norm_profile = normalize_linkedin_url linkedin ''profile'';
          norm_company = normalize_linkedin_url company_linkedin ''company''
      in if norm_profile = [] \<or> norm_company = [] then []
         else sha (norm_profile @ ''||'' @ norm_company))"

record dup_status =
  is_duplicate :: bool
  reason :: string
  can_resubmit :: bool
  source :: string

text \<open>The local cache, as \<open>sync_cache\<close> writes it: two dictionaries from hash to an entry
  with a decision and a timestamp.\<close>
record cache_entry =
  decision :: pyval
  timestamp :: pyval

record dup_cache =
  email_hashes :: "string \<rightharpoonup> cache_entry"
  linkedin_hashes :: "string \<rightharpoonup> cache_entry"

text \<open>
  The transparency log is queried through the \<open>supabase\<close> client. Whether the package can
  be imported, the four environment variables, whether \<open>create_client\<close> raises, and the
  answer of each of the three queries are parameters. A query answers with the rows of
  \<open>.data\<close> or raises. A \<open>CONSENSUS_RESULT\<close> row is given by the \<open>final_decision\<close> of its
  payload (\<open>PNone\<close> when the key is absent); \<open>RowBad\<close> is a row whose payload cannot be read
  that way, so that reading it raises.
\<close>
datatype consensus_row = RowBad | RowDecision pyval

datatype 'a query_result = QueryRaises | QueryData "'a list"

record remote =
  supabase_installed :: bool
  env_SUPABASE_URL :: "string option"
  env_LEADPOET_SUPABASE_URL :: "string option"
  env_SUPABASE_ANON_KEY :: "string option"
  env_LEADPOET_SUPABASE_ANON_KEY :: "string option"
  create_client_raises :: bool
  consensus_by_email :: "string \<Rightarrow> consensus_row query_result"
  consensus_by_linkedin :: "string \<Rightarrow> consensus_row query_result"
  submission_by_email :: "string \<Rightarrow> unit query_result"

text \<open>The queries sent to the log, in order, are returned next to the result.\<close>
datatype query = ConsensusByEmail string | ConsensusByLinkedin string | SubmissionByEmail string

text \<open>The online block either returns a status, or raises and falls back to the cache, or
  runs through without returning.\<close>
datatype online_outcome = Answer dup_status | Fallback | NoAnswer

text \<open>\<open>os.environ.get(a) or os.environ.get(b)\<close>, as a truth value.\<close>
definition env_or :: "string option \<Rightarrow> string option \<Rightarrow> bool" where
  "env_or a b = ((case a of None \<Rightarrow> False | Some s \<Rightarrow> s \<noteq> [])
     \<or> (case b of None \<Rightarrow> False | Some s \<Rightarrow> s \<noteq> []))"

definition status :: "bool \<Rightarrow> string \<Rightarrow> bool \<Rightarrow> string \<Rightarrow> dup_status" where
  "status d r c s = \<lparr>is_duplicate = d, reason = r, can_resubmit = c, source = s\<rparr>"

definition email_consensus_step :: "consensus_row query_result \<Rightarrow> online_outcome option" where
  "email_consensus_step email_result =
     (case email_result of
        QueryRaises \<Rightarrow> Some Fallback
      | QueryData [] \<Rightarrow> None
      | QueryData (RowBad # rows) \<Rightarrow> Some Fallback
      | QueryData (RowDecision d # rows) \<Rightarrow>
          Some (Answer (if d = PStr ''approve''
            then status True ''email_already_approved'' False ''online''
            else status False ''email_was_denied_can_resubmit'' True ''online'')))"

definition linkedin_consensus_step :: "consensus_row query_result \<Rightarrow> online_outcome option" where
  "linkedin_consensus_step li_result =
     (case li_result of
        QueryRaises \<Rightarrow> Some Fallback
      | QueryData [] \<Rightarrow> None
      | QueryData (RowBad # rows) \<Rightarrow> Some Fallback
      | QueryData (RowDecision d # rows) \<Rightarrow>
          (if d = PStr ''approve''
           then Some (Answer (status True ''linkedin_combo_already_approved'' False ''online''))
           else None))"

definition pending_step :: "unit query_result \<Rightarrow> online_outcome option" where
  "pending_step pending =
     (case pending of
        QueryRaises \<Rightarrow> Some Fallback
      | QueryData [] \<Rightarrow> None
      | QueryData (row # rows) \<Rightarrow>
          Some (Answer (status True ''email_pending_processing'' False ''online'')))"

definition check_online :: "remote \<Rightarrow> string \<Rightarrow> string \<Rightarrow> query list \<times> online_outcome" where
  "check_online rm email_hash linkedin_hash =
     (if \<not> supabase_installed rm then ([], Fallback)
      else if \<not> (env_or (env_SUPABASE_URL rm) (env_LEADPOET_SUPABASE_URL rm)
                \<and> env_or (env_SUPABASE_ANON_KEY rm) (env_LEADPOET_SUPABASE_ANON_KEY rm))
      then ([], NoAnswer)
      else if create_client_raises rm then ([], Fallback)
      else
        (let (q1, o1) = (if email_hash \<noteq> []
               then ([ConsensusByEmail email_hash],
                     email_consensus_step (consensus_by_email rm email_hash))
               else ([], None))
         in case o1 of
              Some out \<Rightarrow> (q1, out)
            | None \<Rightarrow>
               (let (q2, o2) = (if linkedin_hash \<noteq> []
                      then ([ConsensusByLinkedin linkedin_hash],
                            linkedin_consensus_step (consensus_by_linkedin rm linkedin_hash))
                      else ([], None))
                in case o2 of
                     Some out \<Rightarrow> (q1 @ q2, out)
                   | None \<Rightarrow>
                      (let (q3, o3) = (if email_hash \<noteq> []
                             then ([SubmissionByEmail email_hash],
                                   pending_step (submission_by_email rm email_hash))
                             else ([], None))
                       in case o3 of
                            Some out \<Rightarrow> (q1 @ q2 @ q3, out)
                          | None \<Rightarrow> (q1 @ q2 @ q3, NoAnswer)))))"

definition check_offline :: "dup_cache \<Rightarrow> string \<Rightarrow> string \<Rightarrow> dup_status" where
  "check_offline cache email_hash linkedin_hash =
     (case (if email_hash \<noteq> [] then email_hashes cache email_hash else None) of
        Some info \<Rightarrow>
          (if decision info = PStr ''approve''
           then status True ''email_already_approved'' False ''cache''
           else status False ''email_was_denied_can_resubmit'' True ''cache'')
      | None \<Rightarrow>
          (case (if linkedin_hash \<noteq> [] then linkedin_hashes cache linkedin_hash else None) of
             Some info \<Rightarrow>
               (if decision info = PStr ''approve''
                then status True ''linkedin_combo_already_approved'' False ''cache''
                else status False ''new'' True ''cache'')
           | None \<Rightarrow> status False ''new'' True ''cache''))"

text \<open>
  \<open>DuplicateChecker.check\<close>, for a checker constructed with \<open>mode\<close> and holding \<open>cache\<close>.
  A failure of the online block sets the mode to \<open>offline\<close>, so that the cache is read next;
  when the online block runs through without returning, the mode is still \<open>online\<close> and the
  initial result is returned.
\<close>
text \<open>\<open>compute_email_hash(email) if email else ""\<close>\<close>
definition email_hash_of :: "(string \<Rightarrow> string) \<Rightarrow> pyval \<Rightarrow> py_error + string" where
  "email_hash_of sha email = (if truthy email then compute_email_hash sha email else Inr [])"

definition check ::
  "(string \<Rightarrow> string) \<Rightarrow> remote \<Rightarrow> dup_cache \<Rightarrow> string \<Rightarrow> pyval \<Rightarrow> pyval \<Rightarrow> pyval
     \<Rightarrow> query list \<times> (py_error + dup_status)" where
  "check sha rm cache mode email linkedin company_linkedin =
     (case email_hash_of sha email of
        Inl err \<Rightarrow> ([], Inl err)
      | Inr email_hash \<Rightarrow>
         (let linkedin_hash = compute_linkedin_combo_hash sha linkedin company_linkedin
          in if mode = ''online''
             then (case check_online rm email_hash linkedin_hash of
                     (qs, Answer st) \<Rightarrow> (qs, Inr st)
                   | (qs, Fallback) \<Rightarrow> (qs, Inr (check_offline cache email_hash linkedin_hash))
                   | (qs, NoAnswer) \<Rightarrow> (qs, Inr (status False ''new'' True mode)))
             else if mode = ''offline''
             then ([], Inr (check_offline cache email_hash linkedin_hash))
             else ([], Inr (status False ''new'' True mode))))"

section \<open>Score preview\<close>

record icp_result =
  matches :: bool
  icp_name :: "string option"
  bonus :: int

definition role_expansions :: "(string \<times> string) list" where
  "role_expansions =
     [(''chief executive officer'', ''ceo''),
      (''chief technology officer'', ''cto''),
      (''chief operating officer'', ''coo''),
      (''chief financial officer'', ''cfo''),
      (''chief marketing officer'', ''cmo''),
      (''chief information officer'', ''cio''),
      (''chief scientific officer'', ''cso''),
      (''chief risk officer'', ''cro''),
      (''chief compliance officer'', ''cco''),
      (''chief product officer'', ''cpo''),
      (''chief ai officer'', ''caio''),
      (''chief data officer'', ''cdo''),
      (''vice president'', ''vp'')]"

text \<open>\<open>str(v).lower().strip() if v else ""\<close>\<close>
definition lower_strip :: "pyval \<Rightarrow> string" where
  "lower_strip v = (if truthy v then strip (lower (py_str v)) else [])"

definition icp_matches :: "string \<Rightarrow> string \<Rightarrow> string \<Rightarrow> string \<Rightarrow> string \<Rightarrow> icp \<Rightarrow> bool" where
  "icp_matches sub_lower role_lower role_expanded country_lower city_lower i =
     (list_ex (\<lambda>s. sub_lower = s \<or> contains sub_lower s \<or> contains s sub_lower) (sub_industries i)
      \<and> list_ex (\<lambda>r. contains r role_lower \<or> contains r role_expanded) (roles i)
      \<and> (case regions i of
            None \<Rightarrow> True
          | Some rs \<Rightarrow> list_ex (\<lambda>r. contains r country_lower \<or> contains r city_lower) rs))"

definition check_icp_match :: "pyval \<Rightarrow> pyval \<Rightarrow> pyval \<Rightarrow> pyval \<Rightarrow> icp_result" where
  "check_icp_match sub_industry role country city =
     (let sub_lower = lower_strip sub_industry;
          role_lower = lower_strip role;
          country_lower = lower_strip country;
          city_lower = lower_strip city;
          role_expanded = fold (\<lambda>(full, abbr) expanded.
              if contains full role_lower then role_lower @ '' '' @ abbr else expanded)
            role_expansions role_lower
      in case find (icp_matches sub_lower role_lower role_expanded country_lower city_lower)
                ICP_DEFINITIONS of
           Some i \<Rightarrow> \<lparr>matches = True, icp_name = Some (name i), bonus = 50\<rparr>
         | None \<Rightarrow> \<lparr>matches = False, icp_name = None, bonus = 0\<rparr>)"

definition is_major_hub :: "pyval \<Rightarrow> pyval \<Rightarrow> bool" where
  "is_major_hub city country =
     (let city_lower = lower_strip city;
          country_lower = lower_strip country
      in list_ex (\<lambda>(hub_country, hub_cities).
           (contains hub_country country_lower \<or> contains country_lower hub_country)
           \<and> city_lower \<in> set hub_cities) MAJOR_HUBS_BY_COUNTRY)"

definition parse_employee_count :: "string \<Rightarrow> int \<times> int" where
  "parse_employee_count count_str =
     (if count_str = ''0-1'' then (0, 1)
      else if count_str = ''2-10'' then (2, 10)
      else if count_str = ''11-50'' then (11, 50)
      else if count_str = ''51-200'' then (51, 200)
      else if count_str = ''201-500'' then (201, 500)
      else if count_str = ''501-1,000'' then (501, 1000)
      else if count_str = ''1,001-5,000'' then (1001, 5000)
      else if count_str = ''5,001-10,000'' then (5001, 10000)
      else if count_str = ''10,001+'' then (10001, 100000)
      else (0, 0))"

definition calculate_size_adjustment :: "pyval \<Rightarrow> pyval \<Rightarrow> pyval \<Rightarrow> int \<times> string" where
  "calculate_size_adjustment employee_count city country =
     (if \<not> truthy employee_count \<or> \<not> in_strs employee_count VALID_EMPLOYEE_COUNTS
      then (0, ''no_employee_count'')
      else
        (case parse_employee_count (py_str employee_count) of
           (emp_min, emp_max) \<Rightarrow>
             (let is_hub = is_major_hub city country
              in if emp_max \<le> 10 \<and> is_hub
                 then (50, ''small_company_major_hub (<=10 employees in '' @ py_str city @ '')'')
                 else if emp_max \<le> 50 then (20, ''small_company (<=50 employees)'')
                 else if 5000 < emp_min \<and> emp_min < 10001
                 then (- 15, ''large_company_penalty (5k-10k employees)'')
                 else if emp_min > 1000 then (- 10, ''large_company_penalty (>1k employees)'')
                 else (0, ''mid_size_company''))))"

record score_preview =
  icp_match :: bool
  icp_name_out :: "string option"
  icp_bonus :: int
  size_adjustment :: int
  size_reason :: string
  estimated_adjustment :: int
  recommendations :: "string list"

definition preview_score :: "lead \<Rightarrow> score_preview" where
  "preview_score ld =
     (let icp = check_icp_match (get_or ld ''sub_industry'' (PStr [])) (get_or ld ''role'' (PStr []))
                  (get_or ld ''country'' (PStr [])) (get_or ld ''city'' (PStr []))
      in case calculate_size_adjustment (get_or ld ''employee_count'' (PStr []))
                (get_or ld ''city'' (PStr [])) (get_or ld ''country'' (PStr [])) of
           (size_adj, size_reason_v) \<Rightarrow>
             (let total_bonus = min 50 (bonus icp + max 0 size_adj);
                  total_adjustment = (if size_adj < 0 then total_bonus + size_adj else total_bonus)
              in \<lparr>icp_match = matches icp,
                  icp_name_out = icp_name icp,
                  icp_bonus = bonus icp,
                  size_adjustment = size_adj,
                  size_reason = size_reason_v,
                  estimated_adjustment = total_adjustment,
                  recommendations =
                    (if \<not> matches icp
                     then [''Consider targeting ICP categories for +50 bonus''] else [])
                    @ (if size_adj < 0
                       then [''Large companies receive penalties - consider smaller targets'']
                       else [])
                    @ (if size_adj = 0 \<and> \<not> matches icp
                       then [''Small companies (<=50 employees) receive +20 bonus''] else [])\<rparr>))"

section \<open>The audit\<close>

text \<open>
  Everything an audit reads from outside the program: the iteration order of string sets in
  the running interpreter, the optional blocklist package, the network services, the
  taxonomy file, the cache file (\<open>None\<close> when it is missing or unreadable), the hash function
  and the transparency log.
\<close>
record env =
  set_iter :: "string list \<Rightarrow> string list"
  disposable_pkg :: "string list option"
  net :: net_env
  tax_file :: tax_source
  cache_file :: "dup_cache option"
  sha256_hex :: "string \<Rightarrow> string"
  remote_log :: remote

definition load_cache :: "dup_cache option \<Rightarrow> dup_cache" where
  "load_cache file =
     (case file of
        Some cache \<Rightarrow> cache
      | None \<Rightarrow> \<lparr>email_hashes = Map.empty, linkedin_hashes = Map.empty\<rparr>)"

record audit_result =
  passed :: bool
  blocking_errors :: "string list"
  warnings :: "string list"
  duplicate_status :: dup_status
  score_preview_out :: score_preview

text \<open>
  \<open>audit_lead\<close> takes the value of \<open>_TAXONOMY_CACHE\<close> before the call and returns its value
  after the call next to the result. An exception leaves the audit at the stage that raises
  it: the network checks come before the taxonomy is loaded, the duplicate check after.
\<close>
definition audit_lead ::
  "env \<Rightarrow> taxonomy option \<Rightarrow> lead \<Rightarrow> string \<Rightarrow> bool \<Rightarrow> (py_error + audit_result) \<times> taxonomy option" where
  "audit_lead ev tax_cache ld duplicate_mode run_network_checks =
     (case (if run_network_checks
            then validate_network_checks (net ev) (get_or ld ''website'' (PStr []))
                   (get_or ld ''email'' (PStr []))
            else Inr []) of
        Inl err \<Rightarrow> (Inl err, tax_cache)
      | Inr network_warnings \<Rightarrow>
         (case validate_description (get_or ld ''description'' (PStr [])) of
            (desc_errors, desc_warnings) \<Rightarrow>
         (case validate_industry_pair (tax_file ev) tax_cache (get_or ld ''industry'' (PStr []))
                 (get_or ld ''sub_industry'' (PStr [])) of
            (industry_errors, tax_cache') \<Rightarrow>
         (let errors =
                validate_attestation ld
              @ validate_required_fields ld
              @ validate_source_provenance ld
              @ validate_role (get_or ld ''role'' (PStr []))
              @ desc_errors
              @ validate_email (disposable_pkg ev) (get_or ld ''email'' (PStr []))
                  (get_or ld ''first'' (PStr [])) (get_or ld ''last'' (PStr []))
              @ validate_employee_count (get_or ld ''employee_count'' (PStr []))
              @ industry_errors
              @ validate_linkedin_urls (get_or ld ''linkedin'' (PStr []))
                  (get_or ld ''company_linkedin'' (PStr []))
              @ validate_location (set_iter ev) (get_or ld ''city'' (PStr []))
                  (get_or ld ''country'' (PStr []))
                  (get_or ld ''region'' (get_or ld ''state'' (PStr [])))
          in case snd (check (sha256_hex ev) (remote_log ev) (load_cache (cache_file ev))
                         duplicate_mode (get_or ld ''email'' (PStr []))
                         (get_or ld ''linkedin'' (PStr []))
                         (get_or ld ''company_linkedin'' (PStr []))) of
               Inl err \<Rightarrow> (Inl err, tax_cache')
             | Inr dup \<Rightarrow>
                (let blocking = errors
                       @ (if is_duplicate dup \<and> \<not> can_resubmit dup
                          then [''duplicate:'' @ reason dup] else [])
                 in (Inr \<lparr>passed = (length blocking = 0),
                          blocking_errors = blocking,
                          warnings = network_warnings @ desc_warnings,
                          duplicate_status = dup,
                          score_preview_out = preview_score ld\<rparr>,
                     tax_cache'))))))"

section \<open>Example inputs\<close>

text \<open>A small AI company in Berlin led by its CTO, and a lead that only says it has more
  than 10,000 employees.\<close>
definition lead_hub :: lead where
  "lead_hub = [''sub_industry'' \<mapsto> PStr ''machine learning'', ''role'' \<mapsto> PStr ''CTO'',
     ''employee_count'' \<mapsto> PStr ''2-10'', ''city'' \<mapsto> PStr ''Berlin'',
     ''country'' \<mapsto> PStr ''Germany'']"

definition lead_large :: lead where
  "lead_large = [''employee_count'' \<mapsto> PStr ''10,001+'']"

text \<open>
  A stand-in for the hash function in the examples (the theorems hold for every function),
  three caches, and four states of the transparency log for the lead of
  \<open>a@b.co\<close>: one where the log is reachable, has no consensus result for the email hash,
  a pending submission for it, and no record for the LinkedIn pair; one that differs by an
  approved consensus result for the LinkedIn pair; one where the query for the LinkedIn
  pair raises; and one where the package is missing.
\<close>
definition toy_sha :: "string \<Rightarrow> string" where
  "toy_sha s = ''sha:'' @ s"

definition cache_empty :: dup_cache where
  "cache_empty = \<lparr>email_hashes = Map.empty, linkedin_hashes = Map.empty\<rparr>"

definition cache_approved :: dup_cache where
  "cache_approved =
     \<lparr>email_hashes = [''sha:a@b.co'' \<mapsto> \<lparr>decision = PStr ''approve'', timestamp = PNone\<rparr>],
      linkedin_hashes = Map.empty\<rparr>"

definition cache_denied :: dup_cache where
  "cache_denied =
     \<lparr>email_hashes = [''sha:a@b.co'' \<mapsto> \<lparr>decision = PStr ''deny'', timestamp = PNone\<rparr>],
      linkedin_hashes = Map.empty\<rparr>"

definition log_pending :: remote where
  "log_pending =
     \<lparr>supabase_installed = True,
      env_SUPABASE_URL = Some ''https://log.example'',
      env_LEADPOET_SUPABASE_URL = None,
      env_SUPABASE_ANON_KEY = Some ''key'',
      env_LEADPOET_SUPABASE_ANON_KEY = None,
      create_client_raises = False,
      consensus_by_email = (\<lambda>h. QueryData []),
      consensus_by_linkedin = (\<lambda>h. QueryData []),
      submission_by_email = (\<lambda>h. if h = ''sha:a@b.co'' then QueryData [()] else QueryData [])\<rparr>"

definition log_pending_li_approved :: remote where
  "log_pending_li_approved =
     log_pending\<lparr>consensus_by_linkedin :=
       (\<lambda>h. if h = ''sha:linkedin.com/in/bob||linkedin.com/company/acme''
            then QueryData [RowDecision (PStr ''approve'')] else QueryData [])\<rparr>"

text \<open>The log of \<open>log_pending\<close> when the query for the LinkedIn pair fails.\<close>
definition log_pending_li_fails :: remote where
  "log_pending_li_fails = log_pending\<lparr>consensus_by_linkedin := (\<lambda>h. QueryRaises)\<rparr>"

definition log_unavailable :: remote where
  "log_unavailable = log_pending\<lparr>supabase_installed := False\<rparr>"

text \<open>
  An environment without network libraries, taxonomy file, cache file or log access, in
  which string sets are iterated in order of first insertion; and a lead that gives an
  email address and refuses the licence, with no wallet.
\<close>
definition net_none :: net_env where
  "net_none =
     \<lparr>dns_installed = False, whois_installed = False, requests_installed = False,
      mx_resolve = (\<lambda>d. MxRaises), whois_age = (\<lambda>d. None),
      http_head = (\<lambda>w. HeadRaises), dbl_resolve = (\<lambda>q. DblRaises)\<rparr>"

definition env_offline :: env where
  "env_offline =
     \<lparr>set_iter = remdups, disposable_pkg = None, net = net_none, tax_file = TaxNoFile,
      cache_file = None, sha256_hex = toy_sha, remote_log = log_unavailable\<rparr>"

definition lead_unattested :: lead where
  "lead_unattested = [''email'' \<mapsto> PStr ''a@b.co'', ''license_granted'' \<mapsto> PBool False]"

text \<open>
  A lead whose city repeats two words, and the environment \<open>env_offline\<close> in an interpreter
  that iterates a set of strings in the opposite order. Both orders enumerate the set: the
  order that a Python process uses for a set of strings depends on its string-hash seed.
\<close>
definition lead_twice :: lead where
  "lead_twice = [''city'' \<mapsto> PStr ''abcd abcd efgh efgh'']"

definition env_offline_rev :: env where
  "env_offline_rev = env_offline\<lparr>set_iter := rev \<circ> remdups\<rparr>"

section \<open>Score preview: bonus, cap and penalty\<close>

lemma matches_bonus:
  "bonus (check_icp_match a b c d) = (if matches (check_icp_match a b c d) then 50 else 0)"
  by (simp add: check_icp_match_def Let_def split: option.split)

lemma preview_icp_bonus:
  "icp_bonus (preview_score ld) = (if icp_match (preview_score ld) then 50 else 0)"
  by (simp add: preview_score_def Let_def matches_bonus split: prod.split)

lemma preview_size_adjustment:
  "size_adjustment (preview_score ld) =
     fst (calculate_size_adjustment (get_or ld ''employee_count'' (PStr []))
            (get_or ld ''city'' (PStr [])) (get_or ld ''country'' (PStr [])))"
  by (simp add: preview_score_def Let_def split: prod.split)

lemma preview_estimated:
  "estimated_adjustment (preview_score ld) =
     (if size_adjustment (preview_score ld) < 0
      then min 50 (icp_bonus (preview_score ld) + max 0 (size_adjustment (preview_score ld)))
             + size_adjustment (preview_score ld)
      else min 50 (icp_bonus (preview_score ld) + max 0 (size_adjustment (preview_score ld))))"
  by (simp add: preview_score_def Let_def split: prod.split)

lemma valid_counts_nonempty: "c \<in> set VALID_EMPLOYEE_COUNTS \<Longrightarrow> c \<noteq> []"
  by (auto simp add: VALID_EMPLOYEE_COUNTS_def)

lemma size_cases:
  "fst (calculate_size_adjustment (PStr c) city country) =
    (if c \<notin> set VALID_EMPLOYEE_COUNTS then 0
     else if snd (parse_employee_count c) \<le> 10 \<and> is_major_hub city country then 50
     else if snd (parse_employee_count c) \<le> 50 then 20
     else if 5000 < fst (parse_employee_count c) \<and> fst (parse_employee_count c) < 10001 then - 15
     else if 1000 < fst (parse_employee_count c) then - 10 else 0)"
  unfolding calculate_size_adjustment_def Let_def
  by (cases "parse_employee_count c") (auto dest: valid_counts_nonempty)

lemma parse_min_max:
  "1000 < fst (parse_employee_count c) \<Longrightarrow> \<not> snd (parse_employee_count c) \<le> 50"
  by (simp add: parse_employee_count_def split: if_splits)

lemma size_small_hub:
  assumes "ld ''employee_count'' = Some (PStr c)" and "c \<in> set VALID_EMPLOYEE_COUNTS"
    and "snd (parse_employee_count c) \<le> 10"
    and "is_major_hub (get_or ld ''city'' (PStr [])) (get_or ld ''country'' (PStr []))"
  shows "size_adjustment (preview_score ld) = 50"
proof -
  have "get_or ld ''employee_count'' (PStr []) = PStr c"
    using assms(1) by (simp add: get_or_def)
  then show ?thesis
    using assms(2-4) by (simp add: preview_size_adjustment size_cases)
qed

lemma size_large:
  assumes "ld ''employee_count'' = Some (PStr c)" and "c \<in> set VALID_EMPLOYEE_COUNTS"
    and "1000 < fst (parse_employee_count c)"
    and "\<not> (5000 < fst (parse_employee_count c) \<and> fst (parse_employee_count c) < 10001)"
  shows "size_adjustment (preview_score ld) = - 10"
proof -
  have "get_or ld ''employee_count'' (PStr []) = PStr c"
    using assms(1) by (simp add: get_or_def)
  moreover have "\<not> snd (parse_employee_count c) \<le> 10" "\<not> snd (parse_employee_count c) \<le> 50"
    using parse_min_max [OF assms(3)] by simp_all
  ultimately show ?thesis
    using assms(2-4) by (simp add: preview_size_adjustment size_cases)
qed

text \<open>
  C3. For every lead, the ICP bonus of \<open>preview_score\<close> is 0 or 50. The estimated adjustment
  is \<open>min(50, icp_bonus + max(0, size_adjustment))\<close> when the size adjustment is not negative,
  and \<open>min(50, icp_bonus) + size_adjustment\<close> when it is negative. A lead that matches an ICP
  and has at most 10 employees in a major hub (raw 50 + 50) gets 50; a lead that matches no
  ICP and whose employee-count bucket starts above 1,000 outside the 5,001-10,000 bucket gets
  -10.
\<close>
theorem preview_score_adjustment:
  "(icp_bonus (preview_score ld) = 0 \<or> icp_bonus (preview_score ld) = 50)
   \<and> (0 \<le> size_adjustment (preview_score ld) \<longrightarrow>
        estimated_adjustment (preview_score ld)
          = min 50 (icp_bonus (preview_score ld) + max 0 (size_adjustment (preview_score ld))))
   \<and> (size_adjustment (preview_score ld) < 0 \<longrightarrow>
        estimated_adjustment (preview_score ld)
          = min 50 (icp_bonus (preview_score ld)) + size_adjustment (preview_score ld))
   \<and> (icp_match (preview_score ld) \<and> ld ''employee_count'' = Some (PStr c)
        \<and> c \<in> set VALID_EMPLOYEE_COUNTS \<and> snd (parse_employee_count c) \<le> 10
        \<and> is_major_hub (get_or ld ''city'' (PStr [])) (get_or ld ''country'' (PStr [])) \<longrightarrow>
        icp_bonus (preview_score ld) + size_adjustment (preview_score ld) = 100
        \<and> estimated_adjustment (preview_score ld) = 50)
   \<and> (\<not> icp_match (preview_score ld) \<and> ld ''employee_count'' = Some (PStr c)
        \<and> c \<in> set VALID_EMPLOYEE_COUNTS \<and> 1000 < fst (parse_employee_count c)
        \<and> \<not> (5000 < fst (parse_employee_count c) \<and> fst (parse_employee_count c) < 10001) \<longrightarrow>
        estimated_adjustment (preview_score ld) = - 10)"
proof (intro conjI impI)
  show "icp_bonus (preview_score ld) = 0 \<or> icp_bonus (preview_score ld) = 50"
    by (simp add: preview_icp_bonus)
next
  assume "0 \<le> size_adjustment (preview_score ld)"
  then show "estimated_adjustment (preview_score ld)
      = min 50 (icp_bonus (preview_score ld) + max 0 (size_adjustment (preview_score ld)))"
    by (simp add: preview_estimated)
next
  assume "size_adjustment (preview_score ld) < 0"
  then show "estimated_adjustment (preview_score ld)
      = min 50 (icp_bonus (preview_score ld)) + size_adjustment (preview_score ld)"
    by (simp add: preview_estimated)
next
  assume h: "icp_match (preview_score ld) \<and> ld ''employee_count'' = Some (PStr c)
        \<and> c \<in> set VALID_EMPLOYEE_COUNTS \<and> snd (parse_employee_count c) \<le> 10
        \<and> is_major_hub (get_or ld ''city'' (PStr [])) (get_or ld ''country'' (PStr []))"
  then have s: "size_adjustment (preview_score ld) = 50"
    by (simp add: size_small_hub)
  from h have b: "icp_bonus (preview_score ld) = 50"
    by (simp add: preview_icp_bonus)
  show "icp_bonus (preview_score ld) + size_adjustment (preview_score ld) = 100"
    using s b by simp
  show "estimated_adjustment (preview_score ld) = 50"
    using s b by (simp add: preview_estimated)
next
  assume h: "\<not> icp_match (preview_score ld) \<and> ld ''employee_count'' = Some (PStr c)
        \<and> c \<in> set VALID_EMPLOYEE_COUNTS \<and> 1000 < fst (parse_employee_count c)
        \<and> \<not> (5000 < fst (parse_employee_count c) \<and> fst (parse_employee_count c) < 10001)"
  then have s: "size_adjustment (preview_score ld) = - 10"
    by (simp add: size_large)
  from h have b: "icp_bonus (preview_score ld) = 0"
    by (simp add: preview_icp_bonus)
  show "estimated_adjustment (preview_score ld) = - 10"
    using s b by (simp add: preview_estimated)
qed

theorem preview_score_adjustment_witness:
  "icp_match (preview_score lead_hub)
   \<and> icp_bonus (preview_score lead_hub) + size_adjustment (preview_score lead_hub) = 100
   \<and> estimated_adjustment (preview_score lead_hub) = 50
   \<and> \<not> icp_match (preview_score lead_large)
   \<and> size_adjustment (preview_score lead_large) < 0
   \<and> estimated_adjustment (preview_score lead_large) = - 10"
proof -
  have m: "icp_match (preview_score lead_hub)" by code_simp
  have hub: "is_major_hub (get_or lead_hub ''city'' (PStr [])) (get_or lead_hub ''country'' (PStr []))"
    by code_simp
  have e: "lead_hub ''employee_count'' = Some (PStr ''2-10'')"
    by (simp add: lead_hub_def)
  have v: "''2-10'' \<in> set VALID_EMPLOYEE_COUNTS \<and> snd (parse_employee_count ''2-10'') \<le> 10"
    by (simp add: VALID_EMPLOYEE_COUNTS_def parse_employee_count_def)
  have n: "\<not> icp_match (preview_score lead_large)" by code_simp
  have e': "lead_large ''employee_count'' = Some (PStr ''10,001+'')"
    by (simp add: lead_large_def)
  have v': "''10,001+'' \<in> set VALID_EMPLOYEE_COUNTS \<and> 1000 < fst (parse_employee_count ''10,001+'')
      \<and> \<not> (5000 < fst (parse_employee_count ''10,001+'')
            \<and> fst (parse_employee_count ''10,001+'') < 10001)"
    by (simp add: VALID_EMPLOYEE_COUNTS_def parse_employee_count_def)
  have neg: "size_adjustment (preview_score lead_large) < 0" by code_simp
  from preview_score_adjustment [of lead_hub "''2-10''"] m hub e v
  have a: "icp_bonus (preview_score lead_hub) + size_adjustment (preview_score lead_hub) = 100
      \<and> estimated_adjustment (preview_score lead_hub) = 50"
    by blast
  from preview_score_adjustment [of lead_large "''10,001+''"] n e' v'
  have b: "estimated_adjustment (preview_score lead_large) = - 10"
    by blast
  show ?thesis using m n neg a b by blast
qed
section \<open>Duplicate checker\<close>

lemma check_offline_mode:
  "email_hash_of sha email = Inr eh \<Longrightarrow>
   snd (check sha rm cache ''offline'' email linkedin company)
     = Inr (check_offline cache eh (compute_linkedin_combo_hash sha linkedin company))"
  by (simp add: check_def Let_def)

lemma check_offline_approved:
  "eh \<noteq> [] \<Longrightarrow> email_hashes cache eh = Some info \<Longrightarrow> decision info = PStr ''approve''
   \<Longrightarrow> check_offline cache eh lh = status True ''email_already_approved'' False ''cache''"
  by (simp add: check_offline_def)

lemma check_offline_denied:
  "eh \<noteq> [] \<Longrightarrow> email_hashes cache eh = Some info \<Longrightarrow> decision info \<noteq> PStr ''approve''
   \<Longrightarrow> check_offline cache eh lh = status False ''email_was_denied_can_resubmit'' True ''cache''"
  by (simp add: check_offline_def)

lemma check_offline_miss:
  "email_hashes cache eh = None \<Longrightarrow> linkedin_hashes cache lh = None
   \<Longrightarrow> check_offline cache eh lh = status False ''new'' True ''cache''"
  by (simp add: check_offline_def)

text \<open>
  C4. In offline mode, for every cache and every lead whose email hash can be computed:
  when the email hash is in the cache with decision \<open>approve\<close>, \<open>check\<close> returns a duplicate
  that cannot be resubmitted; when it is there with any other decision, \<open>check\<close> returns no
  duplicate and resubmission is allowed; when neither the email hash nor the LinkedIn hash
  is in the cache, the result is \<open>new\<close>, not a duplicate, and can be resubmitted.
\<close>
theorem check_offline_cache:
  assumes "email_hash_of sha email = Inr eh"
  shows "(eh \<noteq> [] \<and> email_hashes cache eh = Some info \<and> decision info = PStr ''approve'' \<longrightarrow>
            snd (check sha rm cache ''offline'' email linkedin company)
              = Inr \<lparr>is_duplicate = True, reason = ''email_already_approved'',
                      can_resubmit = False, source = ''cache''\<rparr>)
       \<and> (eh \<noteq> [] \<and> email_hashes cache eh = Some info \<and> decision info \<noteq> PStr ''approve'' \<longrightarrow>
            snd (check sha rm cache ''offline'' email linkedin company)
              = Inr \<lparr>is_duplicate = False, reason = ''email_was_denied_can_resubmit'',
                      can_resubmit = True, source = ''cache''\<rparr>)
       \<and> (email_hashes cache eh = None
            \<and> linkedin_hashes cache (compute_linkedin_combo_hash sha linkedin company) = None \<longrightarrow>
            snd (check sha rm cache ''offline'' email linkedin company)
              = Inr \<lparr>is_duplicate = False, reason = ''new'', can_resubmit = True,
                      source = ''cache''\<rparr>)"
proof (intro conjI impI)
  assume "eh \<noteq> [] \<and> email_hashes cache eh = Some info \<and> decision info = PStr ''approve''"
  then show "snd (check sha rm cache ''offline'' email linkedin company)
      = Inr \<lparr>is_duplicate = True, reason = ''email_already_approved'',
              can_resubmit = False, source = ''cache''\<rparr>"
    using assms by (simp add: check_offline_mode check_offline_approved status_def)
next
  assume "eh \<noteq> [] \<and> email_hashes cache eh = Some info \<and> decision info \<noteq> PStr ''approve''"
  then show "snd (check sha rm cache ''offline'' email linkedin company)
      = Inr \<lparr>is_duplicate = False, reason = ''email_was_denied_can_resubmit'',
              can_resubmit = True, source = ''cache''\<rparr>"
    using assms by (simp add: check_offline_mode check_offline_denied status_def)
next
  assume "email_hashes cache eh = None
      \<and> linkedin_hashes cache (compute_linkedin_combo_hash sha linkedin company) = None"
  then show "snd (check sha rm cache ''offline'' email linkedin company)
      = Inr \<lparr>is_duplicate = False, reason = ''new'', can_resubmit = True, source = ''cache''\<rparr>"
    using assms by (simp add: check_offline_mode check_offline_miss status_def)
qed

theorem check_offline_cache_witness:
  "snd (check toy_sha log_pending cache_approved ''offline'' (PStr ''a@b.co'') (PStr []) (PStr []))
     = Inr \<lparr>is_duplicate = True, reason = ''email_already_approved'',
             can_resubmit = False, source = ''cache''\<rparr>
   \<and> snd (check toy_sha log_pending cache_denied ''offline'' (PStr ''a@b.co'') (PStr []) (PStr []))
     = Inr \<lparr>is_duplicate = False, reason = ''email_was_denied_can_resubmit'',
             can_resubmit = True, source = ''cache''\<rparr>
   \<and> snd (check toy_sha log_pending cache_empty ''offline'' (PStr ''a@b.co'') (PStr []) (PStr []))
     = Inr \<lparr>is_duplicate = False, reason = ''new'', can_resubmit = True, source = ''cache''\<rparr>"
proof -
  have h: "email_hash_of toy_sha (PStr ''a@b.co'') = Inr ''sha:a@b.co''"
    by code_simp
  have ne: "''sha:a@b.co'' \<noteq> []"
    by simp
  have a: "email_hashes cache_approved ''sha:a@b.co''
      = Some \<lparr>decision = PStr ''approve'', timestamp = PNone\<rparr>"
    by (simp add: cache_approved_def)
  have d: "email_hashes cache_denied ''sha:a@b.co''
      = Some \<lparr>decision = PStr ''deny'', timestamp = PNone\<rparr>"
    by (simp add: cache_denied_def)
  have m: "email_hashes cache_empty ''sha:a@b.co'' = None"
    "linkedin_hashes cache_empty (compute_linkedin_combo_hash toy_sha (PStr []) (PStr [])) = None"
    by (simp_all add: cache_empty_def)
  have r1: "snd (check toy_sha log_pending cache_approved ''offline'' (PStr ''a@b.co'') (PStr []) (PStr []))
     = Inr \<lparr>is_duplicate = True, reason = ''email_already_approved'',
             can_resubmit = False, source = ''cache''\<rparr>"
    using check_offline_cache [OF h, of cache_approved "\<lparr>decision = PStr ''approve'', timestamp = PNone\<rparr>"]
      ne a by simp
  have r2: "snd (check toy_sha log_pending cache_denied ''offline'' (PStr ''a@b.co'') (PStr []) (PStr []))
     = Inr \<lparr>is_duplicate = False, reason = ''email_was_denied_can_resubmit'',
             can_resubmit = True, source = ''cache''\<rparr>"
    using check_offline_cache [OF h, of cache_denied "\<lparr>decision = PStr ''deny'', timestamp = PNone\<rparr>"]
      ne d by simp
  have r3: "snd (check toy_sha log_pending cache_empty ''offline'' (PStr ''a@b.co'') (PStr []) (PStr []))
     = Inr \<lparr>is_duplicate = False, reason = ''new'', can_resubmit = True, source = ''cache''\<rparr>"
    using check_offline_cache [OF h, of cache_empty] m by simp
  show ?thesis using r1 r2 r3 by simp
qed

lemma online_steps_invariant:
  "email_consensus_step r = Some (Answer st) \<or> linkedin_consensus_step r = Some (Answer st)
     \<or> pending_step p = Some (Answer st) \<Longrightarrow>
   (\<not> can_resubmit st \<longrightarrow>
       reason st \<in> {''email_already_approved'', ''linkedin_combo_already_approved'',
                     ''email_pending_processing''})
   \<and> (reason st \<in> {''new'', ''email_was_denied_can_resubmit''} \<longrightarrow> can_resubmit st)"
  by (auto simp add: email_consensus_step_def linkedin_consensus_step_def pending_step_def
      status_def split: query_result.splits list.splits consensus_row.splits if_splits)

lemma check_online_answer:
  assumes "check_online rm eh lh = (qs, Answer st)"
  shows "(\<exists>r. email_consensus_step r = Some (Answer st))
     \<or> (\<exists>r. linkedin_consensus_step r = Some (Answer st))
     \<or> (\<exists>p. pending_step p = Some (Answer st))"
  using assms
  by (auto simp add: check_online_def Let_def split: if_splits option.splits prod.splits)

lemma check_online_invariant:
  assumes "check_online rm eh lh = (qs, Answer st)"
  shows "(\<not> can_resubmit st \<longrightarrow>
       reason st \<in> {''email_already_approved'', ''linkedin_combo_already_approved'',
                     ''email_pending_processing''})
   \<and> (reason st \<in> {''new'', ''email_was_denied_can_resubmit''} \<longrightarrow> can_resubmit st)"
  using check_online_answer [OF assms] online_steps_invariant [of _ st] by blast

lemma check_offline_invariant:
  "(\<not> can_resubmit (check_offline cache eh lh) \<longrightarrow>
       reason (check_offline cache eh lh)
         \<in> {''email_already_approved'', ''linkedin_combo_already_approved'',
            ''email_pending_processing''})
   \<and> (reason (check_offline cache eh lh) \<in> {''new'', ''email_was_denied_can_resubmit''} \<longrightarrow>
        can_resubmit (check_offline cache eh lh))"
  by (simp add: check_offline_def status_def split: option.split)

lemma check_cases:
  assumes "snd (check sha rm cache mode email linkedin company) = Inr st"
  shows "(\<exists>eh lh qs. check_online rm eh lh = (qs, Answer st))
     \<or> (\<exists>eh lh. st = check_offline cache eh lh)
     \<or> st = status False ''new'' True mode"
proof (cases "email_hash_of sha email")
  case (Inl err)
  then show ?thesis using assms by (simp add: check_def)
next
  case (Inr eh)
  obtain qs out where o: "check_online rm eh (compute_linkedin_combo_hash sha linkedin company)
      = (qs, out)"
    by (cases "check_online rm eh (compute_linkedin_combo_hash sha linkedin company)")
  show ?thesis
  proof (cases out)
    case (Answer st')
    then show ?thesis using assms Inr o
      by (auto simp add: check_def Let_def split: if_splits)
  next
    case Fallback
    then show ?thesis using assms Inr o
      by (auto simp add: check_def Let_def split: if_splits)
  next
    case NoAnswer
    then show ?thesis using assms Inr o
      by (auto simp add: check_def Let_def split: if_splits)
  qed
qed

text \<open>
  C6. For every input, every mode and every state of the cache and of the log, a status
  returned by \<open>check\<close> has \<open>can_resubmit = False\<close> only with one of the reasons
  \<open>email_already_approved\<close>, \<open>linkedin_combo_already_approved\<close>, \<open>email_pending_processing\<close>;
  with the reasons \<open>new\<close> and \<open>email_was_denied_can_resubmit\<close>, \<open>can_resubmit\<close> is true.
\<close>
theorem check_can_resubmit_invariant:
  assumes "snd (check sha rm cache mode email linkedin company) = Inr st"
  shows "(\<not> can_resubmit st \<longrightarrow>
       reason st \<in> {''email_already_approved'', ''linkedin_combo_already_approved'',
                     ''email_pending_processing''})
   \<and> (reason st \<in> {''new'', ''email_was_denied_can_resubmit''} \<longrightarrow> can_resubmit st)"
proof -
  consider (online) eh lh qs where "check_online rm eh lh = (qs, Answer st)"
    | (offline) eh lh where "st = check_offline cache eh lh"
    | (initial) "st = status False ''new'' True mode"
    using check_cases [OF assms] by blast
  then show ?thesis
  proof cases
    case online
    then show ?thesis by (rule check_online_invariant)
  next
    case offline
    then show ?thesis using check_offline_invariant [of cache eh lh] by simp
  next
    case initial
    then show ?thesis by (simp add: status_def)
  qed
qed

theorem check_can_resubmit_invariant_witness:
  "snd (check toy_sha log_pending cache_empty ''online'' (PStr ''a@b.co'')
          (PStr ''linkedin.com/in/bob'') (PStr ''linkedin.com/company/acme''))
     = Inr \<lparr>is_duplicate = True, reason = ''email_pending_processing'',
             can_resubmit = False, source = ''online''\<rparr>
   \<and> ''email_pending_processing''
        \<in> {''email_already_approved'', ''linkedin_combo_already_approved'',
           ''email_pending_processing''}"
proof -
  have r: "snd (check toy_sha log_pending cache_empty ''online'' (PStr ''a@b.co'')
          (PStr ''linkedin.com/in/bob'') (PStr ''linkedin.com/company/acme''))
     = Inr \<lparr>is_duplicate = True, reason = ''email_pending_processing'',
             can_resubmit = False, source = ''online''\<rparr>"
    by code_simp
  from check_can_resubmit_invariant [OF r] show ?thesis
    using r by simp
qed

lemma check_online_mode:
  assumes "email_hash_of sha email = Inr eh"
    and "lh = compute_linkedin_combo_hash sha linkedin company"
  shows "check sha rm cache ''online'' email linkedin company =
     (case check_online rm eh lh of
        (qs, Answer st) \<Rightarrow> (qs, Inr st)
      | (qs, Fallback) \<Rightarrow> (qs, Inr (check_offline cache eh lh))
      | (qs, NoAnswer) \<Rightarrow> (qs, Inr (status False ''new'' True ''online'')))"
  using assms(1) unfolding assms(2) by (simp add: check_def Let_def)

lemma check_online_reachable:
  assumes "supabase_installed rm"
    and "env_or (env_SUPABASE_URL rm) (env_LEADPOET_SUPABASE_URL rm)"
    and "env_or (env_SUPABASE_ANON_KEY rm) (env_LEADPOET_SUPABASE_ANON_KEY rm)"
    and "\<not> create_client_raises rm"
  shows "check_online rm eh lh =
     (let (q1, o1) = (if eh \<noteq> []
            then ([ConsensusByEmail eh], email_consensus_step (consensus_by_email rm eh))
            else ([], None))
      in case o1 of
           Some out \<Rightarrow> (q1, out)
         | None \<Rightarrow>
            (let (q2, o2) = (if lh \<noteq> []
                   then ([ConsensusByLinkedin lh],
                         linkedin_consensus_step (consensus_by_linkedin rm lh))
                   else ([], None))
             in case o2 of
                  Some out \<Rightarrow> (q1 @ q2, out)
                | None \<Rightarrow>
                   (let (q3, o3) = (if eh \<noteq> []
                          then ([SubmissionByEmail eh], pending_step (submission_by_email rm eh))
                          else ([], None))
                    in case o3 of
                         Some out \<Rightarrow> (q1 @ q2 @ q3, out)
                       | None \<Rightarrow> (q1 @ q2 @ q3, NoAnswer))))"
  using assms by (simp add: check_online_def)

lemma email_step_none: "email_consensus_step r = None \<longleftrightarrow> r = QueryData []"
  by (simp add: email_consensus_step_def split: query_result.split list.split consensus_row.split)

text \<open>With the log reachable, no consensus result for the email hash and a submission
  record for it, the outcome of the online block follows the answer for the LinkedIn hash.\<close>
lemma online_pending_cases:
  assumes "supabase_installed rm"
    and "env_or (env_SUPABASE_URL rm) (env_LEADPOET_SUPABASE_URL rm)"
    and "env_or (env_SUPABASE_ANON_KEY rm) (env_LEADPOET_SUPABASE_ANON_KEY rm)"
    and "\<not> create_client_raises rm"
    and "eh \<noteq> []" and "consensus_by_email rm eh = QueryData []"
    and "submission_by_email rm eh = QueryData (row # rows)"
  shows "snd (check_online rm eh lh) =
     (if lh = [] then Answer (status True ''email_pending_processing'' False ''online'')
      else case consensus_by_linkedin rm lh of
          QueryRaises \<Rightarrow> Fallback
        | QueryData [] \<Rightarrow> Answer (status True ''email_pending_processing'' False ''online'')
        | QueryData (RowBad # rs) \<Rightarrow> Fallback
        | QueryData (RowDecision d # rs) \<Rightarrow>
            (if d = PStr ''approve''
             then Answer (status True ''linkedin_combo_already_approved'' False ''online'')
             else Answer (status True ''email_pending_processing'' False ''online'')))"
  using assms(5-7)
  by (simp add: check_online_reachable [OF assms(1-4)] email_consensus_step_def
      linkedin_consensus_step_def pending_step_def
      split: query_result.split list.split consensus_row.split)

lemma online_linkedin_query:
  assumes "supabase_installed rm"
    and "env_or (env_SUPABASE_URL rm) (env_LEADPOET_SUPABASE_URL rm)"
    and "env_or (env_SUPABASE_ANON_KEY rm) (env_LEADPOET_SUPABASE_ANON_KEY rm)"
    and "\<not> create_client_raises rm"
  shows "ConsensusByLinkedin h \<in> set (fst (check_online rm eh lh))
     \<longleftrightarrow> h = lh \<and> lh \<noteq> [] \<and> (eh = [] \<or> consensus_by_email rm eh = QueryData [])"
proof (cases "eh = []")
  case True
  then show ?thesis
    by (auto simp add: check_online_reachable [OF assms] split: option.splits)
next
  case False
  show ?thesis
  proof (cases "email_consensus_step (consensus_by_email rm eh)")
    case None
    then have "consensus_by_email rm eh = QueryData []"
      by (simp add: email_step_none)
    then show ?thesis
      using False None
      by (auto simp add: check_online_reachable [OF assms] split: option.splits)
  next
    case (Some out)
    then have "consensus_by_email rm eh \<noteq> QueryData []"
      using email_step_none [of "consensus_by_email rm eh"] by simp
    then show ?thesis
      using False Some by (simp add: check_online_reachable [OF assms])
  qed
qed

text \<open>
  C5, as the code has it. In online mode with the log reachable (package installed,
  credentials set, client created), let the email hash have no consensus result and a
  submission record. Then the result of \<open>check\<close> follows the LinkedIn hash. When the LinkedIn
  hash is empty, or its query gives no row or a latest decision other than \<open>approve\<close>, the
  result is a duplicate that cannot be resubmitted, with reason \<open>email_pending_processing\<close>.
  When the LinkedIn hash is not empty and its latest consensus result is \<open>approve\<close>, the
  result is a duplicate that cannot be resubmitted, with reason
  \<open>linkedin_combo_already_approved\<close>. When the query for the LinkedIn hash fails (it raises,
  or its row cannot be read), the checker falls back to the local cache and the result is
  that of offline mode. The LinkedIn hash is queried exactly when it is not empty and the
  email hash is empty or has no consensus result.
\<close>
theorem check_online_pending:
  assumes "supabase_installed rm"
    and "env_or (env_SUPABASE_URL rm) (env_LEADPOET_SUPABASE_URL rm)"
    and "env_or (env_SUPABASE_ANON_KEY rm) (env_LEADPOET_SUPABASE_ANON_KEY rm)"
    and "\<not> create_client_raises rm"
    and "email_hash_of sha email = Inr eh"
    and "lh = compute_linkedin_combo_hash sha linkedin company"
  shows "(eh \<noteq> [] \<and> consensus_by_email rm eh = QueryData []
            \<and> submission_by_email rm eh = QueryData (row # rows) \<longrightarrow>
          snd (check sha rm cache ''online'' email linkedin company) =
            Inr (if lh = []
                 then \<lparr>is_duplicate = True, reason = ''email_pending_processing'',
                        can_resubmit = False, source = ''online''\<rparr>
                 else case consensus_by_linkedin rm lh of
                     QueryData [] \<Rightarrow>
                       \<lparr>is_duplicate = True, reason = ''email_pending_processing'',
                         can_resubmit = False, source = ''online''\<rparr>
                   | QueryData (RowDecision d # rs) \<Rightarrow>
                       (if d = PStr ''approve''
                        then \<lparr>is_duplicate = True, reason = ''linkedin_combo_already_approved'',
                               can_resubmit = False, source = ''online''\<rparr>
                        else \<lparr>is_duplicate = True, reason = ''email_pending_processing'',
                               can_resubmit = False, source = ''online''\<rparr>)
                   | QueryData (RowBad # rs) \<Rightarrow> check_offline cache eh lh
                   | QueryRaises \<Rightarrow> check_offline cache eh lh))
       \<and> (ConsensusByLinkedin h \<in> set (fst (check sha rm cache ''online'' email linkedin company))
            \<longleftrightarrow> h = lh \<and> lh \<noteq> [] \<and> (eh = [] \<or> consensus_by_email rm eh = QueryData []))"
proof (intro conjI impI)
  assume a: "eh \<noteq> [] \<and> consensus_by_email rm eh = QueryData []
      \<and> submission_by_email rm eh = QueryData (row # rows)"
  obtain qs out where c: "check_online rm eh lh = (qs, out)"
    by (cases "check_online rm eh lh")
  have o: "out =
     (if lh = [] then Answer (status True ''email_pending_processing'' False ''online'')
      else case consensus_by_linkedin rm lh of
          QueryRaises \<Rightarrow> Fallback
        | QueryData [] \<Rightarrow> Answer (status True ''email_pending_processing'' False ''online'')
        | QueryData (RowBad # rs) \<Rightarrow> Fallback
        | QueryData (RowDecision d # rs) \<Rightarrow>
            (if d = PStr ''approve''
             then Answer (status True ''linkedin_combo_already_approved'' False ''online'')
             else Answer (status True ''email_pending_processing'' False ''online'')))"
    using online_pending_cases [OF assms(1-4), of eh row rows lh] a c by simp
  show "snd (check sha rm cache ''online'' email linkedin company) =
            Inr (if lh = []
                 then \<lparr>is_duplicate = True, reason = ''email_pending_processing'',
                        can_resubmit = False, source = ''online''\<rparr>
                 else case consensus_by_linkedin rm lh of
                     QueryData [] \<Rightarrow>
                       \<lparr>is_duplicate = True, reason = ''email_pending_processing'',
                         can_resubmit = False, source = ''online''\<rparr>
                   | QueryData (RowDecision d # rs) \<Rightarrow>
                       (if d = PStr ''approve''
                        then \<lparr>is_duplicate = True, reason = ''linkedin_combo_already_approved'',
                               can_resubmit = False, source = ''online''\<rparr>
                        else \<lparr>is_duplicate = True, reason = ''email_pending_processing'',
                               can_resubmit = False, source = ''online''\<rparr>)
                   | QueryData (RowBad # rs) \<Rightarrow> check_offline cache eh lh
                   | QueryRaises \<Rightarrow> check_offline cache eh lh)"
    unfolding check_online_mode [OF assms(5,6)] c o
    by (simp add: status_def split: query_result.split list.split consensus_row.split)
next
  have "fst (check sha rm cache ''online'' email linkedin company) = fst (check_online rm eh lh)"
    by (cases "check_online rm eh lh")
      (simp add: check_online_mode [OF assms(5,6)] split: online_outcome.split)
  then show "ConsensusByLinkedin h \<in> set (fst (check sha rm cache ''online'' email linkedin company))
      \<longleftrightarrow> h = lh \<and> lh \<noteq> [] \<and> (eh = [] \<or> consensus_by_email rm eh = QueryData [])"
    using online_linkedin_query [OF assms(1-4)] by simp
qed

text \<open>The theorem at three logs: the LinkedIn pair unknown, approved, and its query failing
  (the cache is empty, so that the fallback answers \<open>new\<close>).\<close>
theorem check_online_pending_witness:
  "snd (check toy_sha log_pending cache_empty ''online'' (PStr ''a@b.co'')
          (PStr ''linkedin.com/in/bob'') (PStr ''linkedin.com/company/acme''))
     = Inr \<lparr>is_duplicate = True, reason = ''email_pending_processing'',
             can_resubmit = False, source = ''online''\<rparr>
   \<and> snd (check toy_sha log_pending_li_approved cache_empty ''online'' (PStr ''a@b.co'')
          (PStr ''linkedin.com/in/bob'') (PStr ''linkedin.com/company/acme''))
     = Inr \<lparr>is_duplicate = True, reason = ''linkedin_combo_already_approved'',
             can_resubmit = False, source = ''online''\<rparr>
   \<and> snd (check toy_sha log_pending_li_fails cache_empty ''online'' (PStr ''a@b.co'')
          (PStr ''linkedin.com/in/bob'') (PStr ''linkedin.com/company/acme''))
     = Inr \<lparr>is_duplicate = False, reason = ''new'', can_resubmit = True, source = ''cache''\<rparr>
   \<and> ConsensusByLinkedin ''sha:linkedin.com/in/bob||linkedin.com/company/acme''
       \<in> set (fst (check toy_sha log_pending cache_empty ''online'' (PStr ''a@b.co'')
          (PStr ''linkedin.com/in/bob'') (PStr ''linkedin.com/company/acme'')))"
proof -
  let ?lh = "''sha:linkedin.com/in/bob||linkedin.com/company/acme''"
  have a: "supabase_installed log_pending"
    "env_or (env_SUPABASE_URL log_pending) (env_LEADPOET_SUPABASE_URL log_pending)"
    "env_or (env_SUPABASE_ANON_KEY log_pending) (env_LEADPOET_SUPABASE_ANON_KEY log_pending)"
    "\<not> create_client_raises log_pending"
    by (simp_all add: log_pending_def env_or_def)
  have a2: "supabase_installed log_pending_li_approved"
    "env_or (env_SUPABASE_URL log_pending_li_approved)
       (env_LEADPOET_SUPABASE_URL log_pending_li_approved)"
    "env_or (env_SUPABASE_ANON_KEY log_pending_li_approved)
       (env_LEADPOET_SUPABASE_ANON_KEY log_pending_li_approved)"
    "\<not> create_client_raises log_pending_li_approved"
    by (simp_all add: log_pending_li_approved_def log_pending_def env_or_def)
  have a3: "supabase_installed log_pending_li_fails"
    "env_or (env_SUPABASE_URL log_pending_li_fails)
       (env_LEADPOET_SUPABASE_URL log_pending_li_fails)"
    "env_or (env_SUPABASE_ANON_KEY log_pending_li_fails)
       (env_LEADPOET_SUPABASE_ANON_KEY log_pending_li_fails)"
    "\<not> create_client_raises log_pending_li_fails"
    by (simp_all add: log_pending_li_fails_def log_pending_def env_or_def)
  have h: "email_hash_of toy_sha (PStr ''a@b.co'') = Inr ''sha:a@b.co''"
    by code_simp
  have l: "?lh = compute_linkedin_combo_hash toy_sha (PStr ''linkedin.com/in/bob'')
          (PStr ''linkedin.com/company/acme'')"
    by code_simp
  have q: "consensus_by_email log_pending ''sha:a@b.co'' = QueryData []"
    "submission_by_email log_pending ''sha:a@b.co'' = QueryData [()]"
    "consensus_by_linkedin log_pending ?lh = QueryData []"
    by (simp_all add: log_pending_def)
  have q2: "consensus_by_email log_pending_li_approved ''sha:a@b.co'' = QueryData []"
    "submission_by_email log_pending_li_approved ''sha:a@b.co'' = QueryData [()]"
    "consensus_by_linkedin log_pending_li_approved ?lh
       = QueryData [RowDecision (PStr ''approve'')]"
    by (simp_all add: log_pending_li_approved_def log_pending_def)
  have q3: "consensus_by_email log_pending_li_fails ''sha:a@b.co'' = QueryData []"
    "submission_by_email log_pending_li_fails ''sha:a@b.co'' = QueryData [()]"
    "consensus_by_linkedin log_pending_li_fails ?lh = QueryRaises"
    by (simp_all add: log_pending_li_fails_def log_pending_def)
  have off: "check_offline cache_empty ''sha:a@b.co'' ?lh
      = \<lparr>is_duplicate = False, reason = ''new'', can_resubmit = True, source = ''cache''\<rparr>"
    by (simp add: check_offline_def cache_empty_def status_def)
  from check_online_pending [OF a h l, where row = "()" and rows = "[]"
      and h = ?lh and cache = cache_empty] q
  have r1: "snd (check toy_sha log_pending cache_empty ''online'' (PStr ''a@b.co'')
          (PStr ''linkedin.com/in/bob'') (PStr ''linkedin.com/company/acme''))
     = Inr \<lparr>is_duplicate = True, reason = ''email_pending_processing'',
             can_resubmit = False, source = ''online''\<rparr>"
    and r4: "ConsensusByLinkedin ?lh
       \<in> set (fst (check toy_sha log_pending cache_empty ''online'' (PStr ''a@b.co'')
          (PStr ''linkedin.com/in/bob'') (PStr ''linkedin.com/company/acme'')))"
    by simp_all
  from check_online_pending [OF a2 h l, where row = "()" and rows = "[]"
      and h = ?lh and cache = cache_empty] q2
  have r2: "snd (check toy_sha log_pending_li_approved cache_empty ''online'' (PStr ''a@b.co'')
          (PStr ''linkedin.com/in/bob'') (PStr ''linkedin.com/company/acme''))
     = Inr \<lparr>is_duplicate = True, reason = ''linkedin_combo_already_approved'',
             can_resubmit = False, source = ''online''\<rparr>"
    by simp
  from check_online_pending [OF a3 h l, where row = "()" and rows = "[]"
      and h = ?lh and cache = cache_empty] q3 off
  have r3: "snd (check toy_sha log_pending_li_fails cache_empty ''online'' (PStr ''a@b.co'')
          (PStr ''linkedin.com/in/bob'') (PStr ''linkedin.com/company/acme''))
     = Inr \<lparr>is_duplicate = False, reason = ''new'', can_resubmit = True, source = ''cache''\<rparr>"
    by simp
  from r1 r2 r3 r4 show ?thesis by blast
qed

text \<open>
  C5 as stated fails where the LinkedIn pair is already approved: the email hash has no
  consensus result and a pending submission, and the reason returned is not
  \<open>email_pending_processing\<close>. It also fails where the query for the LinkedIn pair raises:
  the checker falls back to the cache, which is empty here, and the lead is reported as new.
\<close>
theorem check_online_pending_counterexample:
  "consensus_by_email log_pending_li_approved ''sha:a@b.co'' = QueryData []
   \<and> submission_by_email log_pending_li_approved ''sha:a@b.co'' = QueryData [()]
   \<and> email_hash_of toy_sha (PStr ''a@b.co'') = Inr ''sha:a@b.co''
   \<and> snd (check toy_sha log_pending_li_approved cache_empty ''online'' (PStr ''a@b.co'')
          (PStr ''linkedin.com/in/bob'') (PStr ''linkedin.com/company/acme''))
     = Inr \<lparr>is_duplicate = True, reason = ''linkedin_combo_already_approved'',
             can_resubmit = False, source = ''online''\<rparr>
   \<and> ''linkedin_combo_already_approved'' \<noteq> ''email_pending_processing''
   \<and> consensus_by_email log_pending_li_fails ''sha:a@b.co'' = QueryData []
   \<and> submission_by_email log_pending_li_fails ''sha:a@b.co'' = QueryData [()]
   \<and> snd (check toy_sha log_pending_li_fails cache_empty ''online'' (PStr ''a@b.co'')
          (PStr ''linkedin.com/in/bob'') (PStr ''linkedin.com/company/acme''))
     = Inr \<lparr>is_duplicate = False, reason = ''new'', can_resubmit = True, source = ''cache''\<rparr>"
proof -
  have "consensus_by_email log_pending_li_approved ''sha:a@b.co'' = QueryData []"
    "submission_by_email log_pending_li_approved ''sha:a@b.co'' = QueryData [()]"
    by (simp_all add: log_pending_li_approved_def log_pending_def)
  moreover have "email_hash_of toy_sha (PStr ''a@b.co'') = Inr ''sha:a@b.co''"
    by code_simp
  moreover have "snd (check toy_sha log_pending_li_approved cache_empty ''online'' (PStr ''a@b.co'')
          (PStr ''linkedin.com/in/bob'') (PStr ''linkedin.com/company/acme''))
     = Inr \<lparr>is_duplicate = True, reason = ''linkedin_combo_already_approved'',
             can_resubmit = False, source = ''online''\<rparr>"
    by code_simp
  moreover have "consensus_by_email log_pending_li_fails ''sha:a@b.co'' = QueryData []"
    "submission_by_email log_pending_li_fails ''sha:a@b.co'' = QueryData [()]"
    by (simp_all add: log_pending_li_fails_def log_pending_def)
  moreover have "snd (check toy_sha log_pending_li_fails cache_empty ''online'' (PStr ''a@b.co'')
          (PStr ''linkedin.com/in/bob'') (PStr ''linkedin.com/company/acme''))
     = Inr \<lparr>is_duplicate = False, reason = ''new'', can_resubmit = True, source = ''cache''\<rparr>"
    by code_simp
  ultimately show ?thesis by simp
qed

section \<open>Role: the empty role and the C-suite check\<close>

text \<open>
  C9. For an empty or missing role (the orchestrator passes the empty string for a missing
  field; any value that Python counts as false behaves the same), \<open>validate_role\<close> returns
  exactly \<open>role_empty\<close>, hence none of the codes of the other checks.
\<close>
theorem validate_role_empty:
  "validate_role (PStr []) = [''role_empty'']
   \<and> (ld ''role'' = None \<longrightarrow> validate_role (get_or ld ''role'' (PStr [])) = [''role_empty''])
   \<and> (\<not> truthy role \<longrightarrow>
        validate_role role = [''role_empty'']
        \<and> ''role_too_short'' \<notin> set (validate_role role)
        \<and> ''role_no_letters'' \<notin> set (validate_role role)
        \<and> ''role_too_few_letters'' \<notin> set (validate_role role))"
  by (simp add: validate_role_def get_or_def)

theorem validate_role_empty_witness:
  "validate_role (get_or Map.empty ''role'' (PStr [])) = [''role_empty'']
   \<and> validate_role PNone = [''role_empty'']"
  using validate_role_empty [of Map.empty PNone] by simp

lemma csuite_codes_in_validate_role:
  "truthy role \<Longrightarrow>
   set (role_check_csuite (lower (strip (py_str role)))) \<subseteq> set (validate_role role)"
  by (auto simp add: validate_role_def Let_def)

text \<open>
  C10. The check for several C-suite titles tests substrings, not words: the role
  \<open>CEO and Director\<close> has one C-suite title among its words, \<open>ceo\<close>, and \<open>validate_role\<close>
  still reports \<open>role_multiple_csuite:ceo,cto\<close>, because \<open>cto\<close> occurs inside \<open>director\<close>.
\<close>
theorem validate_role_csuite_substring:
  "''role_multiple_csuite:ceo,cto'' \<in> set (validate_role (PStr ''CEO and Director''))
   \<and> filter (\<lambda>title. title \<in> set (findall_words (lower ''CEO and Director'')))
        ROLE_CSUITE_TITLES = [''ceo'']
   \<and> contains ''cto'' ''director''"
proof -
  have "role_check_csuite (lower (strip (py_str (PStr ''CEO and Director''))))
      = [''role_multiple_csuite:ceo,cto'']"
    by code_simp
  then have "''role_multiple_csuite:ceo,cto'' \<in> set (validate_role (PStr ''CEO and Director''))"
    using csuite_codes_in_validate_role [of "PStr ''CEO and Director''"] by simp
  moreover have "filter (\<lambda>title. title \<in> set (findall_words (lower ''CEO and Director'')))
        ROLE_CSUITE_TITLES = [''ceo'']"
    by code_simp
  moreover have "contains ''cto'' ''director''"
    by code_simp
  ultimately show ?thesis by simp
qed

section \<open>Attestation\<close>

lemma attestation_wallet:
  "(''missing_field:wallet_ss58'' \<in> set (validate_attestation ld))
     = (strip (py_str (get_or ld ''wallet_ss58'' (PStr []))) = [])"
  unfolding validate_attestation_def by auto

lemma attestation_terms:
  "(''missing_field:terms_version_hash'' \<in> set (validate_attestation ld))
     = (strip (py_str (get_or ld ''terms_version_hash'' (PStr []))) = [])"
  unfolding validate_attestation_def by auto

lemma attestation_presence_fields:
  "''missing_field:'' @ f \<in> set (validate_attestation ld) \<Longrightarrow>
   f = ''wallet_ss58'' \<or> f = ''terms_version_hash''"
  unfolding validate_attestation_def by (auto split: if_splits)

lemma attestation_bool_code:
  "f \<in> {''lawful_collection'', ''no_restricted_sources'', ''license_granted''} \<Longrightarrow>
   (''attestation_false_or_missing:'' @ f \<in> set (validate_attestation ld))
     = (ld f \<noteq> Some (PBool True))"
  unfolding validate_attestation_def get_none_def get_or_def
  by (auto split: option.splits)

lemma audit_blocking_prefix:
  assumes "fst (audit_lead ev tc ld mode net_checks) = Inr res"
  shows "\<exists>rest. blocking_errors res = validate_attestation ld @ rest"
proof -
  obtain de dw where d: "validate_description (get_or ld ''description'' (PStr [])) = (de, dw)"
    by (cases "validate_description (get_or ld ''description'' (PStr []))")
  obtain ie tc' where i: "validate_industry_pair (tax_file ev) tc (get_or ld ''industry'' (PStr []))
     (get_or ld ''sub_industry'' (PStr [])) = (ie, tc')"
    by (cases "validate_industry_pair (tax_file ev) tc (get_or ld ''industry'' (PStr []))
     (get_or ld ''sub_industry'' (PStr []))")
  from assms show ?thesis
    unfolding audit_lead_def Let_def d i
    by (clarsimp split: sum.splits if_splits)
qed

lemma check_returns:
  "email_hash_of sha email = Inr eh \<Longrightarrow>
   \<exists>st. snd (check sha rm cache mode email linkedin company) = Inr st"
  by (cases "check_online rm eh (compute_linkedin_combo_hash sha linkedin company)")
    (simp add: check_def Let_def split: online_outcome.split)

lemma email_hash_of_string: "\<exists>eh. email_hash_of sha (PStr e) = Inr eh"
  by (simp add: email_hash_of_def compute_email_hash_def)

text \<open>An audit without network checks of a lead whose email is a string or absent returns
  a result.\<close>
lemma audit_returns:
  assumes "ld ''email'' = None \<or> (\<exists>e. ld ''email'' = Some (PStr e))"
  shows "\<exists>res. fst (audit_lead ev tc ld mode False) = Inr res"
proof -
  have "\<exists>e. get_or ld ''email'' (PStr []) = PStr e"
    using assms by (auto simp add: get_or_def)
  then obtain eh where "email_hash_of (sha256_hex ev) (get_or ld ''email'' (PStr [])) = Inr eh"
    using email_hash_of_string by metis
  then obtain st where st: "snd (check (sha256_hex ev) (remote_log ev) (load_cache (cache_file ev))
      mode (get_or ld ''email'' (PStr [])) (get_or ld ''linkedin'' (PStr []))
      (get_or ld ''company_linkedin'' (PStr []))) = Inr st"
    using check_returns by blast
  obtain de dw where d: "validate_description (get_or ld ''description'' (PStr [])) = (de, dw)"
    by (cases "validate_description (get_or ld ''description'' (PStr []))")
  obtain ie tc' where i: "validate_industry_pair (tax_file ev) tc (get_or ld ''industry'' (PStr []))
     (get_or ld ''sub_industry'' (PStr [])) = (ie, tc')"
    by (cases "validate_industry_pair (tax_file ev) tc (get_or ld ''industry'' (PStr []))
     (get_or ld ''sub_industry'' (PStr []))")
  show ?thesis
    unfolding audit_lead_def Let_def d i by (simp add: st)
qed

text \<open>
  C7, as the code has it. \<open>validate_attestation\<close> makes two string-presence checks
  (\<open>wallet_ss58\<close> and \<open>terms_version_hash\<close>, no other field is reported as missing) and three
  boolean checks: for each of \<open>lawful_collection\<close>, \<open>no_restricted_sources\<close> and
  \<open>license_granted\<close> the code \<open>attestation_false_or_missing:<field>\<close> is reported exactly when
  the field is not the boolean \<open>True\<close> (false, absent, or any other value). When the audit of
  a lead without \<open>wallet_ss58\<close> and with \<open>license_granted = False\<close> returns, its blocking errors
  contain \<open>missing_field:wallet_ss58\<close> and \<open>attestation_false_or_missing:license_granted\<close>.
\<close>
theorem validate_attestation_checks:
  "((''missing_field:wallet_ss58'' \<in> set (validate_attestation ld))
      = (strip (py_str (get_or ld ''wallet_ss58'' (PStr []))) = []))
   \<and> ((''missing_field:terms_version_hash'' \<in> set (validate_attestation ld))
      = (strip (py_str (get_or ld ''terms_version_hash'' (PStr []))) = []))
   \<and> (''missing_field:'' @ g \<in> set (validate_attestation ld) \<longrightarrow>
        g = ''wallet_ss58'' \<or> g = ''terms_version_hash'')
   \<and> (f \<in> {''lawful_collection'', ''no_restricted_sources'', ''license_granted''} \<longrightarrow>
        (''attestation_false_or_missing:'' @ f \<in> set (validate_attestation ld))
          = (ld f \<noteq> Some (PBool True)))
   \<and> (ld ''wallet_ss58'' = None \<and> ld ''license_granted'' = Some (PBool False)
        \<and> fst (audit_lead ev tc ld mode net_checks) = Inr res \<longrightarrow>
        ''missing_field:wallet_ss58'' \<in> set (blocking_errors res)
        \<and> ''attestation_false_or_missing:license_granted'' \<in> set (blocking_errors res))"
proof (intro conjI impI)
  show "(''missing_field:wallet_ss58'' \<in> set (validate_attestation ld))
      = (strip (py_str (get_or ld ''wallet_ss58'' (PStr []))) = [])"
    by (rule attestation_wallet)
  show "(''missing_field:terms_version_hash'' \<in> set (validate_attestation ld))
      = (strip (py_str (get_or ld ''terms_version_hash'' (PStr []))) = [])"
    by (rule attestation_terms)
next
  assume "''missing_field:'' @ g \<in> set (validate_attestation ld)"
  then show "g = ''wallet_ss58'' \<or> g = ''terms_version_hash''"
    by (rule attestation_presence_fields)
next
  assume "f \<in> {''lawful_collection'', ''no_restricted_sources'', ''license_granted''}"
  then show "(''attestation_false_or_missing:'' @ f \<in> set (validate_attestation ld))
      = (ld f \<noteq> Some (PBool True))"
    by (rule attestation_bool_code)
next
  assume h: "ld ''wallet_ss58'' = None \<and> ld ''license_granted'' = Some (PBool False)
      \<and> fst (audit_lead ev tc ld mode net_checks) = Inr res"
  then obtain rest where r: "blocking_errors res = validate_attestation ld @ rest"
    using audit_blocking_prefix by blast
  from h have w: "''missing_field:wallet_ss58'' \<in> set (validate_attestation ld)"
    by (simp add: attestation_wallet get_or_def strip_def rstrip_def lstrip_def)
  from h have l: "''attestation_false_or_missing:license_granted''
      \<in> set (validate_attestation ld)"
    using attestation_bool_code [of "''license_granted''" ld] by simp
  show "''missing_field:wallet_ss58'' \<in> set (blocking_errors res)"
    using w r by simp
  show "''attestation_false_or_missing:license_granted'' \<in> set (blocking_errors res)"
    using l r by simp
qed

theorem validate_attestation_checks_witness:
  "\<exists>res. fst (audit_lead env_offline None lead_unattested ''offline'' False) = Inr res
     \<and> ''missing_field:wallet_ss58'' \<in> set (blocking_errors res)
     \<and> ''attestation_false_or_missing:license_granted'' \<in> set (blocking_errors res)"
proof -
  have "lead_unattested ''email'' = None \<or> (\<exists>e. lead_unattested ''email'' = Some (PStr e))"
    by (simp add: lead_unattested_def)
  then obtain res where r: "fst (audit_lead env_offline None lead_unattested ''offline'' False) = Inr res"
    using audit_returns by blast
  have a: "lead_unattested ''wallet_ss58'' = None"
    "lead_unattested ''license_granted'' = Some (PBool False)"
    by (simp_all add: lead_unattested_def)
  from validate_attestation_checks [of lead_unattested _ _ env_offline None "''offline''" False res] a r
  show ?thesis by blast
qed

text \<open>
  C7 as stated says four string-presence checks. On the lead with no field at all every
  presence check reports its field, and two fields are reported.
\<close>
theorem validate_attestation_checks_counterexample:
  "validate_attestation Map.empty =
     [''missing_field:wallet_ss58'', ''missing_field:terms_version_hash'',
      ''attestation_false_or_missing:lawful_collection'',
      ''attestation_false_or_missing:no_restricted_sources'',
      ''attestation_false_or_missing:license_granted'']
   \<and> length (filter (prefix ''missing_field:'') (validate_attestation Map.empty)) \<noteq> 4"
proof -
  have "validate_attestation Map.empty =
     [''missing_field:wallet_ss58'', ''missing_field:terms_version_hash'',
      ''attestation_false_or_missing:lawful_collection'',
      ''attestation_false_or_missing:no_restricted_sources'',
      ''attestation_false_or_missing:license_granted'']"
    by code_simp
  then show ?thesis by simp
qed

section \<open>The audit and the iteration order of sets\<close>

lemma load_industry_taxonomy_again:
  "load_industry_taxonomy src (snd (load_industry_taxonomy src cache))
     = load_industry_taxonomy src cache"
  by (simp add: load_industry_taxonomy_def Let_def split: option.split tax_source.split)

lemma validate_industry_pair_again:
  "validate_industry_pair src (snd (validate_industry_pair src cache industry sub_industry))
       industry sub_industry
     = validate_industry_pair src cache industry sub_industry"
proof -
  obtain t c' where l: "load_industry_taxonomy src cache = (t, c')"
    by (cases "load_industry_taxonomy src cache")
  then have "load_industry_taxonomy src c' = (t, c')"
    using load_industry_taxonomy_again [of src cache] by simp
  then show ?thesis
    using l by (simp add: validate_industry_pair_def)
qed

text \<open>The taxonomy cache that an audit leaves behind: unchanged when the network checks
  raise, and the cache after the taxonomy lookup otherwise.\<close>
lemma audit_lead_cache:
  "snd (audit_lead ev tc ld mode net_checks) =
     (case (if net_checks
            then validate_network_checks (net ev) (get_or ld ''website'' (PStr []))
                   (get_or ld ''email'' (PStr []))
            else Inr []) of
        Inl err \<Rightarrow> tc
      | Inr ws \<Rightarrow> snd (validate_industry_pair (tax_file ev) tc (get_or ld ''industry'' (PStr []))
                       (get_or ld ''sub_industry'' (PStr []))))"
proof -
  obtain de dw where d: "validate_description (get_or ld ''description'' (PStr [])) = (de, dw)"
    by (cases "validate_description (get_or ld ''description'' (PStr []))")
  obtain ie tc' where i: "validate_industry_pair (tax_file ev) tc (get_or ld ''industry'' (PStr []))
     (get_or ld ''sub_industry'' (PStr [])) = (ie, tc')"
    by (cases "validate_industry_pair (tax_file ev) tc (get_or ld ''industry'' (PStr []))
     (get_or ld ''sub_industry'' (PStr []))")
  show ?thesis
    unfolding audit_lead_def Let_def d i by (simp split: sum.split)
qed

text \<open>An audit reads the taxonomy cache only through the taxonomy lookup.\<close>
lemma audit_lead_same_lookup:
  assumes "validate_industry_pair (tax_file ev) tc2 (get_or ld ''industry'' (PStr []))
       (get_or ld ''sub_industry'' (PStr []))
     = validate_industry_pair (tax_file ev) tc1 (get_or ld ''industry'' (PStr []))
       (get_or ld ''sub_industry'' (PStr []))"
    and "(if net_checks
          then validate_network_checks (net ev) (get_or ld ''website'' (PStr []))
                 (get_or ld ''email'' (PStr []))
          else Inr []) = Inr ws"
  shows "audit_lead ev tc2 ld mode net_checks = audit_lead ev tc1 ld mode net_checks"
  unfolding audit_lead_def assms by simp

lemma audit_lead_again:
  "audit_lead ev (snd (audit_lead ev tc ld mode net_checks)) ld mode net_checks
     = audit_lead ev tc ld mode net_checks"
proof (cases "if net_checks
          then validate_network_checks (net ev) (get_or ld ''website'' (PStr []))
                 (get_or ld ''email'' (PStr []))
          else Inr []")
  case (Inl err)
  then have "snd (audit_lead ev tc ld mode net_checks) = tc"
    by (simp add: audit_lead_cache)
  then show ?thesis by simp
next
  case (Inr ws)
  then have c: "snd (audit_lead ev tc ld mode net_checks)
      = snd (validate_industry_pair (tax_file ev) tc (get_or ld ''industry'' (PStr []))
               (get_or ld ''sub_industry'' (PStr [])))"
    by (simp add: audit_lead_cache)
  show ?thesis
    unfolding c
    by (rule audit_lead_same_lookup [OF validate_industry_pair_again Inr])
qed

text \<open>
  With the iteration order of string sets held fixed, a second run on the same lead, with
  the same mode and the same environment, starting from the taxonomy cache that the first
  run left, gives the same outcome: the same exception, or the same result.
\<close>
lemma audit_lead_rerun:
  "fst (audit_lead ev (snd (audit_lead ev tc ld mode net_checks)) ld mode net_checks)
     = fst (audit_lead ev tc ld mode net_checks)"
  by (simp add: audit_lead_again)

text \<open>Both iteration orders of the examples enumerate the set of the words.\<close>
lemma set_iter_orders:
  "set (remdups ws) = set ws \<and> distinct (remdups ws)
   \<and> set ((rev \<circ> remdups) ws) = set ws \<and> distinct ((rev \<circ> remdups) ws)"
  by simp

text \<open>The duplicate-word code of a location names the first qualifying word that the
  iteration over \<open>set(words)\<close> meets, so it follows the iteration order.\<close>
lemma validate_location_set_order:
  "validate_location remdups (PStr ''abcd abcd efgh efgh'') (PStr []) (PStr [])
     = [''city_duplicate_word:abcd'']
   \<and> validate_location (rev \<circ> remdups) (PStr ''abcd abcd efgh efgh'') (PStr []) (PStr [])
     = [''city_duplicate_word:efgh'']"
  by code_simp

text \<open>
  C8: two runs of \<open>audit_lead\<close> on the same lead, with the same mode, the same cache state and
  the same behaviour of every external dependency, should give the same \<open>blocking_errors\<close>.
  The code does not: for a lead whose city is \<open>abcd abcd efgh efgh\<close>, audited offline, the
  last blocking error is \<open>city_duplicate_word:abcd\<close> when the interpreter iterates the set of
  the city's words in one order and \<open>city_duplicate_word:efgh\<close> when it iterates it in the
  other; the two environments differ in nothing else.
\<close>
theorem audit_lead_set_order:
  "map_sum id blocking_errors (fst (audit_lead env_offline None lead_twice ''offline'' False))
     = Inr ([''missing_field:wallet_ss58'', ''missing_field:terms_version_hash'',
         ''attestation_false_or_missing:lawful_collection'',
         ''attestation_false_or_missing:no_restricted_sources'',
         ''attestation_false_or_missing:license_granted'',
         ''missing_field:business'', ''missing_field:full_name'',
         ''missing_field:first'', ''missing_field:last'',
         ''missing_field:email'', ''missing_field:role'',
         ''missing_field:website'', ''missing_field:industry'',
         ''missing_field:sub_industry'', ''missing_field:country'',
         ''missing_field:linkedin'', ''missing_field:company_linkedin'',
         ''missing_field:source_url'', ''missing_field:description'',
         ''missing_field:employee_count'', ''missing_field:source_url'',
         ''missing_field:source_type'', ''role_empty'', ''description_empty'',
         ''email_empty'', ''employee_count_empty'', ''taxonomy_not_loaded'',
         ''linkedin_invalid_format:'', ''company_linkedin_invalid_format:'',
         ''city_duplicate_word:abcd''])
   \<and> map_sum id blocking_errors
        (fst (audit_lead env_offline_rev None lead_twice ''offline'' False))
     = Inr ([''missing_field:wallet_ss58'', ''missing_field:terms_version_hash'',
         ''attestation_false_or_missing:lawful_collection'',
         ''attestation_false_or_missing:no_restricted_sources'',
         ''attestation_false_or_missing:license_granted'',
         ''missing_field:business'', ''missing_field:full_name'',
         ''missing_field:first'', ''missing_field:last'',
         ''missing_field:email'', ''missing_field:role'',
         ''missing_field:website'', ''missing_field:industry'',
         ''missing_field:sub_industry'', ''missing_field:country'',
         ''missing_field:linkedin'', ''missing_field:company_linkedin'',
         ''missing_field:source_url'', ''missing_field:description'',
         ''missing_field:employee_count'', ''missing_field:source_url'',
         ''missing_field:source_type'', ''role_empty'', ''description_empty'',
         ''email_empty'', ''employee_count_empty'', ''taxonomy_not_loaded'',
         ''linkedin_invalid_format:'', ''company_linkedin_invalid_format:'',
         ''city_duplicate_word:efgh''])
   \<and> env_offline_rev = env_offline\<lparr>set_iter := rev \<circ> remdups\<rparr>
   \<and> set_iter env_offline = remdups"
proof -
  have "map_sum id blocking_errors
      (fst (audit_lead env_offline None lead_twice ''offline'' False))
     = Inr ([''missing_field:wallet_ss58'', ''missing_field:terms_version_hash'',
         ''attestation_false_or_missing:lawful_collection'',
         ''attestation_false_or_missing:no_restricted_sources'',
         ''attestation_false_or_missing:license_granted'',
         ''missing_field:business'', ''missing_field:full_name'',
         ''missing_field:first'', ''missing_field:last'',
         ''missing_field:email'', ''missing_field:role'',
         ''missing_field:website'', ''missing_field:industry'',
         ''missing_field:sub_industry'', ''missing_field:country'',
         ''missing_field:linkedin'', ''missing_field:company_linkedin'',
         ''missing_field:source_url'', ''missing_field:description'',
         ''missing_field:employee_count'', ''missing_field:source_url'',
         ''missing_field:source_type'', ''role_empty'', ''description_empty'',
         ''email_empty'', ''employee_count_empty'', ''taxonomy_not_loaded'',
         ''linkedin_invalid_format:'', ''company_linkedin_invalid_format:'',
         ''city_duplicate_word:abcd''])"
    by code_simp
  moreover have "map_sum id blocking_errors
      (fst (audit_lead env_offline_rev None lead_twice ''offline'' False))
     = Inr ([''missing_field:wallet_ss58'', ''missing_field:terms_version_hash'',
         ''attestation_false_or_missing:lawful_collection'',
         ''attestation_false_or_missing:no_restricted_sources'',
         ''attestation_false_or_missing:license_granted'',
         ''missing_field:business'', ''missing_field:full_name'',
         ''missing_field:first'', ''missing_field:last'',
         ''missing_field:email'', ''missing_field:role'',
         ''missing_field:website'', ''missing_field:industry'',
         ''missing_field:sub_industry'', ''missing_field:country'',
         ''missing_field:linkedin'', ''missing_field:company_linkedin'',
         ''missing_field:source_url'', ''missing_field:description'',
         ''missing_field:employee_count'', ''missing_field:source_url'',
         ''missing_field:source_type'', ''role_empty'', ''description_empty'',
         ''email_empty'', ''employee_count_empty'', ''taxonomy_not_loaded'',
         ''linkedin_invalid_format:'', ''company_linkedin_invalid_format:'',
         ''city_duplicate_word:efgh''])"
    by code_simp
  ultimately show ?thesis
    by (simp add: env_offline_rev_def env_offline_def)
qed

section \<open>Role: misspelled job titles\<close>

lemma maximal_run_all:
  assumes "\<forall>c \<in> set a. P c"
  shows "maximal_run P w a \<longleftrightarrow> a \<noteq> [] \<and> w = a"
proof
  assume "maximal_run P w a"
  then obtain pre post where w: "w \<noteq> []" and d: "a = pre @ w @ post"
    and b: "pre = [] \<or> \<not> P (last pre)" "post = [] \<or> \<not> P (hd post)"
    by (auto simp add: maximal_run_def)
  have "pre = []"
  proof (rule ccontr)
    assume "pre \<noteq> []"
    then have "last pre \<in> set a" using d by simp
    then show False using assms b(1) \<open>pre \<noteq> []\<close> by blast
  qed
  moreover have "post = []"
  proof (rule ccontr)
    assume "post \<noteq> []"
    then have "hd post \<in> set a" using d by simp
    then show False using assms b(2) \<open>post \<noteq> []\<close> by blast
  qed
  ultimately show "a \<noteq> [] \<and> w = a" using d w by simp
next
  assume "a \<noteq> [] \<and> w = a"
  then have "w \<noteq> []" "\<forall>c \<in> set w. P c" "a = [] @ w @ []"
    using assms by simp_all
  then show "maximal_run P w a"
    unfolding maximal_run_def by blast
qed

lemma maximal_run_break:
  assumes "\<forall>x \<in> set a. P x" and "\<not> P c"
  shows "maximal_run P w (a @ c # cs) \<longleftrightarrow> (a \<noteq> [] \<and> w = a) \<or> maximal_run P w cs"
proof
  assume "maximal_run P w (a @ c # cs)"
  then obtain pre post where w: "w \<noteq> []" "\<forall>x \<in> set w. P x" and d: "a @ c # cs = pre @ w @ post"
    and b: "pre = [] \<or> \<not> P (last pre)" "post = [] \<or> \<not> P (hd post)"
    by (auto simp add: maximal_run_def)
  from d obtain us where
    "(a = pre @ us \<and> us @ c # cs = w @ post) \<or> (a @ us = pre \<and> c # cs = us @ w @ post)"
    unfolding append_eq_append_conv2 by blast
  then show "(a \<noteq> [] \<and> w = a) \<or> maximal_run P w cs"
  proof
    assume h: "a = pre @ us \<and> us @ c # cs = w @ post"
    have p: "pre = []"
    proof (rule ccontr)
      assume "pre \<noteq> []"
      then have "last pre \<in> set a" using h by simp
      then show False using assms(1) b(1) \<open>pre \<noteq> []\<close> by blast
    qed
    then have e: "a @ c # cs = w @ post" using h by simp
    then obtain vs where
      "(a = w @ vs \<and> vs @ c # cs = post) \<or> (a @ vs = w \<and> c # cs = vs @ post)"
      unfolding append_eq_append_conv2 by blast
    then have "w = a"
    proof
      assume k: "a = w @ vs \<and> vs @ c # cs = post"
      show "w = a"
      proof (cases vs)
        case Nil
        then show ?thesis using k by simp
      next
        case (Cons v vs')
        then have "hd post = v" "v \<in> set a" "post \<noteq> []" using k by auto
        then show ?thesis using assms(1) b(2) by blast
      qed
    next
      assume k: "a @ vs = w \<and> c # cs = vs @ post"
      show "w = a"
      proof (cases vs)
        case Nil
        then show ?thesis using k by simp
      next
        case (Cons v vs')
        then have "c \<in> set w" using k by auto
        then show ?thesis using assms(2) w(2) by blast
      qed
    qed
    then show ?thesis using w(1) by simp
  next
    assume h: "a @ us = pre \<and> c # cs = us @ w @ post"
    show ?thesis
    proof (cases us)
      case Nil
      then have "c \<in> set w" using h w(1) by (cases w) auto
      then show ?thesis using assms(2) w(2) by blast
    next
      case (Cons u us')
      then have cs: "cs = us' @ w @ post" and pre: "pre = a @ c # us'" using h by auto
      have "us' = [] \<or> \<not> P (last us')" using b(1) pre by auto
      then have "maximal_run P w cs"
        unfolding maximal_run_def using w cs b(2) by blast
      then show ?thesis by simp
    qed
  qed
next
  assume "(a \<noteq> [] \<and> w = a) \<or> maximal_run P w cs"
  then show "maximal_run P w (a @ c # cs)"
  proof
    assume "a \<noteq> [] \<and> w = a"
    then have "w \<noteq> []" "\<forall>x \<in> set w. P x" "a @ c # cs = [] @ w @ (c # cs)"
      "\<not> P (hd (c # cs))"
      using assms by simp_all
    then show ?thesis unfolding maximal_run_def by blast
  next
    assume "maximal_run P w cs"
    then obtain pre post where w: "w \<noteq> []" "\<forall>x \<in> set w. P x" and d: "cs = pre @ w @ post"
      and b: "pre = [] \<or> \<not> P (last pre)" "post = [] \<or> \<not> P (hd post)"
      by (auto simp add: maximal_run_def)
    have "a @ c # cs = (a @ c # pre) @ w @ post" using d by simp
    moreover have "\<not> P (last (a @ c # pre))" using b(1) assms(2) by auto
    ultimately show ?thesis unfolding maximal_run_def using w b(2) by blast
  qed
qed

lemma runs_aux_maximal:
  assumes "\<forall>x \<in> set acc. P x"
  shows "w \<in> set (runs_aux P acc s) \<longleftrightarrow> maximal_run P w (rev acc @ s)"
  using assms
proof (induction s arbitrary: acc)
  case Nil
  then show ?case using maximal_run_all [of "rev acc" P w] by auto
next
  case (Cons c cs)
  show ?case
  proof (cases "P c")
    case True
    then show ?thesis using Cons.IH [of "c # acc"] Cons.prems by simp
  next
    case False
    have "maximal_run P w (rev acc @ c # cs) \<longleftrightarrow> (rev acc \<noteq> [] \<and> w = rev acc) \<or> maximal_run P w cs"
      using maximal_run_break [of "rev acc" P c w cs] Cons.prems False by simp
    then show ?thesis using Cons.IH [of "[]"] False by auto
  qed
qed

text \<open>The words that \<open>findall_words\<close> returns are exactly the whole words of the string.\<close>
lemma runs_maximal: "w \<in> set (runs P s) \<longleftrightarrow> maximal_run P w s"
  using runs_aux_maximal [of "[]" P w s] by (simp add: runs_def)

lemma findall_words_maximal: "w \<in> set (findall_words s) \<longleftrightarrow> maximal_run is_word w s"
  by (simp add: findall_words_def runs_maximal)

lemma typos_no_dash_all:
  "list_all (\<lambda>(correct, typos). list_all (\<lambda>t. CHR ''-'' \<notin> set t) typos) ROLE_TYPOS"
  by code_simp

lemma typos_no_dash:
  "(correct, typos) \<in> set ROLE_TYPOS \<Longrightarrow> t \<in> set typos \<Longrightarrow> CHR ''-'' \<notin> set t"
  using typos_no_dash_all by (auto simp add: list_all_iff)

lemma arrow_left_unique:
  assumes "CHR ''-'' \<notin> set a" and "CHR ''-'' \<notin> set b"
    and "a @ ''->'' @ x = b @ ''->'' @ y"
  shows "a = b"
proof -
  have "takeWhile (\<lambda>c. c \<noteq> CHR ''-'') (a @ ''->'' @ x) = a"
    using assms(1) by (induction a) auto
  moreover have "takeWhile (\<lambda>c. c \<noteq> CHR ''-'') (b @ ''->'' @ y) = b"
    using assms(2) by (induction b) auto
  ultimately show ?thesis using assms(3) by simp
qed

text \<open>What check 13 reports.\<close>
lemma role_check_typos_set:
  "set (role_check_typos rl) =
     {''role_typo:'' @ t @ ''->'' @ c | t c typos.
        (c, typos) \<in> set ROLE_TYPOS
        \<and> find (\<lambda>typo. typo \<in> set (findall_words rl)) typos = Some t}"
  by (auto simp add: role_check_typos_def Let_def split: option.splits) force

text \<open>The codes of a non-empty role are the codes of the 28 checks.\<close>
lemma validate_role_set:
  assumes "truthy role" and "r = strip (py_str role)" and "rl = lower (strip (py_str role))"
  shows "set (validate_role role) =
     set (role_check_length r) \<union> set (role_check_letters r) \<union> set (role_check_numbers r)
     \<union> set (role_check_placeholder rl) \<union> set (role_check_repeated_chars r)
     \<union> set (role_check_repeated_words rl) \<union> set (role_check_scam rl)
     \<union> set (role_check_url r) \<union> set (role_check_email r) \<union> set (role_check_phone r)
     \<union> set (role_check_non_english r) \<union> set (role_check_tld rl)
     \<union> set (role_check_typos rl) \<union> set (role_check_few_letters r)
     \<union> set (role_check_special_start r) \<union> set (role_check_achievement r)
     \<union> set (role_check_incomplete rl) \<union> set (role_check_company r rl)
     \<union> set (role_check_emoji r) \<union> set (role_check_hiring rl) \<union> set (role_check_bio rl)
     \<union> set (role_check_keywords r rl) \<union> set (role_check_gibberish r)
     \<union> set (role_check_geographic rl) \<union> set (role_check_marketing r)
     \<union> set (role_check_csuite rl) \<union> set (role_check_comma r) \<union> set (role_check_pipe r)"
  using assms(1) unfolding assms(2,3) validate_role_def Let_def
  by (simp add: Un_assoc)

lemma typo_codes_in_validate_role:
  "truthy role \<Longrightarrow>
   set (role_check_typos (lower (strip (py_str role)))) \<subseteq> set (validate_role role)"
  using validate_role_set [of role "strip (py_str role)" "lower (strip (py_str role))"]
  by blast

text \<open>No other check reports a code that starts with \<open>role_typo:\<close>.\<close>
lemma no_typo_code_simple:
  "''role_typo:'' @ z \<notin> set (role_check_length r)"
  "''role_typo:'' @ z \<notin> set (role_check_letters r)"
  "''role_typo:'' @ z \<notin> set (role_check_numbers r)"
  "''role_typo:'' @ z \<notin> set (role_check_placeholder r)"
  "''role_typo:'' @ z \<notin> set (role_check_repeated_chars r)"
  "''role_typo:'' @ z \<notin> set (role_check_repeated_words r)"
  "''role_typo:'' @ z \<notin> set (role_check_url r)"
  "''role_typo:'' @ z \<notin> set (role_check_email r)"
  "''role_typo:'' @ z \<notin> set (role_check_phone r)"
  "''role_typo:'' @ z \<notin> set (role_check_non_english r)"
  "''role_typo:'' @ z \<notin> set (role_check_tld r)"
  by (simp_all add: role_check_length_def role_check_letters_def role_check_numbers_def
      role_check_placeholder_def role_check_repeated_chars_def role_check_repeated_words_def
      role_check_url_def role_check_email_def role_check_phone_def role_check_non_english_def
      role_check_tld_def Let_def)

lemma no_typo_code_simple2:
  "''role_typo:'' @ z \<notin> set (role_check_few_letters r)"
  "''role_typo:'' @ z \<notin> set (role_check_special_start r)"
  "''role_typo:'' @ z \<notin> set (role_check_achievement r)"
  "''role_typo:'' @ z \<notin> set (role_check_incomplete r)"
  "''role_typo:'' @ z \<notin> set (role_check_company r r')"
  "''role_typo:'' @ z \<notin> set (role_check_emoji r)"
  "''role_typo:'' @ z \<notin> set (role_check_hiring r)"
  "''role_typo:'' @ z \<notin> set (role_check_bio r)"
  "''role_typo:'' @ z \<notin> set (role_check_keywords r r')"
  "''role_typo:'' @ z \<notin> set (role_check_gibberish r)"
  "''role_typo:'' @ z \<notin> set (role_check_marketing r)"
  "''role_typo:'' @ z \<notin> set (role_check_comma r)"
  "''role_typo:'' @ z \<notin> set (role_check_pipe r)"
  by (simp_all add: role_check_few_letters_def role_check_special_start_def
      role_check_achievement_def role_check_incomplete_def role_check_company_def
      role_check_emoji_def role_check_hiring_def role_check_bio_def role_check_keywords_def
      role_check_gibberish_def role_check_marketing_def role_check_comma_def
      role_check_pipe_def Let_def split: list.split)

lemma no_typo_code_found:
  "''role_typo:'' @ z \<notin> set (role_check_scam r)"
  "''role_typo:'' @ z \<notin> set (role_check_geographic r)"
  "''role_typo:'' @ z \<notin> set (role_check_csuite r)"
  by (simp_all add: role_check_scam_def role_check_geographic_def role_check_csuite_def Let_def
      split: option.split)

lemma typo_code_origin:
  assumes "''role_typo:'' @ z \<in> set (validate_role role)"
  shows "truthy role \<and> ''role_typo:'' @ z \<in> set (role_check_typos (lower (strip (py_str role))))"
proof (cases "truthy role")
  case False
  then show ?thesis using assms by (simp add: validate_role_def)
next
  case True
  from assms have "''role_typo:'' @ z \<in> set (role_check_typos (lower (strip (py_str role))))"
    by (simp only: validate_role_set [OF True refl refl] Un_iff no_typo_code_simple
        no_typo_code_simple2 no_typo_code_found simp_thms)
  then show ?thesis using True by simp
qed

lemma typo_code_fires:
  assumes "(correct, typos) \<in> set ROLE_TYPOS" and "truthy role"
    and "find (\<lambda>typo. typo \<in> set (findall_words (lower (strip (py_str role))))) typos = Some t"
  shows "''role_typo:'' @ t @ ''->'' @ correct \<in> set (validate_role role)"
proof -
  have "''role_typo:'' @ t @ ''->'' @ correct
      \<in> set (role_check_typos (lower (strip (py_str role))))"
    unfolding role_check_typos_set using assms(1,3) by blast
  then show ?thesis
    using typo_codes_in_validate_role [OF assms(2)] by blast
qed

lemma typo_code_only_for_words:
  assumes "(correct, typos) \<in> set ROLE_TYPOS" and "typo \<in> set typos"
    and "''role_typo:'' @ typo @ ''->'' @ correct \<in> set (validate_role role)"
  shows "typo \<in> set (findall_words (lower (strip (py_str role))))"
proof -
  from typo_code_origin [OF assms(3)]
  have "''role_typo:'' @ typo @ ''->'' @ correct
      \<in> set (role_check_typos (lower (strip (py_str role))))"
    by simp
  then obtain t c ts where e: "''role_typo:'' @ typo @ ''->'' @ correct = ''role_typo:'' @ t @ ''->'' @ c"
    and m: "(c, ts) \<in> set ROLE_TYPOS"
    and f: "find (\<lambda>typo. typo \<in> set (findall_words (lower (strip (py_str role))))) ts = Some t"
    unfolding role_check_typos_set by blast
  from f have t: "t \<in> set ts" "t \<in> set (findall_words (lower (strip (py_str role))))"
    by (auto simp add: find_Some_iff)
  have "typo = t"
    using arrow_left_unique [OF typos_no_dash [OF assms(1,2)] typos_no_dash [OF m t(1)]] e
    by simp
  then show ?thesis using t(2) by simp
qed

text \<open>
  C1, as the code has it. Let a role be a non-empty string and take a canonical word of the
  dictionary with its list of misspellings. A whole word of the role is a member of
  \<open>findall_words\<close> of the stripped, lower-cased role, that is a maximal run of word characters
  (\<open>findall_words_maximal\<close>). If one of the misspellings is a whole word of
  the lower-cased role, \<open>validate_role\<close> reports \<open>role_typo:<t>-><canonical>\<close> for the first
  misspelling \<open>t\<close> in the list that is a whole word of the role (one code for each canonical
  word); this is the given misspelling when no other misspelling of the same canonical word
  is a word of the role. If a misspelling is not a whole word of the role (it may occur
  inside a longer word), no \<open>role_typo\<close> code for it is reported.
\<close>
theorem validate_role_typo:
  assumes "(correct, typos) \<in> set ROLE_TYPOS" and "typo \<in> set typos" and "role \<noteq> []"
  shows "(typo \<in> set (findall_words (lower (strip role))) \<longrightarrow>
           (\<exists>t. find (\<lambda>t'. t' \<in> set (findall_words (lower (strip role)))) typos = Some t
              \<and> ''role_typo:'' @ t @ ''->'' @ correct \<in> set (validate_role (PStr role))))
       \<and> (typo \<in> set (findall_words (lower (strip role)))
            \<and> (\<forall>t' \<in> set typos. t' \<in> set (findall_words (lower (strip role))) \<longrightarrow> t' = typo) \<longrightarrow>
           ''role_typo:'' @ typo @ ''->'' @ correct \<in> set (validate_role (PStr role)))
       \<and> (typo \<notin> set (findall_words (lower (strip role))) \<longrightarrow>
           ''role_typo:'' @ typo @ ''->'' @ correct \<notin> set (validate_role (PStr role)))"
proof (intro conjI impI)
  assume w: "typo \<in> set (findall_words (lower (strip role)))"
  then obtain t where f: "find (\<lambda>t'. t' \<in> set (findall_words (lower (strip role)))) typos = Some t"
    using assms(2) by (cases "find (\<lambda>t'. t' \<in> set (findall_words (lower (strip role)))) typos")
      (auto simp add: find_None_iff)
  then have "''role_typo:'' @ t @ ''->'' @ correct \<in> set (validate_role (PStr role))"
    using typo_code_fires [OF assms(1), of "PStr role" t] assms(3) by simp
  then show "\<exists>t. find (\<lambda>t'. t' \<in> set (findall_words (lower (strip role)))) typos = Some t
      \<and> ''role_typo:'' @ t @ ''->'' @ correct \<in> set (validate_role (PStr role))"
    using f by blast
next
  assume h: "typo \<in> set (findall_words (lower (strip role)))
      \<and> (\<forall>t' \<in> set typos. t' \<in> set (findall_words (lower (strip role))) \<longrightarrow> t' = typo)"
  then obtain t where f: "find (\<lambda>t'. t' \<in> set (findall_words (lower (strip role)))) typos = Some t"
    using assms(2) by (cases "find (\<lambda>t'. t' \<in> set (findall_words (lower (strip role)))) typos")
      (auto simp add: find_None_iff)
  then have "t \<in> set typos" "t \<in> set (findall_words (lower (strip role)))"
    by (auto simp add: find_Some_iff)
  then have "t = typo" using h by blast
  then show "''role_typo:'' @ typo @ ''->'' @ correct \<in> set (validate_role (PStr role))"
    using typo_code_fires [OF assms(1), of "PStr role" t] assms(3) f by simp
next
  assume n: "typo \<notin> set (findall_words (lower (strip role)))"
  show "''role_typo:'' @ typo @ ''->'' @ correct \<notin> set (validate_role (PStr role))"
    using typo_code_only_for_words [OF assms(1,2), of "PStr role"] n by auto
qed

lemma manager_typos:
  "(''manager'', [''manger'', ''maneger'', ''managr'', ''mangaer'', ''manaager'', ''managar'',
        ''manageer'', ''maanger'', ''mamager'', ''mnager'', ''mangager'', ''mananger'',
        ''managaer'', ''managre'', ''maager'', ''managerr'', ''mananager'', ''manater'',
        ''maneger'']) \<in> set ROLE_TYPOS"
  by (simp add: ROLE_TYPOS_def)

theorem validate_role_typo_witness:
  "''role_typo:manger->manager'' \<in> set (validate_role (PStr ''Sales Manger''))
   \<and> ''role_typo:manger->manager'' \<notin> set (validate_role (PStr ''mangerial''))"
proof -
  let ?ts = "[''manger'', ''maneger'', ''managr'', ''mangaer'', ''manaager'', ''managar'',
        ''manageer'', ''maanger'', ''mamager'', ''mnager'', ''mangager'', ''mananger'',
        ''managaer'', ''managre'', ''maager'', ''managerr'', ''mananager'', ''manater'',
        ''maneger'']"
  have m: "''manger'' \<in> set ?ts"
    by simp
  have ne: "''Sales Manger'' \<noteq> []" "''mangerial'' \<noteq> []"
    by simp_all
  have w: "''manger'' \<in> set (findall_words (lower (strip ''Sales Manger'')))"
    by code_simp
  have only: "\<forall>t' \<in> set ?ts.
      t' \<in> set (findall_words (lower (strip ''Sales Manger''))) \<longrightarrow> t' = ''manger''"
    by code_simp
  have n: "''manger'' \<notin> set (findall_words (lower (strip ''mangerial'')))"
    by code_simp
  from validate_role_typo [OF manager_typos m ne(1)] w only
  have "''role_typo:'' @ ''manger'' @ ''->'' @ ''manager''
      \<in> set (validate_role (PStr ''Sales Manger''))"
    by blast
  moreover from validate_role_typo [OF manager_typos m ne(2)] n
  have "''role_typo:'' @ ''manger'' @ ''->'' @ ''manager''
      \<notin> set (validate_role (PStr ''mangerial''))"
    by blast
  ultimately show ?thesis by simp
qed

text \<open>
  C1 as stated fails for a role with two misspellings of the same canonical word: the role
  \<open>maneger manger\<close> contains the dictionary misspelling \<open>maneger\<close> as a whole word, and the
  code \<open>role_typo:maneger->manager\<close> is not reported (the code for \<open>manger\<close>, which comes first
  in the dictionary, is).
\<close>
theorem validate_role_typo_counterexample:
  "''maneger'' \<in> set (findall_words (lower (strip ''maneger manger'')))
   \<and> ''role_typo:maneger->manager'' \<notin> set (validate_role (PStr ''maneger manger''))
   \<and> ''role_typo:manger->manager'' \<in> set (validate_role (PStr ''maneger manger''))"
proof -
  have c: "role_check_typos (lower (strip (py_str (PStr ''maneger manger''))))
      = [''role_typo:manger->manager'']"
    by code_simp
  have "''role_typo:'' @ ''maneger->manager'' \<notin> set (validate_role (PStr ''maneger manger''))"
    using typo_code_origin [of "''maneger->manager''" "PStr ''maneger manger''"] c by auto
  moreover have "''role_typo:manger->manager'' \<in> set (validate_role (PStr ''maneger manger''))"
    using typo_codes_in_validate_role [of "PStr ''maneger manger''"] c by simp
  moreover have "''maneger'' \<in> set (findall_words (lower (strip ''maneger manger'')))"
    by code_simp
  ultimately show ?thesis by simp
qed

section \<open>LinkedIn URLs: normal forms\<close>

lemma cp_char_of: "n < 256 \<Longrightarrow> cp (char_of n) = n"
  by (simp add: cp_def)

lemma lower_char_idem: "lower_char (lower_char c) = lower_char c"
proof -
  have "cp c < 256" by (simp add: cp_def)
  then show ?thesis
    by (auto simp add: lower_char_def is_ascii_upper_def cp_char_of)
qed

lemma lower_idem: "lower (lower s) = lower s"
  by (simp add: lower_def lower_char_idem)

lemma lower_fixed_subset:
  assumes "\<forall>c \<in> set u. lower_char c = c" and "set s \<subseteq> set u"
  shows "lower s = s"
  unfolding lower_def using assms by (intro map_idI) auto

lemma lower_chars_fixed: "\<forall>c \<in> set (lower s). lower_char c = c"
  by (auto simp add: lower_def lower_char_idem)

lemma rstrip_prefix: "\<exists>n. rstrip s = take n s"
proof -
  have "dropWhile is_space (rev s) = drop (length (takeWhile is_space (rev s))) (rev s)"
    by (rule dropWhile_eq_drop)
  then have "rstrip s = rev (drop (length (takeWhile is_space (rev s))) (rev s))"
    by (simp add: rstrip_def)
  then show ?thesis
    by (metis rev_drop rev_rev_ident)
qed

lemma set_rstrip: "set (rstrip s) \<subseteq> set s"
  using rstrip_prefix [of s] by (auto dest: in_set_takeD)

lemma rstrip_append:
  assumes "p \<noteq> []" and "\<not> is_space (last p)"
  shows "rstrip (p @ s) = p @ rstrip s"
proof -
  have h: "dropWhile is_space (rev p) = rev p"
    using assms by (cases "rev p") (auto simp add: last_rev [symmetric] simp del: last_rev)
  show ?thesis
    using h by (auto simp add: rstrip_def dropWhile_append)
qed

lemma rstrip_id: "s \<noteq> [] \<Longrightarrow> \<not> is_space (last s) \<Longrightarrow> rstrip s = s"
  using rstrip_append [of s "[]"] by (simp add: rstrip_def)

lemma rstrip_last: "rstrip s \<noteq> [] \<Longrightarrow> \<not> is_space (last (rstrip s))"
proof -
  assume a: "rstrip s \<noteq> []"
  then have "dropWhile is_space (rev s) \<noteq> []"
    by (simp add: rstrip_def)
  then have "\<not> is_space (hd (dropWhile is_space (rev s)))"
    by (rule hd_dropWhile)
  then show ?thesis
    using a by (simp add: rstrip_def last_rev)
qed

lemma rstrip_fixed_iff: "rstrip s = s \<longleftrightarrow> s = [] \<or> \<not> is_space (last s)"
proof (cases "s = []")
  case True
  then show ?thesis by (simp add: rstrip_def)
next
  case False
  show ?thesis
  proof
    assume e: "rstrip s = s"
    then have "rstrip s \<noteq> []" using False by simp
    then have "\<not> is_space (last (rstrip s))" by (rule rstrip_last)
    then show "s = [] \<or> \<not> is_space (last s)" using e by simp
  next
    assume "s = [] \<or> \<not> is_space (last s)"
    then show "rstrip s = s" using False rstrip_id by blast
  qed
qed

lemma split_head_takeWhile: "split_head sep s = takeWhile (\<lambda>c. c \<noteq> sep) s"
proof -
  have "split_on sep s \<noteq> [] \<and> hd (split_on sep s) = takeWhile (\<lambda>c. c \<noteq> sep) s"
    by (induction s) (auto split: list.splits)
  then show ?thesis
    by (cases "split_on sep s") (auto simp add: split_head_def)
qed

lemma squeeze_no_slash: "CHR ''/'' \<notin> set s \<Longrightarrow> squeeze_slashes (c # s) = c # s"
  by (induction s arbitrary: c) auto

lemma set_squeeze: "set (squeeze_slashes s) \<subseteq> set s"
  by (induction s rule: squeeze_slashes.induct) auto

lemma set_rstrip_chr: "set (rstrip_chr c s) \<subseteq> set s"
proof -
  have "set (dropWhile (\<lambda>x. x = c) (rev s)) \<subseteq> set (rev s)"
    by (rule set_dropWhileD [THEN subsetI]) 
  then show ?thesis by (simp add: rstrip_chr_def)
qed

lemma rstrip_chr_id: "s \<noteq> [] \<Longrightarrow> last s \<noteq> c \<Longrightarrow> rstrip_chr c s = s"
  by (cases "rev s") (auto simp add: rstrip_chr_def last_rev [symmetric] simp del: last_rev)

lemma search_slug_here:
  assumes "pre \<noteq> []" and "takeWhile (\<lambda>x. x \<noteq> CHR ''/'') s \<noteq> []"
  shows "search_slug pre (pre @ s) = Some (takeWhile (\<lambda>x. x \<noteq> CHR ''/'') s)"
  using assms by (cases pre) auto

lemma search_slug_some:
  "search_slug pre u = Some slug \<Longrightarrow>
   slug \<noteq> [] \<and> CHR ''/'' \<notin> set slug \<and> set slug \<subseteq> set u"
proof (induction u)
  case Nil
  then show ?case by simp
next
  case (Cons c cs)
  show ?case
  proof (cases "prefix pre (c # cs)
      \<and> takeWhile (\<lambda>x. x \<noteq> CHR ''/'') (drop (length pre) (c # cs)) \<noteq> []")
    case True
    then have s: "slug = takeWhile (\<lambda>x. x \<noteq> CHR ''/'') (drop (length pre) (c # cs))"
      using Cons.prems by simp
    have "set slug \<subseteq> set (drop (length pre) (c # cs))"
      unfolding s by (auto dest: set_takeWhileD)
    then have "set slug \<subseteq> set (c # cs)"
      by (meson set_drop_subset subset_trans)
    moreover have "CHR ''/'' \<notin> set slug"
      unfolding s by (auto dest: set_takeWhileD)
    ultimately show ?thesis using True s by simp
  next
    case False
    then have "search_slug pre cs = Some slug"
      using Cons.prems by (simp split: if_splits)
    then show ?thesis using Cons.IH by auto
  qed
qed

lemma rx_lit_rest:
  "st \<in> set (rx_lit l (p, u)) \<Longrightarrow> snd st = drop (length l) u"
  by (induction l arbitrary: p u) (auto split: list.splits if_splits)

lemma rx_scheme_rest:
  assumes "st \<in> set (rx_scheme (p, u))"
  shows "\<exists>n. snd st = drop n u"
proof -
  from assms obtain a b where a: "a \<in> set (rx_lit ''http'' (p, u))"
    and b: "b \<in> set (rx_opt (rx_lit ''s'') a)" and c: "st \<in> set (rx_lit ''://'' b)"
    by (auto simp add: rx_scheme_def rx_seq_def)
  have "snd a = drop (length ''http'') u"
    using a by (rule rx_lit_rest)
  then obtain i where 1: "snd a = drop i u" ..
  have "b = a \<or> b \<in> set (rx_lit ''s'' (fst a, snd a))"
    using b by (auto simp add: rx_opt_def)
  then have "snd b = drop 0 (snd a) \<or> snd b = drop (length ''s'') (snd a)"
    using rx_lit_rest [of b "''s''" "fst a" "snd a"] by auto
  then obtain j where 2: "snd b = drop j (snd a)" by blast
  have "st \<in> set (rx_lit ''://'' (fst b, snd b))"
    using c by simp
  then have "snd st = drop (length ''://'') (snd b)"
    by (rule rx_lit_rest)
  then obtain k where 3: "snd st = drop k (snd b)" ..
  have "snd st = drop (k + j + i) u"
    unfolding 3 2 1 by (simp add: add.commute add.left_commute)
  then show ?thesis ..
qed

lemma set_url_without_scheme: "set (url_without_scheme x) \<subseteq> set (lower (strip x))"
proof -
  let ?u = "lower (strip x)"
  have "set (case rx_scheme (None, ?u) of [] \<Rightarrow> ?u | st # sts \<Rightarrow> snd st) \<subseteq> set ?u"
  proof (cases "rx_scheme (None, ?u)")
    case Nil
    then show ?thesis by simp
  next
    case (Cons st sts)
    then obtain n where "snd st = drop n ?u"
      using rx_scheme_rest [of st None ?u] by auto
    then show ?thesis
      using Cons by (auto dest: in_set_dropD)
  qed
  then show ?thesis
    by (auto simp add: url_without_scheme_def Let_def drop_prefix_def dest: in_set_dropD)
qed

lemma lower_fixed_iff: "lower s = s \<longleftrightarrow> (\<forall>c \<in> set s. lower_char c = c)"
  by (induction s) (auto simp add: lower_def)


lemma path_prefix_facts:
  assumes "path_prefix t pre"
  shows "\<exists>rest. pre = CHR ''l'' # rest" and "last pre = CHR ''/''" and "pre \<noteq> []"
    and "lower pre = pre" and "CHR ''?'' \<notin> set pre" and "CHR ''#'' \<notin> set pre"
    and "prefix ''linkedin.com'' pre"
    and "CHR ''/'' \<notin> set s \<Longrightarrow> squeeze_slashes (pre @ s) = pre @ s"
    and "search_slug pre (rstrip_chr CHR ''/'' pre) = None"
proof -
  have l: "lower ''linkedin.com/in/'' = ''linkedin.com/in/''"
    "lower ''linkedin.com/company/'' = ''linkedin.com/company/''"
    by code_simp+
  have n: "search_slug ''linkedin.com/in/'' (rstrip_chr CHR ''/'' ''linkedin.com/in/'') = None"
    "search_slug ''linkedin.com/company/'' (rstrip_chr CHR ''/'' ''linkedin.com/company/'') = None"
    by code_simp+
  show "\<exists>rest. pre = CHR ''l'' # rest" "last pre = CHR ''/''" "pre \<noteq> []"
    "CHR ''?'' \<notin> set pre" "CHR ''#'' \<notin> set pre" "prefix ''linkedin.com'' pre"
    using assms by (auto simp add: path_prefix_def)
  show "lower pre = pre"
    using assms l by (auto simp add: path_prefix_def)
  show "search_slug pre (rstrip_chr CHR ''/'' pre) = None"
    using assms n by (auto simp add: path_prefix_def)
  show "CHR ''/'' \<notin> set s \<Longrightarrow> squeeze_slashes (pre @ s) = pre @ s"
    using assms by (auto simp add: path_prefix_def squeeze_no_slash)
qed

lemma not_space_chars: "\<not> is_space CHR ''l''" "\<not> is_space CHR ''/''"
  by (simp_all add: is_space_def cp_def)

lemma url_without_scheme_canonical:
  assumes "path_prefix t pre" and "lower slug = slug"
  shows "url_without_scheme (pre @ slug) = pre @ rstrip slug"
proof -
  obtain rest where r: "pre = CHR ''l'' # rest"
    using path_prefix_facts(1) [OF assms(1)] by blast
  have "lstrip (pre @ slug) = pre @ slug"
    unfolding r by (simp add: lstrip_def not_space_chars)
  then have 1: "strip (pre @ slug) = pre @ rstrip slug"
    using rstrip_append [of pre slug] path_prefix_facts(2,3) [OF assms(1)]
    by (simp add: strip_def not_space_chars)
  have "\<forall>c \<in> set slug. lower_char c = c"
    using assms(2) by (simp add: lower_fixed_iff)
  then have "lower (rstrip slug) = rstrip slug"
    using set_rstrip [of slug] by (rule lower_fixed_subset)
  then have 2: "lower (pre @ rstrip slug) = pre @ rstrip slug"
    using path_prefix_facts(4) [OF assms(1)] by (simp add: lower_def)
  have 3: "rx_scheme (None, pre @ rstrip slug) = []"
    unfolding r by (simp add: rx_scheme_def rx_seq_def)
  have 4: "drop_prefix ''www.'' (pre @ rstrip slug) = pre @ rstrip slug"
    unfolding r by (simp add: drop_prefix_def)
  show ?thesis
    by (simp add: url_without_scheme_def 1 2 3 4)
qed

lemma normalize_from_clean:
  assumes "x \<noteq> []" and "url_without_scheme x = u" and "startswith u ''linkedin.com''"
    and "rstrip_chr CHR ''/'' (squeeze_slashes (split_head CHR ''#'' (split_head CHR ''?'' u))) = u5"
    and "path_prefix t pre"
  shows "normalize_linkedin_url (PStr x) t =
     (case search_slug pre u5 of None \<Rightarrow> [] | Some slug \<Rightarrow> pre @ slug)"
  using assms by (auto simp add: normalize_linkedin_url_def Let_def path_prefix_def)

text \<open>Normalising a string of the form of a normal form: trailing whitespace of the slug is
  removed, and nothing is left when the slug is all whitespace.\<close>
lemma renormalize:
  assumes p: "path_prefix t pre"
    and s: "CHR ''/'' \<notin> set slug" "CHR ''?'' \<notin> set slug" "CHR ''#'' \<notin> set slug"
      "lower slug = slug"
  shows "normalize_linkedin_url (PStr (pre @ slug)) t
     = (if rstrip slug = [] then [] else pre @ rstrip slug)"
proof -
  let ?s = "rstrip slug"
  have sub: "set ?s \<subseteq> set slug" by (rule set_rstrip)
  have ns: "CHR ''/'' \<notin> set ?s" "CHR ''?'' \<notin> set ?s" "CHR ''#'' \<notin> set ?s"
    using sub s(1-3) by auto
  have u: "url_without_scheme (pre @ slug) = pre @ ?s"
    using p s(4) by (rule url_without_scheme_canonical)
  have st: "startswith (pre @ ?s) ''linkedin.com''"
    using path_prefix_facts(7) [OF p] by (simp add: startswith_def prefix_prefix)
  have a: "takeWhile (\<lambda>c. c \<noteq> CHR ''?'') (pre @ ?s) = pre @ ?s"
    using ns(2) path_prefix_facts(5) [OF p] by (auto simp add: takeWhile_eq_all_conv)
  have b: "takeWhile (\<lambda>c. c \<noteq> CHR ''#'') (pre @ ?s) = pre @ ?s"
    using ns(3) path_prefix_facts(6) [OF p] by (auto simp add: takeWhile_eq_all_conv)
  have "split_head CHR ''#'' (split_head CHR ''?'' (pre @ ?s)) = pre @ ?s"
    unfolding split_head_takeWhile a b by (rule refl)
  moreover have "squeeze_slashes (pre @ ?s) = pre @ ?s"
    using ns(1) by (rule path_prefix_facts(8) [OF p])
  ultimately have u5: "rstrip_chr CHR ''/''
      (squeeze_slashes (split_head CHR ''#'' (split_head CHR ''?'' (pre @ ?s))))
      = rstrip_chr CHR ''/'' (pre @ ?s)"
    by simp
  have ne: "pre @ slug \<noteq> []"
    using path_prefix_facts(3) [OF p] by simp
  have n: "normalize_linkedin_url (PStr (pre @ slug)) t =
     (case search_slug pre (rstrip_chr CHR ''/'' (pre @ ?s)) of
        None \<Rightarrow> [] | Some slug \<Rightarrow> pre @ slug)"
    by (rule normalize_from_clean [OF ne u st u5 p])
  show ?thesis
  proof (cases "?s = []")
    case True
    then show ?thesis
      using n path_prefix_facts(9) [OF p] by simp
  next
    case False
    then have "last ?s \<in> set ?s"
      by (rule last_in_set)
    then have "last ?s \<noteq> CHR ''/''"
      using ns(1) by metis
    then have "last (pre @ ?s) \<noteq> CHR ''/''"
      using False by simp
    then have rc: "rstrip_chr CHR ''/'' (pre @ ?s) = pre @ ?s"
      using False by (simp add: rstrip_chr_id)
    have tw: "takeWhile (\<lambda>x. x \<noteq> CHR ''/'') ?s = ?s"
      using ns(1) by (auto simp add: takeWhile_eq_all_conv)
    have "takeWhile (\<lambda>x. x \<noteq> CHR ''/'') ?s \<noteq> []"
      unfolding tw by (rule False)
    with path_prefix_facts(3) [OF p]
    have "search_slug pre (pre @ ?s) = Some (takeWhile (\<lambda>x. x \<noteq> CHR ''/'') ?s)"
      by (rule search_slug_here)
    then have "search_slug pre (rstrip_chr CHR ''/'' (pre @ ?s)) = Some ?s"
      unfolding tw rc .
    then show ?thesis
      using n False by simp
  qed
qed

text \<open>A normal form is empty, or a path prefix followed by a slug: a non-empty lower-case
  string without slash, question mark or hash sign.\<close>
lemma normalize_shape:
  assumes "normalize_linkedin_url (PStr x) t \<noteq> []"
  shows "\<exists>pre slug. path_prefix t pre \<and> normalize_linkedin_url (PStr x) t = pre @ slug
     \<and> slug \<noteq> [] \<and> CHR ''/'' \<notin> set slug \<and> CHR ''?'' \<notin> set slug \<and> CHR ''#'' \<notin> set slug
     \<and> lower slug = slug \<and> set slug \<subseteq> set (lower (strip x))"
proof -
  let ?u3 = "url_without_scheme x"
  let ?u4 = "split_head CHR ''#'' (split_head CHR ''?'' ?u3)"
  let ?u5 = "rstrip_chr CHR ''/'' (squeeze_slashes ?u4)"
  from assms have x: "x \<noteq> []" and st: "startswith ?u3 ''linkedin.com''"
    by (auto simp add: normalize_linkedin_url_def Let_def split: if_splits)
  from assms have "t = ''profile'' \<or> t = ''company''"
    by (auto simp add: normalize_linkedin_url_def Let_def split: if_splits)
  then obtain pre where p: "path_prefix t pre"
    by (auto simp add: path_prefix_def)
  have n: "normalize_linkedin_url (PStr x) t =
     (case search_slug pre ?u5 of None \<Rightarrow> [] | Some slug \<Rightarrow> pre @ slug)"
    by (rule normalize_from_clean [OF x refl st refl p])
  then obtain slug where f: "search_slug pre ?u5 = Some slug"
    and r: "normalize_linkedin_url (PStr x) t = pre @ slug"
    using assms by (cases "search_slug pre ?u5") auto
  have sl: "slug \<noteq> []" "CHR ''/'' \<notin> set slug" "set slug \<subseteq> set ?u5"
    using search_slug_some [OF f] by auto
  have "set ?u5 \<subseteq> set ?u4"
    using set_rstrip_chr set_squeeze by (rule subset_trans)
  then have s4: "set slug \<subseteq> set ?u4"
    using sl(3) by auto
  have q: "CHR ''#'' \<notin> set ?u4" "CHR ''?'' \<notin> set ?u4"
    by (auto simp add: split_head_takeWhile dest: set_takeWhileD)
  have "set ?u4 \<subseteq> set ?u3"
    by (auto simp add: split_head_takeWhile dest: set_takeWhileD)
  then have sx: "set slug \<subseteq> set (lower (strip x))"
    using s4 set_url_without_scheme [of x] by blast
  then have "lower slug = slug"
    using lower_chars_fixed [of "strip x"] by (rule lower_fixed_subset [rotated])
  then show ?thesis
    using p r sl(1,2) q s4 sx by blast
qed

lemma normalize_empty_again: "normalize_linkedin_url (PStr []) t = []"
  by (simp add: normalize_linkedin_url_def)

lemma normalize_twice:
  "normalize_linkedin_url (PStr (normalize_linkedin_url (PStr x) t)) t
     = (if rstrip (normalize_linkedin_url (PStr x) t) = normalize_linkedin_url (PStr x) t
        then normalize_linkedin_url (PStr x) t
        else normalize_linkedin_url (PStr (normalize_linkedin_url (PStr x) t)) t)
   \<and> (normalize_linkedin_url (PStr (normalize_linkedin_url (PStr x) t)) t
        = normalize_linkedin_url (PStr x) t
      \<longleftrightarrow> normalize_linkedin_url (PStr x) t = []
          \<or> \<not> is_space (last (normalize_linkedin_url (PStr x) t)))"
proof (cases "normalize_linkedin_url (PStr x) t = []")
  case True
  then show ?thesis by (simp add: normalize_empty_again rstrip_def)
next
  case False
  then obtain pre slug where p: "path_prefix t pre"
    and r: "normalize_linkedin_url (PStr x) t = pre @ slug"
    and s: "slug \<noteq> []" "CHR ''/'' \<notin> set slug" "CHR ''?'' \<notin> set slug" "CHR ''#'' \<notin> set slug"
      "lower slug = slug"
    using normalize_shape [OF False] by blast
  have again: "normalize_linkedin_url (PStr (pre @ slug)) t
      = (if rstrip slug = [] then [] else pre @ rstrip slug)"
    using p s(2-5) by (rule renormalize)
  have pre: "pre \<noteq> []" "\<not> is_space (last pre)"
    using path_prefix_facts(2,3) [OF p] by (simp_all add: not_space_chars)
  have rs: "rstrip (pre @ slug) = pre @ rstrip slug"
    using pre by (rule rstrip_append)
  have l: "last (pre @ slug) = last slug"
    using s(1) by simp
  have fx: "rstrip slug = slug \<longleftrightarrow> \<not> is_space (last slug)"
    using s(1) by (simp add: rstrip_fixed_iff)
  show ?thesis
    unfolding r again rs l using s(1) pre(1) fx by auto
qed

lemma is_space_lower_char: "is_space (lower_char c) = is_space c"
proof -
  have "cp c < 256" by (simp add: cp_def)
  then show ?thesis
    by (auto simp add: lower_char_def is_ascii_upper_def is_space_def cp_char_of)
qed

lemma set_strip: "set (strip s) \<subseteq> set s"
  using set_rstrip [of "lstrip s"] by (auto simp add: strip_def lstrip_def dest: set_dropWhileD)

lemma no_space_normal_form:
  assumes "\<forall>c \<in> set x. \<not> is_space c" and "normalize_linkedin_url (PStr x) t \<noteq> []"
  shows "\<not> is_space (last (normalize_linkedin_url (PStr x) t))"
proof -
  obtain pre slug where r: "normalize_linkedin_url (PStr x) t = pre @ slug"
    and s: "slug \<noteq> []" "set slug \<subseteq> set (lower (strip x))"
    using normalize_shape [OF assms(2)] by blast
  have "last slug \<in> set (lower (strip x))"
    using s last_in_set [of slug] by blast
  then obtain d where d: "d \<in> set (strip x)" "last slug = lower_char d"
    by (auto simp add: lower_def)
  then have "\<not> is_space d"
    using assms(1) set_strip [of x] by blast
  then have "\<not> is_space (last slug)"
    using d(2) by (simp add: is_space_lower_char)
  then show ?thesis
    using r s(1) by simp
qed

text \<open>Where the trailing whitespace cannot arise: the normal form of an input without
  whitespace is normalised to itself.\<close>
lemma normalize_idempotent_no_space:
  assumes "\<forall>c \<in> set x. \<not> is_space c"
  shows "normalize_linkedin_url (PStr (normalize_linkedin_url (PStr x) t)) t
     = normalize_linkedin_url (PStr x) t"
  using normalize_twice [of x t] no_space_normal_form [OF assms, of t] by blast

text \<open>
  C2: \<open>normalize_linkedin_url\<close> should be idempotent, and should return the empty string for
  a URL whose host is not \<open>linkedin.com\<close>. The code misses both. The input is trimmed before
  the query string is cut off, so a space before the question mark stays at the end of the
  normal form \<open>linkedin.com/in/bob \<close>, and the next call trims it: the normal form of a normal
  form differs from it. And the test of the host is a test of the first characters, so a
  URL whose host is \<open>linkedin.com.evil.org\<close> passes it, and a profile path further along is
  returned instead of the empty string.
\<close>
theorem normalize_linkedin_url_not_canonical:
  "normalize_linkedin_url (PStr ''https://www.linkedin.com/in/bob ?trk=1'') ''profile''
     = ''linkedin.com/in/bob ''
   \<and> normalize_linkedin_url
        (PStr (normalize_linkedin_url (PStr ''https://www.linkedin.com/in/bob ?trk=1'') ''profile''))
        ''profile''
     = ''linkedin.com/in/bob''
   \<and> normalize_linkedin_url
        (PStr (normalize_linkedin_url (PStr ''https://www.linkedin.com/in/bob ?trk=1'') ''profile''))
        ''profile''
     \<noteq> normalize_linkedin_url (PStr ''https://www.linkedin.com/in/bob ?trk=1'') ''profile''
   \<and> url_host ''https://linkedin.com.evil.org/linkedin.com/in/bob'' = ''linkedin.com.evil.org''
   \<and> normalize_linkedin_url (PStr ''https://linkedin.com.evil.org/linkedin.com/in/bob'') ''profile''
     = ''linkedin.com/in/bob''"
proof -
  have "normalize_linkedin_url (PStr ''https://www.linkedin.com/in/bob ?trk=1'') ''profile''
     = ''linkedin.com/in/bob ''"
    by code_simp
  moreover have "normalize_linkedin_url (PStr ''linkedin.com/in/bob '') ''profile''
     = ''linkedin.com/in/bob''"
    by code_simp
  moreover have "url_host ''https://linkedin.com.evil.org/linkedin.com/in/bob''
     = ''linkedin.com.evil.org''"
    by code_simp
  moreover have "normalize_linkedin_url
      (PStr ''https://linkedin.com.evil.org/linkedin.com/in/bob'') ''profile''
     = ''linkedin.com/in/bob''"
    by code_simp
  ultimately show ?thesis by simp
qed

end
